(* ===== verification/Prelude.thy ===== *)
theory Prelude
  imports Main "HOL-Library.Sublist" "HOL-Library.Word"
begin

text \<open>
  Shared vocabulary of the development: the JavaScript values the services exchange
  (strings, byte buffers, \<open>Error\<close> objects) and the built-in string operations the
  sources call (\<open>String.prototype.trim\<close>, \<open>startsWith\<close>, \<open>includes\<close>,
  \<open>Array.prototype.join\<close>), each as an executable function with the lemmas the
  component theories use. JavaScript strings are sequences of UTF-16 code units; the
  model's strings are HOL \<open>string\<close>s, i.e. sequences of code units in the range
  0--255 (Latin-1). Whitespace is the part of ECMAScript's WhiteSpace and
  LineTerminator classes in that range.
\<close>

named_theorems js_string_simps
  "characteristic equations of the modelled JavaScript string operations"

type_synonym byte = "8 word"

text \<open>A thrown JavaScript \<open>Error\<close>, observed through its \<open>message\<close> property.\<close>

datatype js_error = Error (message: string)

subsection \<open>Whitespace and \<open>trim\<close>\<close>

definition js_space_chars :: "char list" where
  "js_space_chars = [CHR 0x09, CHR 0x0A, CHR 0x0B, CHR 0x0C, CHR 0x0D, CHR 0x20, CHR 0xA0]"

definition is_js_space :: "char \<Rightarrow> bool" where
  "is_js_space c \<longleftrightarrow> c \<in> set js_space_chars"

text \<open>\<open>s.trim()\<close>: drop leading and trailing whitespace.\<close>

definition js_trim :: "string \<Rightarrow> string" where
  "js_trim s = rev (dropWhile is_js_space (rev (dropWhile is_js_space s)))"

definition all_space :: "string \<Rightarrow> bool" where
  "all_space s \<longleftrightarrow> list_all is_js_space s"

subsection \<open>Prefixes, substrings, \<open>join\<close>\<close>

text \<open>\<open>s.startsWith(p)\<close>, compared code unit by code unit.\<close>

fun js_starts_with :: "string \<Rightarrow> string \<Rightarrow> bool" where
  "js_starts_with s [] = True"
| "js_starts_with [] (c # p) = False"
| "js_starts_with (x # s) (c # p) = (x = c \<and> js_starts_with s p)"

text \<open>\<open>s.includes(t)\<close>: some position of \<open>s\<close> at which \<open>t\<close> starts.\<close>

fun js_includes :: "string \<Rightarrow> string \<Rightarrow> bool" where
  "js_includes [] t = js_starts_with [] t"
| "js_includes (x # s) t = (js_starts_with (x # s) t \<or> js_includes s t)"

text \<open>\<open>xs.join(sep)\<close>.\<close>

fun js_join :: "string \<Rightarrow> string list \<Rightarrow> string" where
  "js_join sep [] = []"
| "js_join sep [x] = x"
| "js_join sep (x # y # xs) = x @ sep @ js_join sep (y # xs)"

subsection \<open>Exceptions\<close>

text \<open>Code that may throw returns \<open>js_error + 'a\<close>. \<open>sbind\<close> runs the rest of the code
  only when the first part returns normally; \<open>smap\<close> is \<open>Array.prototype.map\<close> with a
  callback that may throw: the first exception stops the loop and propagates.\<close>

definition sbind :: "'e + 'a \<Rightarrow> ('a \<Rightarrow> 'e + 'b) \<Rightarrow> 'e + 'b" where
  "sbind m f = (case m of Inl e \<Rightarrow> Inl e | Inr a \<Rightarrow> f a)"

fun smap :: "('a \<Rightarrow> 'e + 'b) \<Rightarrow> 'a list \<Rightarrow> 'e + 'b list" where
  "smap f [] = Inr []"
| "smap f (x # xs) = sbind (f x) (\<lambda>y. sbind (smap f xs) (\<lambda>ys. Inr (y # ys)))"

subsection \<open>Lemmas\<close>

lemma sbind_simps [simp]: "sbind (Inl e) f = Inl e" "sbind (Inr a) f = f a"
  by (simp_all add: sbind_def)

lemma sbind_eq_Inr: "sbind m f = Inr b \<longleftrightarrow> (\<exists>a. m = Inr a \<and> f a = Inr b)"
  by (cases m) simp_all

lemma smap_Inr: "(\<And>x. x \<in> set xs \<Longrightarrow> f x = Inr (g x)) \<Longrightarrow> smap f xs = Inr (map g xs)"
  by (induction xs) simp_all


lemma is_js_space_code [js_string_simps]:
  "is_js_space c \<longleftrightarrow> c = CHR 0x09 \<or> c = CHR 0x0A \<or> c = CHR 0x0B \<or> c = CHR 0x0C
     \<or> c = CHR 0x0D \<or> c = CHR 0x20 \<or> c = CHR 0xA0"
  by (auto simp: is_js_space_def js_space_chars_def)

lemma dropWhile_all_Nil_iff: "dropWhile P s = [] \<longleftrightarrow> (\<forall>c\<in>set s. P c)"
  by (induction s) auto

lemma ball_dropWhile_iff: "(\<forall>c\<in>set (dropWhile P s). P c) \<longleftrightarrow> (\<forall>c\<in>set s. P c)"
  by (induction s) auto

lemma js_trim_Nil_iff [js_string_simps]: "js_trim s = [] \<longleftrightarrow> all_space s"
  by (simp add: js_trim_def all_space_def list_all_iff dropWhile_all_Nil_iff
      ball_dropWhile_iff)

lemma js_trim_nonempty_iff: "0 < length (js_trim s) \<longleftrightarrow> \<not> all_space s"
  by (simp add: js_trim_Nil_iff [symmetric])

lemma all_space_Nil [simp]: "all_space []"
  by (simp add: all_space_def)

lemma all_space_append [simp]: "all_space (xs @ ys) \<longleftrightarrow> all_space xs \<and> all_space ys"
  by (simp add: all_space_def)

lemma all_space_Cons [simp]: "all_space (c # s) \<longleftrightarrow> is_js_space c \<and> all_space s"
  by (simp add: all_space_def)

lemma js_starts_with_prefix [js_string_simps]: "js_starts_with s p \<longleftrightarrow> prefix p s"
  by (induction s p rule: js_starts_with.induct) auto

lemma js_starts_with_append [simp]: "js_starts_with (p @ s) p"
  by (simp add: js_starts_with_prefix)

text \<open>The executable \<open>includes\<close> agrees with the library's contiguous-sublist relation.\<close>

lemma js_includes_sublist [js_string_simps]: "js_includes s t \<longleftrightarrow> sublist t s"
proof (induction s)
  case Nil
  then show ?case by (simp add: js_starts_with_prefix)
next
  case (Cons x s)
  then show ?case
    by (simp add: js_starts_with_prefix sublist_Cons_right)
qed

lemma sublist_js_join: "x \<in> set xs \<Longrightarrow> sublist x (js_join sep xs)"
proof (induction sep xs rule: js_join.induct)
  case (1 sep)
  then show ?case by simp
next
  case (2 sep x')
  then show ?case by simp
next
  case (3 sep x' y xs)
  show ?case
  proof (cases "x = x'")
    case True
    have "sublist x' ([] @ x' @ (sep @ js_join sep (y # xs)))" by (rule sublist_appendI)
    with True show ?thesis by simp
  next
    case False
    with "3.prems" have "sublist x (js_join sep (y # xs))" by (intro "3.IH") simp
    moreover have "sublist (js_join sep (y # xs)) ((x' @ sep) @ js_join sep (y # xs))"
      by (rule sublist_append_leftI)
    ultimately have "sublist x ((x' @ sep) @ js_join sep (y # xs))"
      by (rule sublist_order.order.trans)
    then show ?thesis by simp
  qed
qed

end
