(* ===== verification/FileParser.thy ===== *)
theory FileParser
  imports Prelude
begin

text \<open>
  The document text extractor, \<open>src/services/fileParser.ts\<close>: \<open>readTextFile\<close>,
  \<open>readPdfFile\<close> with its page loop, and the dispatcher \<open>extractTextFromFile\<close>.
  The browser services the module calls (the \<open>FileReader\<close>'s text decoding and
  pdf.js's \<open>getDocument\<close>) are the fields of a record \<open>browser\<close>, so every
  lemma holds for every decoder and every PDF library. Each promise of the source is a
  value of \<open>js_error + string\<close>: \<open>Inl\<close> is the rejection with its \<open>Error\<close>.
  The awaits inside the extractor touch no shared state, so each call is one function.
\<close>

subsection \<open>Data\<close>

text \<open>A \<open>File\<close>: its name, its MIME type, and what reading it yields (the bytes,
  or the read failure that rejects \<open>arrayBuffer()\<close> and fires \<open>reader.onerror\<close>).\<close>

record js_file =
  file_name :: string
  file_type :: string
  file_contents :: "js_error + byte list"

text \<open>An item of \<open>page.getTextContent().items\<close>: a \<open>TextItem\<close> carries a \<open>str\<close>
  property, a \<open>TextMarkedContent\<close> does not.\<close>

datatype text_item = TextItem string | TextMarkedContent

text \<open>A loaded pdf.js document: \<open>numPages\<close>, and for each page number the result of
  \<open>await pdf.getPage(i)\<close> followed by \<open>await page.getTextContent()\<close>.\<close>

record pdf_document =
  num_pages :: nat
  get_page :: "nat \<Rightarrow> js_error + text_item list"

record browser =
  read_as_text :: "byte list \<Rightarrow> string"
  pdf_get_document :: "byte list \<Rightarrow> js_error + pdf_document"

subsection \<open>Messages\<close>

definition txt_empty_msg :: string where
  "txt_empty_msg = ''The TXT file appears to be empty. Please upload a file with content.''"

definition txt_read_failed_msg :: string where
  "txt_read_failed_msg = ''Failed to read the TXT file. It might be corrupted.''"

definition pdf_empty_msg :: string where
  "pdf_empty_msg = ''The PDF file appears to be empty.''"

definition pdf_no_text_msg :: string where
  "pdf_no_text_msg =
     ''Could not extract any text from the PDF. It might contain only images or be empty.''"

definition pdf_unreadable_msg :: string where
  "pdf_unreadable_msg =
     ''Could not read the PDF file. It might be corrupted or in an unsupported format.''"

definition unsupported_msg :: string where
  "unsupported_msg = ''Unsupported file type''"

subsection \<open>Plain text\<close>

text \<open>\<open>readTextFile\<close>: \<open>onerror\<close> rejects with the corruption message; \<open>onload\<close>
  resolves with the text when \<open>text && text.trim().length > 0\<close>.\<close>

definition read_text_file :: "browser \<Rightarrow> js_file \<Rightarrow> js_error + string" where
  "read_text_file br f =
     (case file_contents f of
        Inl _ \<Rightarrow> Inl (Error txt_read_failed_msg)
      | Inr bytes \<Rightarrow>
          (let text = read_as_text br bytes in
           if text \<noteq> [] \<and> 0 < length (js_trim text) then Inr text
           else Inl (Error txt_empty_msg)))"

subsection \<open>PDF\<close>

fun item_str :: "text_item \<Rightarrow> string" where
  "item_str (TextItem s) = s"
| "item_str TextMarkedContent = []"

text \<open>One iteration's contribution (line 38):
  \<open>text.items.map(item => ('str' in item ? item.str : '')).join(' ') + '\n'\<close>.\<close>

definition page_text :: "text_item list \<Rightarrow> string" where
  "page_text its = js_join '' '' (map item_str its) @ ''\<newline>''"

text \<open>The loop \<open>for (let i = 1; i <= pdf.numPages; i++)\<close>, accumulating into
  \<open>textContent\<close>; a page that fails to load ends the loop with its error.\<close>

function pdf_text_loop :: "pdf_document \<Rightarrow> nat \<Rightarrow> string \<Rightarrow> js_error + string" where
  "pdf_text_loop pdf i acc =
     (if i \<le> num_pages pdf then
        (case get_page pdf i of
           Inl e \<Rightarrow> Inl e
         | Inr its \<Rightarrow> pdf_text_loop pdf (Suc i) (acc @ page_text its))
      else Inr acc)"
  by pat_completeness auto
termination
  by (relation "measure (\<lambda>(pdf, i, acc). Suc (num_pages pdf) - i)") auto

declare pdf_text_loop.simps [simp del]

text \<open>The \<open>try\<close> block of \<open>readPdfFile\<close> (lines 28--45).\<close>

definition read_pdf_body :: "browser \<Rightarrow> js_file \<Rightarrow> js_error + string" where
  "read_pdf_body br f =
     (case file_contents f of
        Inl e \<Rightarrow> Inl e
      | Inr buf \<Rightarrow>
          (if length buf = 0 then Inl (Error pdf_empty_msg)
           else
             (case pdf_get_document br buf of
                Inl e \<Rightarrow> Inl e
              | Inr pdf \<Rightarrow>
                  (case pdf_text_loop pdf 1 [] of
                     Inl e \<Rightarrow> Inl e
                   | Inr text \<Rightarrow>
                       (if 0 < length (js_trim text) then Inr text
                        else Inl (Error pdf_no_text_msg))))))"

text \<open>The \<open>catch\<close> block: an error whose message contains \<open>"empty"\<close> or
  \<open>"extract any text"\<close> is re-thrown as it is, any other is replaced.\<close>

definition pdf_error_kept :: "js_error \<Rightarrow> bool" where
  "pdf_error_kept e \<longleftrightarrow>
     js_includes (message e) ''empty'' \<or> js_includes (message e) ''extract any text''"

definition read_pdf_file :: "browser \<Rightarrow> js_file \<Rightarrow> js_error + string" where
  "read_pdf_file br f =
     (case read_pdf_body br f of
        Inr text \<Rightarrow> Inr text
      | Inl e \<Rightarrow> (if pdf_error_kept e then Inl e else Inl (Error pdf_unreadable_msg)))"

subsection \<open>Dispatch on the MIME type\<close>

definition extract_text_from_file :: "browser \<Rightarrow> js_file \<Rightarrow> js_error + string" where
  "extract_text_from_file br f =
     (if file_type f = ''text/plain'' then read_text_file br f
      else if file_type f = ''application/pdf'' then read_pdf_file br f
      else Inl (Error unsupported_msg))"

subsection \<open>Reference specification of the page loop\<close>

text \<open>The first failing result of a list of results, or all of their values.\<close>

fun collect_results :: "('e + 'a) list \<Rightarrow> 'e + 'a list" where
  "collect_results [] = Inr []"
| "collect_results (r # rs) =
     (case r of
        Inl e \<Rightarrow> Inl e
      | Inr x \<Rightarrow> (case collect_results rs of Inl e \<Rightarrow> Inl e | Inr xs \<Rightarrow> Inr (x # xs)))"

text \<open>The text of a document: the page texts of pages \<open>1..numPages\<close> in order, or the
  first page error.\<close>

definition pdf_text_spec :: "pdf_document \<Rightarrow> js_error + string" where
  "pdf_text_spec pdf =
     (case collect_results (map (get_page pdf) [1..<Suc (num_pages pdf)]) of
        Inl e \<Rightarrow> Inl e
      | Inr pages \<Rightarrow> Inr (concat (map page_text pages)))"

subsection \<open>Example inputs\<close>

text \<open>A two-page document with text, and a one-page scan whose page has no text items.\<close>

definition example_pdf :: pdf_document where
  "example_pdf =
     \<lparr>num_pages = 2,
      get_page = (\<lambda>i. if i = 1 then Inr [TextItem ''Backend'', TextItem ''engineer'']
                      else Inr [TextMarkedContent, TextItem ''5 years''])\<rparr>"

definition example_scan :: pdf_document where
  "example_scan = \<lparr>num_pages = 1, get_page = (\<lambda>i. Inr [TextMarkedContent])\<rparr>"

text \<open>A browser whose decoder yields the text of scenario A for any non-empty buffer,
  and whose PDF library opens one-byte buffers as \<open>example_pdf\<close>, two-byte buffers as
  \<open>example_scan\<close>, and rejects every other buffer.\<close>

definition example_browser :: browser where
  "example_browser =
     \<lparr>read_as_text = (\<lambda>bs. if bs = [] then [] else ''Experienced backend engineer, 5 years.''),
      pdf_get_document = (\<lambda>bs. if length bs = 1 then Inr example_pdf
                               else if length bs = 2 then Inr example_scan
                               else Inl (Error ''Invalid PDF structure.''))\<rparr>"

definition txt_file :: "byte list \<Rightarrow> js_file" where
  "txt_file bs = \<lparr>file_name = ''cv.txt'', file_type = ''text/plain'', file_contents = Inr bs\<rparr>"

definition pdf_file :: "byte list \<Rightarrow> js_file" where
  "pdf_file bs = \<lparr>file_name = ''cv.pdf'', file_type = ''application/pdf'', file_contents = Inr bs\<rparr>"

subsection \<open>The page loop\<close>

lemma pdf_text_loop_collect:
  "pdf_text_loop pdf i acc =
     (case collect_results (map (get_page pdf) [i..<Suc (num_pages pdf)]) of
        Inl e \<Rightarrow> Inl e
      | Inr pages \<Rightarrow> Inr (acc @ concat (map page_text pages)))"
proof (induction pdf i acc rule: pdf_text_loop.induct)
  case (1 pdf i acc)
  show ?case
  proof (cases "i \<le> num_pages pdf")
    case True
    then have "[i..<Suc (num_pages pdf)] = i # [Suc i..<Suc (num_pages pdf)]"
      by (simp add: upt_conv_Cons)
    with True "1.IH" show ?thesis
      by (auto simp: pdf_text_loop.simps [of pdf i acc] split: sum.splits)
  next
    case False
    then show ?thesis by (simp add: pdf_text_loop.simps [of pdf i acc])
  qed
qed

text \<open>C31: The page loop of \<open>readPdfFile\<close> terminates on every document (it is a total function, by the measure \<open>numPages + 1 - i\<close>) and computes the page texts of pages 1 to \<open>numPages\<close> in order, each page's items joined by spaces and ended by a newline, or the first page error.\<close>

theorem pdf_text_loop_spec: "pdf_text_loop pdf 1 [] = pdf_text_spec pdf"
  by (simp add: pdf_text_loop_collect pdf_text_spec_def split: sum.split)

subsection \<open>The catch block recognises the extractor's own messages\<close>

lemma pdf_error_kept_own [simp]:
  "pdf_error_kept (Error pdf_empty_msg)"
  "pdf_error_kept (Error pdf_no_text_msg)"
  "\<not> pdf_error_kept (Error pdf_unreadable_msg)"
  by (simp_all add: pdf_error_kept_def pdf_empty_msg_def pdf_no_text_msg_def
      pdf_unreadable_msg_def)

lemmas extract_defs = extract_text_from_file_def read_text_file_def read_pdf_file_def
  read_pdf_body_def

subsection \<open>Behaviour on every branch\<close>

text \<open>A file whose MIME type is neither \<open>text/plain\<close> nor \<open>application/pdf\<close> is rejected with the unsupported-type error, whatever its contents and whatever the browser.\<close>

lemma extract_unsupported:
  assumes "file_type f \<noteq> ''text/plain''" and "file_type f \<noteq> ''application/pdf''"
  shows "extract_text_from_file br f = Inl (Error unsupported_msg)"
  using assms by (simp add: extract_text_from_file_def)

text \<open>A plain-text file whose decoded text has a non-whitespace character is returned unchanged.\<close>

lemma extract_txt_content:
  assumes "file_type f = ''text/plain''" and "file_contents f = Inr bytes"
    and "\<not> all_space (read_as_text br bytes)"
  shows "extract_text_from_file br f = Inr (read_as_text br bytes)"
  using assms by (auto simp: extract_defs js_trim_Nil_iff Let_def)

text \<open>A plain-text file whose decoded text is empty or only whitespace fails with the empty-file error.\<close>

lemma extract_txt_blank:
  assumes "file_type f = ''text/plain''" and "file_contents f = Inr bytes"
    and "all_space (read_as_text br bytes)"
  shows "extract_text_from_file br f = Inl (Error txt_empty_msg)"
  using assms by (auto simp: extract_defs js_trim_Nil_iff Let_def)

text \<open>A plain-text file that cannot be read fails with the corrupted-file error.\<close>

lemma extract_txt_read_error:
  assumes "file_type f = ''text/plain''" and "file_contents f = Inl e"
  shows "extract_text_from_file br f = Inl (Error txt_read_failed_msg)"
  using assms by (simp add: extract_defs)

text \<open>A zero-length PDF fails with the empty-file error before the PDF library is consulted (for every library).\<close>

lemma extract_pdf_zero_length:
  assumes "file_type f = ''application/pdf''" and "file_contents f = Inr []"
  shows "extract_text_from_file br f = Inl (Error pdf_empty_msg)"
  using assms by (simp add: extract_defs)

text \<open>C30: A PDF whose pages all load yields the concatenation of its page texts when that text is not blank.\<close>

theorem extract_pdf_text:
  assumes "file_type f = ''application/pdf''" and "file_contents f = Inr buf"
    and "buf \<noteq> []" and "pdf_get_document br buf = Inr pdf"
    and "collect_results (map (get_page pdf) [1..<Suc (num_pages pdf)]) = Inr pages"
    and "\<not> all_space (concat (map page_text pages))"
  shows "extract_text_from_file br f = Inr (concat (map page_text pages))"
  using assms by (simp add: extract_defs pdf_text_loop_collect js_trim_Nil_iff)

text \<open>C34: A PDF whose pages all load but whose text is blank (an image-only scan) fails with the could-not-extract-text error.\<close>

theorem extract_pdf_image_only:
  assumes "file_type f = ''application/pdf''" and "file_contents f = Inr buf"
    and "buf \<noteq> []" and "pdf_get_document br buf = Inr pdf"
    and "collect_results (map (get_page pdf) [1..<Suc (num_pages pdf)]) = Inr pages"
    and "all_space (concat (map page_text pages))"
  shows "extract_text_from_file br f = Inl (Error pdf_no_text_msg)"
  using assms by (simp add: extract_defs pdf_text_loop_collect js_trim_Nil_iff)

text \<open>C32: An error of the PDF library on a non-empty buffer is replaced by the generic could-not-read error unless its message contains \<open>empty\<close> or \<open>extract any text\<close>, in which case the library's own message reaches the user.\<close>

theorem extract_pdf_library_error:
  assumes "file_type f = ''application/pdf''" and "file_contents f = Inr buf"
    and "buf \<noteq> []" and "pdf_get_document br buf = Inl e"
  shows "extract_text_from_file br f =
           Inl (if pdf_error_kept e then e else Error pdf_unreadable_msg)"
  using assms by (simp add: extract_defs)

lemma extract_text_not_blank:
  "extract_text_from_file br f = Inr text \<Longrightarrow> \<not> all_space text"
  by (auto simp: extract_defs js_trim_Nil_iff Let_def split: if_splits sum.splits)

text \<open>C6: Whenever extraction succeeds, on any path, the text it returns has a non-whitespace character.\<close>

theorem extract_success_not_blank:
  assumes "extract_text_from_file br f = Inr text"
  shows "\<not> all_space text"
  using assms by (rule extract_text_not_blank)

subsection \<open>Witnesses\<close>

lemmas example_simps = example_browser_def example_pdf_def example_scan_def txt_file_def
  pdf_file_def

theorem extract_unsupported_witness:
  "extract_text_from_file example_browser
     \<lparr>file_name = ''cv.docx'', file_type = ''application/msword'', file_contents = Inr []\<rparr>
   = Inl (Error unsupported_msg)"
  by (rule extract_unsupported) simp_all

theorem extract_txt_content_witness:
  "extract_text_from_file example_browser (txt_file [65])
   = Inr ''Experienced backend engineer, 5 years.''"
proof -
  have "\<not> all_space (read_as_text example_browser [65])"
    by (simp add: example_simps is_js_space_code)
  from extract_txt_content [OF _ _ this] show ?thesis
    by (simp add: example_simps)
qed

theorem extract_txt_blank_witness:
  "extract_text_from_file example_browser (txt_file []) = Inl (Error txt_empty_msg)"
  by (rule extract_txt_blank [where bytes = "[]"]) (simp_all add: example_simps)

theorem extract_txt_read_error_witness:
  "extract_text_from_file example_browser
     \<lparr>file_name = ''cv.txt'', file_type = ''text/plain'',
      file_contents = Inl (Error ''NotReadableError'')\<rparr>
   = Inl (Error txt_read_failed_msg)"
  by (rule extract_txt_read_error) simp_all

theorem extract_pdf_zero_length_witness:
  "extract_text_from_file example_browser (pdf_file []) = Inl (Error pdf_empty_msg)"
  by (rule extract_pdf_zero_length) (simp_all add: pdf_file_def)

theorem extract_pdf_text_witness:
  "extract_text_from_file example_browser (pdf_file [7])
   = Inr ''Backend engineer\<newline> 5 years\<newline>''"
proof -
  have pages: "collect_results (map (get_page example_pdf) [1..<Suc (num_pages example_pdf)])
      = Inr [[TextItem ''Backend'', TextItem ''engineer''], [TextMarkedContent, TextItem ''5 years'']]"
    by (simp add: example_pdf_def upt_rec)
  have "\<not> all_space (concat (map page_text
      [[TextItem ''Backend'', TextItem ''engineer''], [TextMarkedContent, TextItem ''5 years'']]))"
    by (simp add: page_text_def is_js_space_code)
  from extract_pdf_text [OF _ _ _ _ pages this] show ?thesis
    by (simp add: example_simps page_text_def)
qed

theorem extract_pdf_image_only_witness:
  "extract_text_from_file example_browser (pdf_file [7, 7]) = Inl (Error pdf_no_text_msg)"
proof -
  have pages: "collect_results (map (get_page example_scan) [1..<Suc (num_pages example_scan)])
      = Inr [[TextMarkedContent]]"
    by (simp add: example_scan_def)
  have "all_space (concat (map page_text [[TextMarkedContent]]))"
    by (simp add: page_text_def is_js_space_code)
  from extract_pdf_image_only [OF _ _ _ _ pages this] show ?thesis
    by (simp add: example_simps)
qed

theorem extract_pdf_library_error_witness:
  "extract_text_from_file example_browser (pdf_file [1, 2, 3])
   = Inl (Error pdf_unreadable_msg)"
proof -
  have "\<not> pdf_error_kept (Error ''Invalid PDF structure.'')"
    by (simp add: pdf_error_kept_def)
  with extract_pdf_library_error [of "pdf_file [1, 2, 3]" "[1, 2, 3]" example_browser
      "Error ''Invalid PDF structure.''"]
  show ?thesis by (simp add: example_simps)
qed

theorem extract_success_not_blank_witness:
  "extract_text_from_file example_browser (pdf_file [7])
     = Inr ''Backend engineer\<newline> 5 years\<newline>''
   \<and> \<not> all_space ''Backend engineer\<newline> 5 years\<newline>''"
proof -
  have ok: "extract_text_from_file example_browser (pdf_file [7])
     = Inr ''Backend engineer\<newline> 5 years\<newline>''"
    by (simp add: example_simps extract_defs pdf_text_loop.simps page_text_def
        js_trim_def is_js_space_code)
  from ok extract_success_not_blank [OF ok] show ?thesis by simp
qed

end
