(* ===== verification/Upload.thy ===== *)
theory Upload
  imports FileParser
begin

text \<open>
  The upload control, \<open>src/components/FileUpload.tsx\<close>. The component keeps its own
  state (\<open>isDragging\<close>, \<open>isParsing\<close>, \<open>parsingFileName\<close>). It reaches its parent
  only through its props, the callbacks \<open>onFileProcessed\<close>, \<open>onError\<close> and
  \<open>onRemoveFile\<close>. The props are a record of functions over the parent's state type
  \<open>'p\<close>, so every lemma here holds for every parent. \<open>processFile\<close> is an
  \<open>async\<close> function with one \<open>await\<close> (the extraction). Its part before the
  \<open>await\<close> is \<open>process_file_start\<close>; its continuation is \<open>process_file_finish\<close>.
  Between the two, the extraction is in flight; it is recorded in \<open>pending_parse\<close> (the
  suspended call, not a React state variable).
\<close>

subsection \<open>State and props\<close>

record upload_state =
  is_dragging :: bool
  is_parsing :: bool
  parsing_file_name :: "string option"
  pending_parse :: "js_file option"

record 'p upload_props =
  on_file_processed :: "string \<Rightarrow> string \<Rightarrow> 'p \<Rightarrow> 'p"
  on_error :: "string \<Rightarrow> 'p \<Rightarrow> 'p"
  on_remove_file :: "'p \<Rightarrow> 'p"

definition upload_init :: upload_state where
  "upload_init =
     \<lparr>is_dragging = False, is_parsing = False, parsing_file_name = None, pending_parse = None\<rparr>"

definition accepted_mime_types :: "string list" where
  "accepted_mime_types = [''application/pdf'', ''text/plain'']"

definition unsupported_upload_msg :: string where
  "unsupported_upload_msg = ''File type not supported. Please upload a PDF or TXT file.''"

subsection \<open>processFile\<close>

text \<open>Lines 25--34: the MIME check reports through \<open>onError\<close> and returns; otherwise the
  control enters its parsing state, clears the parent's error with \<open>onError('')\<close> and
  starts the extraction.\<close>

definition process_file_start ::
  "'p upload_props \<Rightarrow> js_file \<Rightarrow> upload_state \<times> 'p \<Rightarrow> upload_state \<times> 'p" where
  "process_file_start props f = (\<lambda>(u, p).
     (if file_type f \<notin> set accepted_mime_types
      then (u, on_error props unsupported_upload_msg p)
      else (u\<lparr>is_parsing := True, parsing_file_name := Some (file_name f),
              pending_parse := Some f\<rparr>,
            on_error props [] p)))"

text \<open>Lines 36--47: the continuation after \<open>await extractTextFromFile(file)\<close>. Success
  hands the text and the file name to \<open>onFileProcessed\<close>. Failure reports the error's
  message and calls \<open>onRemoveFile\<close>. Either way, the \<open>finally\<close> block leaves the
  parsing state.\<close>

definition process_file_finish ::
  "'p upload_props \<Rightarrow> js_file \<Rightarrow> js_error + string \<Rightarrow> upload_state \<times> 'p \<Rightarrow> upload_state \<times> 'p" where
  "process_file_finish props f r = (\<lambda>(u, p).
     (u\<lparr>is_parsing := False, parsing_file_name := None, pending_parse := None\<rparr>,
      (case r of
         Inr text \<Rightarrow> on_file_processed props text (file_name f) p
       | Inl e \<Rightarrow> on_remove_file props (on_error props (message e) p))))"

subsection \<open>Event handlers\<close>

definition handle_drag_enter :: "upload_state \<Rightarrow> upload_state" where
  "handle_drag_enter u = u\<lparr>is_dragging := True\<rparr>"

definition handle_drag_leave :: "upload_state \<Rightarrow> upload_state" where
  "handle_drag_leave u = u\<lparr>is_dragging := False\<rparr>"

text \<open>\<open>handleDragOver\<close> (lines 62--65) only calls \<open>preventDefault\<close>, which lets the
  browser deliver the drop; it changes no state.\<close>

definition handle_drag_over :: "upload_state \<Rightarrow> upload_state" where
  "handle_drag_over u = u"

text \<open>\<open>handleRemoveClick\<close> (lines 88--90), the Remove button of the file view.\<close>

definition handle_remove_click :: "'p upload_props \<Rightarrow> upload_state \<times> 'p \<Rightarrow> upload_state \<times> 'p" where
  "handle_remove_click props = (\<lambda>(u, p). (u, on_remove_file props p))"

text \<open>\<open>handleDrop\<close> and \<open>handleFileSelect\<close> process the first file of a non-empty list;
  the drop also ends the dragging state. (Resetting the input element's value changes no
  state of the model.)\<close>

definition process_first ::
  "'p upload_props \<Rightarrow> js_file list \<Rightarrow> upload_state \<times> 'p \<Rightarrow> upload_state \<times> 'p" where
  "process_first props fs up = (case fs of [] \<Rightarrow> up | f # _ \<Rightarrow> process_file_start props f up)"

definition handle_drop ::
  "'p upload_props \<Rightarrow> js_file list \<Rightarrow> upload_state \<times> 'p \<Rightarrow> upload_state \<times> 'p" where
  "handle_drop props fs = (\<lambda>(u, p). process_first props fs (u\<lparr>is_dragging := False\<rparr>, p))"

definition handle_file_select ::
  "'p upload_props \<Rightarrow> js_file list \<Rightarrow> upload_state \<times> 'p \<Rightarrow> upload_state \<times> 'p" where
  "handle_file_select props fs = process_first props fs"

subsection \<open>What the control renders\<close>

text \<open>Lines 94--171: the parsing view while \<open>isParsing\<close>; otherwise the file view with
  its Remove button when the parent's \<open>fileName\<close> is truthy; otherwise the drop zone
  with the file input. Only the rendered view's controls can fire events.\<close>

datatype upload_view = ParsingView "string option" | FileView string | DropZone bool

definition upload_view :: "upload_state \<Rightarrow> string option \<Rightarrow> upload_view" where
  "upload_view u fname =
     (if is_parsing u then ParsingView (parsing_file_name u)
      else (case fname of Some n \<Rightarrow> (if n \<noteq> [] then FileView n else DropZone (is_dragging u))
            | None \<Rightarrow> DropZone (is_dragging u)))"

end
