(* ===== verification/Fence.thy ===== *)
theory Fence
  imports Prelude
begin

text \<open>
  The cleaning step of \<open>parseAnalysisResponse\<close> (\<open>src/services/geminiService.ts\<close>,
  line 13): \<open>responseText.replace(/^```json\s*|```\s*$/g, '')\<close>.
  \<open>regex_replace_all\<close> is ECMAScript's \<open>RegExp.prototype[@@replace]\<close> for a global
  regular expression and an empty replacement. It scans the positions from left to right,
  takes the first match, continues at the match's end, and after an empty match copies one
  character and moves on. The regular expression is a matcher: given the whole string and
  a start position, it returns the end of the match that the backtracking engine finds
  there. Without the \<open>m\<close> flag, \<open>^\<close> holds only at position 0 and \<open>$\<close> only at the
  end. A greedy \<open>\s*\<close> at the end of an alternative matches the longest run of
  whitespace. \<open>\s*$\<close> therefore matches exactly when the rest of the string is
  whitespace.
\<close>

subsection \<open>Global replace with the empty string\<close>

function regex_replace_all :: "(string \<Rightarrow> nat \<Rightarrow> nat option) \<Rightarrow> string \<Rightarrow> nat \<Rightarrow> string" where
  "regex_replace_all m s i =
     (if length s < i then []
      else
        (case m s i of
           Some e \<Rightarrow>
             (if i < e then regex_replace_all m s e
              else if i < length s then s ! i # regex_replace_all m s (Suc i) else [])
         | None \<Rightarrow> (if i < length s then s ! i # regex_replace_all m s (Suc i) else [])))"
  by pat_completeness auto
termination
  by (relation "measure (\<lambda>(m, s, i). Suc (length s) - i)") auto

declare regex_replace_all.simps [simp del]

subsection \<open>The fence pattern\<close>

definition fence_open :: string where
  "fence_open = ''```json''"

definition fence_close :: string where
  "fence_close = ''```''"

text \<open>The matcher of \<open>/^```json\s*|```\s*$/\<close>: the first alternative, at position 0
  only, then the second, which must reach the end of the string.\<close>

definition fence_match :: "string \<Rightarrow> nat \<Rightarrow> nat option" where
  "fence_match s i =
     (if i = 0 \<and> js_starts_with s fence_open
      then Some (length fence_open + length (takeWhile is_js_space (drop (length fence_open) s)))
      else if js_starts_with (drop i s) fence_close \<and> all_space (drop (i + length fence_close) s)
      then Some (length s)
      else None)"

definition strip_fence :: "string \<Rightarrow> string" where
  "strip_fence response_text = regex_replace_all fence_match response_text 0"

subsection \<open>Reference specification\<close>

text \<open>Remove the closing fence: the first position from which the rest is
  \<open>```\<close> followed by whitespace only.\<close>

fun drop_closing_fence :: "string \<Rightarrow> string" where
  "drop_closing_fence [] = []"
| "drop_closing_fence (c # r) =
     (if js_starts_with (c # r) fence_close \<and> all_space (drop (length fence_close) (c # r))
      then [] else c # drop_closing_fence r)"

text \<open>Remove an opening \<open>```json\<close> and the whitespace after it, then the closing fence.\<close>

definition strip_fence_spec :: "string \<Rightarrow> string" where
  "strip_fence_spec s =
     drop_closing_fence
       (if js_starts_with s fence_open then dropWhile is_js_space (drop (length fence_open) s)
        else s)"

subsection \<open>The scan computes the reference\<close>

lemma fence_lengths [simp]: "length fence_open = 7" "length fence_close = 3"
  by (simp_all add: fence_open_def fence_close_def)

lemma regex_replace_all_at_end:
  "m s (length s) = None \<Longrightarrow> regex_replace_all m s (length s) = []"
  by (simp add: regex_replace_all.simps [of m s "length s"])

lemma fence_match_tail:
  assumes "i < length s" and "i = 0 \<longrightarrow> \<not> js_starts_with s fence_open"
  shows "fence_match s i =
           (if js_starts_with (drop i s) fence_close \<and> all_space (drop (i + 3) s)
            then Some (length s) else None)"
  using assms by (auto simp: fence_match_def)

lemma strip_tail_spec:
  assumes "i \<le> length s" and "i = 0 \<longrightarrow> \<not> js_starts_with s fence_open"
  shows "regex_replace_all fence_match s i = drop_closing_fence (drop i s)"
  using assms
proof (induction "length s - i" arbitrary: i)
  case 0
  then have i: "i = length s" by simp
  have "fence_match s (length s) = None"
    using 0 i by (auto simp: fence_match_def fence_close_def js_starts_with_prefix)
  with i show ?case by (simp add: regex_replace_all_at_end)
next
  case (Suc k)
  then have lt: "i < length s" by simp
  have drop_i: "drop i s = s ! i # drop (Suc i) s"
    using lt by (simp add: Cons_nth_drop_Suc)
  show ?case
  proof (cases "js_starts_with (drop i s) fence_close \<and> all_space (drop (i + 3) s)")
    case True
    then have "fence_match s i = Some (length s)"
      using fence_match_tail [OF lt] Suc.prems(2) by simp
    moreover have "fence_match s (length s) = None"
      using lt by (auto simp: fence_match_def fence_close_def js_starts_with_prefix)
    ultimately have "regex_replace_all fence_match s i = []"
      using lt by (simp add: regex_replace_all.simps [of fence_match s i]
          regex_replace_all_at_end)
    with True drop_i show ?thesis by (simp add: numeral_3_eq_3)
  next
    case False
    then have "fence_match s i = None"
      using fence_match_tail [OF lt] Suc.prems(2) by simp
    then have "regex_replace_all fence_match s i
        = s ! i # regex_replace_all fence_match s (Suc i)"
      using lt by (simp add: regex_replace_all.simps [of fence_match s i])
    also have "\<dots> = s ! i # drop_closing_fence (drop (Suc i) s)"
      using Suc.hyps(1) [of "Suc i"] Suc.hyps(2) lt by simp
    finally show ?thesis
      using False drop_i by (simp add: numeral_3_eq_3)
  qed
qed

lemma strip_open_spec:
  assumes "js_starts_with s fence_open"
  shows "regex_replace_all fence_match s 0
           = drop_closing_fence (dropWhile is_js_space (drop 7 s))"
proof -
  let ?e = "7 + length (takeWhile is_js_space (drop 7 s))"
  have len: "7 \<le> length s"
    using assms by (auto simp: js_starts_with_prefix dest: prefix_length_le)
  have e_le: "?e \<le> length s"
    using len length_takeWhile_le [of is_js_space "drop 7 s"] by simp
  have "fence_match s 0 = Some ?e"
    using assms by (simp add: fence_match_def)
  then have "regex_replace_all fence_match s 0 = regex_replace_all fence_match s ?e"
    by (simp add: regex_replace_all.simps [of fence_match s 0])
  also have "\<dots> = drop_closing_fence (drop ?e s)"
    using e_le by (simp add: strip_tail_spec)
  also have "drop ?e s = dropWhile is_js_space (drop 7 s)"
    by (simp add: dropWhile_eq_drop add.commute)
  finally show ?thesis .
qed

lemma strip_fence_spec_agrees: "strip_fence s = strip_fence_spec s"
proof (cases "js_starts_with s fence_open")
  case True
  then show ?thesis by (simp add: strip_fence_def strip_fence_spec_def strip_open_spec)
next
  case False
  then show ?thesis by (simp add: strip_fence_def strip_fence_spec_def strip_tail_spec)
qed

subsection \<open>The closing fence\<close>

lemma backtick_in_drop_fence:
  "k < 3 \<Longrightarrow> CHR 0x60 \<in> set (drop k (fence_close @ w))"
  by (auto simp: fence_close_def less_Suc_eq numeral_3_eq_3)

lemma not_all_space_drop_fence:
  assumes "x \<noteq> []"
  shows "\<not> all_space (drop 3 (x @ fence_close @ w))"
proof -
  have "3 - length x < 3" using assms by simp
  then have "CHR 0x60 \<in> set (drop (3 - length x) (fence_close @ w))"
    by (rule backtick_in_drop_fence)
  then have "CHR 0x60 \<in> set (drop 3 (x @ fence_close @ w))"
    by (simp add: drop_append)
  then show ?thesis by (auto simp: all_space_def list_all_iff is_js_space_code)
qed

lemma drop_closing_fence_append:
  "all_space ws \<Longrightarrow> drop_closing_fence (body @ fence_close @ ws) = body"
proof (induction body)
  case Nil
  then show ?case by (simp add: fence_close_def)
next
  case (Cons c r)
  have "\<not> all_space (drop 3 ((c # r) @ fence_close @ ws))"
    by (rule not_all_space_drop_fence) simp
  with Cons show ?case by simp
qed

lemma drop_closing_fence_no_fence:
  "\<not> sublist fence_close s \<Longrightarrow> drop_closing_fence s = s"
  by (induction s) (auto simp: js_starts_with_prefix sublist_Cons_right)

lemma drop_closing_fence_open:
  "\<not> sublist fence_close b \<Longrightarrow> drop_closing_fence (fence_open @ b) = fence_open @ b"
  by (simp add: fence_open_def fence_close_def drop_closing_fence_no_fence js_starts_with_prefix
      is_js_space_code)

lemma open_fence_sublist: "js_starts_with s fence_open \<Longrightarrow> sublist fence_close s"
proof -
  assume "js_starts_with s fence_open"
  then obtain r where "s = fence_open @ r"
    by (auto simp: js_starts_with_prefix prefix_def)
  then have "s = [] @ fence_close @ (''json'' @ r)"
    by (simp add: fence_open_def fence_close_def)
  then show ?thesis by (metis sublist_appendI)
qed

lemma prefix_json_backtick: "prefix ''json'' (t @ CHR 0x60 # r) \<Longrightarrow> prefix ''json'' t"
proof (auto simp: prefix_append prefix_Cons)
  fix zs
  assume "''json'' = t @ CHR 0x60 # zs"
  then have "CHR 0x60 \<in> set ''json''" by simp
  then show False by simp
qed

lemma dropWhile_space_fenced:
  assumes "all_space ws1" and "body = [] \<or> \<not> is_js_space (hd body)"
  shows "dropWhile is_js_space (ws1 @ body @ fence_close @ ws2) = body @ fence_close @ ws2"
proof -
  have "dropWhile is_js_space (ws1 @ body @ fence_close @ ws2)
      = dropWhile is_js_space (body @ fence_close @ ws2)"
    using assms(1) by (simp add: all_space_def list_all_iff)
  also have "\<dots> = body @ fence_close @ ws2"
    using assms(2)
    by (cases body) (auto simp: fence_close_def is_js_space_code)
  finally show ?thesis .
qed

lemma strip_fence_fenced:
  "all_space ws1 \<Longrightarrow> all_space ws2 \<Longrightarrow> body = [] \<or> \<not> is_js_space (hd body) \<Longrightarrow>
   strip_fence (fence_open @ ws1 @ body @ fence_close @ ws2) = body"
  by (simp add: strip_fence_spec_agrees strip_fence_spec_def dropWhile_space_fenced
      drop_closing_fence_append)

text \<open>C11: the global replace with the fence pattern computes the reference: an opening
  \<open>```json\<close> at position 0 is removed with the whitespace after it, then the closing
  fence (three backticks followed only by whitespace) is removed.\<close>

theorem strip_fence_eq_spec: "strip_fence s = strip_fence_spec s"
  by (rule strip_fence_spec_agrees)

text \<open>C12: round trip: a body that does not start with whitespace, fenced as the prompt
  asks (\<open>```json\<close>, optional whitespace, the body, \<open>```\<close>, optional whitespace),
  is cleaned to exactly the body.\<close>

theorem strip_fence_roundtrip:
  assumes "all_space ws1" and "all_space ws2" and "body = [] \<or> \<not> is_js_space (hd body)"
  shows "strip_fence (fence_open @ ws1 @ body @ fence_close @ ws2) = body"
  using assms by (rule strip_fence_fenced)

theorem strip_fence_roundtrip_witness:
  "all_space '' '' \<and> all_space ''\<newline>'' \<and> \<not> is_js_space (hd ''{}'')
   \<and> strip_fence (fence_open @ '' '' @ ''{}'' @ fence_close @ ''\<newline>'') = ''{}''"
  using strip_fence_roundtrip [of "'' ''" "''\<newline>''" "''{}''"] by (simp add: is_js_space_code)

text \<open>A reply with no fence at all (no three backticks anywhere) is left unchanged.\<close>

lemma strip_fence_no_fence:
  assumes "\<not> sublist fence_close s"
  shows "strip_fence s = s"
proof -
  have "\<not> js_starts_with s fence_open"
    using assms open_fence_sublist by blast
  with assms show ?thesis
    by (simp add: strip_fence_spec_agrees strip_fence_spec_def drop_closing_fence_no_fence)
qed

theorem strip_fence_no_fence_witness:
  "\<not> sublist fence_close ''{}'' \<and> strip_fence ''{}'' = ''{}''"
proof -
  have "\<not> sublist fence_close ''{}''"
    using sublist_length_le [of fence_close "''{}''"] by auto
  then show ?thesis using strip_fence_no_fence [of "''{}''"] by simp
qed

text \<open>C35: an opening fence without the \<open>json\<close> tag is not removed: only the closing
  fence is, so the cleaned text still starts with three backticks.\<close>

theorem strip_fence_untagged:
  assumes "\<not> js_starts_with t ''json''" and "all_space ws"
  shows "strip_fence (fence_close @ t @ fence_close @ ws) = fence_close @ t"
proof -
  have "\<not> js_starts_with (fence_close @ t @ fence_close @ ws) fence_open"
    using assms(1)
    by (auto simp: js_starts_with_prefix fence_open_def fence_close_def
        dest: prefix_json_backtick)
  then show ?thesis
    using drop_closing_fence_append [OF assms(2), of "fence_close @ t"]
    by (simp add: strip_fence_spec_agrees strip_fence_spec_def)
qed

theorem strip_fence_untagged_witness:
  "\<not> js_starts_with ''{}'' ''json'' \<and> all_space []
   \<and> strip_fence (fence_close @ ''{}'' @ fence_close @ []) = fence_close @ ''{}''"
  using strip_fence_untagged [of "''{}''" "[]"] by simp

text \<open>C22: cleaning is not idempotent: for every body without three backticks that does not
  start with whitespace, a reply that starts with the opening fence twice loses one fence per
  cleaning: the first cleaning leaves \<open>```json\<close> in front of the body, the second removes it.\<close>

theorem strip_fence_not_idempotent:
  assumes "\<not> sublist fence_close b" and "b = [] \<or> \<not> is_js_space (hd b)"
  shows "strip_fence (fence_open @ fence_open @ b) = fence_open @ b
         \<and> strip_fence (fence_open @ b) = b"
proof -
  have d: "dropWhile is_js_space (fence_open @ b) = fence_open @ b"
    by (simp add: fence_open_def is_js_space_code)
  have b: "dropWhile is_js_space b = b" using assms(2) by (cases b) auto
  show ?thesis
    using d b drop_closing_fence_open [OF assms(1)] drop_closing_fence_no_fence [OF assms(1)]
    by (simp add: strip_fence_spec_agrees strip_fence_spec_def js_starts_with_prefix)
qed

theorem strip_fence_not_idempotent_witness:
  "\<not> sublist fence_close ''{}'' \<and> \<not> is_js_space (hd ''{}'')
   \<and> strip_fence (fence_open @ fence_open @ ''{}'') = fence_open @ ''{}''
   \<and> strip_fence (fence_open @ ''{}'') = ''{}''"
proof -
  have n: "\<not> sublist fence_close ''{}''"
    using sublist_length_le [of fence_close "''{}''"] by auto
  have h: "\<not> is_js_space (hd ''{}'')" by (simp add: is_js_space_code)
  show ?thesis using strip_fence_not_idempotent [OF n] n h by simp
qed

end
