(* ===== verification/Json.thy ===== *)
theory Json
  imports Prelude
begin

text \<open>
  JSON values and \<open>JSON.parse\<close>, which \<open>parseAnalysisResponse\<close> calls on the
  cleaned reply. \<open>JSON.parse\<close> is part of the JavaScript platform, not of this
  repository. It is modelled from the JSON grammar of ECMA-404 as ECMAScript applies it:
  whitespace is space, tab, line feed and carriage return; no trailing commas; numbers
  without leading zeros; strings without raw control characters. Numbers are kept as exact
  decimals \<open>JNum m e\<close>, the value \<open>m * 10^e\<close>, where JavaScript rounds them to a
  double. Objects are their member lists in source order, duplicates included. Escapes
  \<open>\uXXXX\<close> above \<open>00FF\<close> lie outside the model's 8-bit strings: the parser
  rejects them, with the error \<open>json_outside_model\<close>, which stands for a value the
  model cannot represent, not for a syntax error.
  The parser is recursive descent with a fuel argument. Its fuel is enough for every input:
  \<open>json_parse_fuel_enough\<close> shows that it never runs out. \<open>json_print\<close> is a
  printer in the style of \<open>JSON.stringify\<close> without spaces; the round-trip theorem
  parses what it prints.
\<close>

subsection \<open>Values\<close>

datatype json =
    JNull
  | JBool bool
  | JNum int int
  | JStr string
  | JArr "json list"
  | JObj "(string \<times> json) list"

text \<open>JavaScript truthiness of a parsed value: \<open>null\<close>, \<open>false\<close>, \<open>0\<close> and
  \<open>""\<close> are falsy; arrays and objects, even empty ones, are truthy.\<close>

fun js_truthy :: "json \<Rightarrow> bool" where
  "js_truthy JNull = False"
| "js_truthy (JBool b) = b"
| "js_truthy (JNum m e) = (m \<noteq> 0)"
| "js_truthy (JStr s) = (s \<noteq> [])"
| "js_truthy (JArr vs) = True"
| "js_truthy (JObj ms) = True"

text \<open>Property access \<open>obj.key\<close>: a later duplicate member overrides an earlier one,
  as the assignments that \<open>JSON.parse\<close> performs do; \<open>None\<close> is \<open>undefined\<close>.\<close>

definition json_get :: "json \<Rightarrow> string \<Rightarrow> json option" where
  "json_get v k = (case v of JObj ms \<Rightarrow> map_of (rev ms) k | _ \<Rightarrow> None)"

subsection \<open>Characters\<close>

definition is_json_space :: "char \<Rightarrow> bool" where
  "is_json_space c \<longleftrightarrow> c = CHR 0x20 \<or> c = CHR 0x09 \<or> c = CHR 0x0A \<or> c = CHR 0x0D"

definition skip_ws :: "string \<Rightarrow> string" where
  "skip_ws s = dropWhile is_json_space s"

definition is_digit :: "char \<Rightarrow> bool" where
  "is_digit c \<longleftrightarrow> (48::nat) \<le> of_char c \<and> (of_char c :: nat) \<le> 57"

definition digit_val :: "char \<Rightarrow> nat" where
  "digit_val c = of_char c - 48"

definition digits_val :: "string \<Rightarrow> nat" where
  "digits_val ds = foldl (\<lambda>n d. 10 * n + digit_val d) 0 ds"

definition hex_val :: "char \<Rightarrow> nat option" where
  "hex_val c =
     (let n = of_char c :: nat in
      if 48 \<le> n \<and> n \<le> 57 then Some (n - 48)
      else if 65 \<le> n \<and> n \<le> 70 then Some (n - 55)
      else if 97 \<le> n \<and> n \<le> 102 then Some (n - 87)
      else None)"

text \<open>The four hexadecimal digits of a \<open>\u\<close> escape.\<close>

fun hex4 :: "string \<Rightarrow> nat option" where
  "hex4 (a # b # c # d # _) =
     (case (hex_val a, hex_val b, hex_val c, hex_val d) of
        (Some w, Some x, Some y, Some z) \<Rightarrow> Some (((w * 16 + x) * 16 + y) * 16 + z)
      | _ \<Rightarrow> None)"
| "hex4 _ = None"

text \<open>The single-character escapes \<open>\" \\ \/ \b \f \n \r \t\<close>.\<close>

definition unescape :: "char \<Rightarrow> char option" where
  "unescape d =
     (if d = CHR 0x22 then Some (CHR 0x22)
      else if d = CHR 0x5C then Some (CHR 0x5C)
      else if d = CHR ''/'' then Some (CHR ''/'')
      else if d = CHR ''b'' then Some (CHR 0x08)
      else if d = CHR ''f'' then Some (CHR 0x0C)
      else if d = CHR ''n'' then Some (CHR 0x0A)
      else if d = CHR ''r'' then Some (CHR 0x0D)
      else if d = CHR ''t'' then Some (CHR 0x09)
      else None)"

subsection \<open>Lexing strings and numbers\<close>

text \<open>The body of a string literal after its opening quote: the characters read so far
  (reversed) and the rest of the input; the result is the string and the input after the
  closing quote.\<close>

function lex_string :: "string \<Rightarrow> string \<Rightarrow> (string \<times> string) option" where
  "lex_string acc [] = None"
| "lex_string acc (c # s) =
     (if c = CHR 0x22 then Some (rev acc, s)
      else if c = CHR 0x5C then
        (case s of
           [] \<Rightarrow> None
         | d # t \<Rightarrow>
             (case unescape d of
                Some x \<Rightarrow> lex_string (x # acc) t
              | None \<Rightarrow>
                  (if d = CHR ''u'' then
                     (case hex4 t of
                        Some n \<Rightarrow> (if n < 256 then lex_string (char_of n # acc) (drop 4 t) else None)
                      | None \<Rightarrow> None)
                   else None)))
      else if of_char c < (32::nat) then None
      else lex_string (c # acc) s)"
  by pat_completeness auto
termination
  by (relation "measure (\<lambda>(acc, s). length s)") auto

definition lex_digits :: "string \<Rightarrow> (string \<times> string) option" where
  "lex_digits s =
     (if takeWhile is_digit s = [] then None
      else Some (takeWhile is_digit s, dropWhile is_digit s))"

text \<open>The integer part: \<open>0\<close>, or a non-zero digit followed by digits.\<close>

fun lex_int_part :: "string \<Rightarrow> (string \<times> string) option" where
  "lex_int_part [] = None"
| "lex_int_part (c # s) =
     (if c = CHR ''0'' then Some (''0'', s)
      else if is_digit c then Some (c # takeWhile is_digit s, dropWhile is_digit s)
      else None)"

fun lex_frac :: "string \<Rightarrow> (string \<times> string) option" where
  "lex_frac [] = Some ([], [])"
| "lex_frac (c # s) = (if c = CHR ''.'' then lex_digits s else Some ([], c # s))"

definition lex_unsigned :: "string \<Rightarrow> (int \<times> string) option" where
  "lex_unsigned s =
     (case lex_digits s of None \<Rightarrow> None | Some (ds, r) \<Rightarrow> Some (int (digits_val ds), r))"

fun lex_exp_digits :: "string \<Rightarrow> (int \<times> string) option" where
  "lex_exp_digits [] = None"
| "lex_exp_digits (c # s) =
     (if c = CHR ''+'' then lex_unsigned s
      else if c = CHR ''-'' then map_option (\<lambda>(n, r). (- n, r)) (lex_unsigned s)
      else lex_unsigned (c # s))"

fun lex_exp :: "string \<Rightarrow> (int \<times> string) option" where
  "lex_exp [] = Some (0, [])"
| "lex_exp (c # s) =
     (if c = CHR ''e'' \<or> c = CHR ''E'' then lex_exp_digits s else Some (0, c # s))"

definition lex_number :: "string \<Rightarrow> (json \<times> string) option" where
  "lex_number s =
     (let neg = js_starts_with s ''-''; s1 = (if neg then tl s else s) in
      case lex_int_part s1 of
        None \<Rightarrow> None
      | Some (ip, s2) \<Rightarrow>
          (case lex_frac s2 of
             None \<Rightarrow> None
           | Some (fp, s3) \<Rightarrow>
               (case lex_exp s3 of
                  None \<Rightarrow> None
                | Some (ex, s4) \<Rightarrow>
                    Some (JNum ((if neg then -1 else 1) * int (digits_val (ip @ fp)))
                            (ex - int (length fp)), s4))))"

subsection \<open>The parser\<close>

datatype 'a presult = Ok 'a | Fail | NoFuel

fun pbind :: "'a presult \<Rightarrow> ('a \<Rightarrow> 'b presult) \<Rightarrow> 'b presult" where
  "pbind (Ok x) f = f x"
| "pbind Fail f = Fail"
| "pbind NoFuel f = NoFuel"

fun of_option :: "'a option \<Rightarrow> 'a presult" where
  "of_option (Some x) = Ok x"
| "of_option None = Fail"

text \<open>\<open>parse_value\<close> skips leading whitespace and reads one value. \<open>parse_items\<close>
  reads the elements of a non-empty array after its \<open>[\<close>, up to and including its
  \<open>]\<close>. \<open>parse_members\<close> does the same for the members of a non-empty object.\<close>

fun parse_value :: "nat \<Rightarrow> string \<Rightarrow> (json \<times> string) presult"
and parse_items :: "nat \<Rightarrow> string \<Rightarrow> (json list \<times> string) presult"
and parse_members :: "nat \<Rightarrow> string \<Rightarrow> ((string \<times> json) list \<times> string) presult" where
  "parse_value 0 s = NoFuel"
| "parse_value (Suc n) s =
     (case skip_ws s of
        [] \<Rightarrow> Fail
      | c # t \<Rightarrow>
          (if c = CHR ''['' then
             (case skip_ws t of
                d # u \<Rightarrow> (if d = CHR '']'' then Ok (JArr [], u)
                           else pbind (parse_items n t) (\<lambda>(vs, r). Ok (JArr vs, r)))
              | [] \<Rightarrow> Fail)
           else if c = CHR ''{'' then
             (case skip_ws t of
                d # u \<Rightarrow> (if d = CHR ''}'' then Ok (JObj [], u)
                           else pbind (parse_members n t) (\<lambda>(ms, r). Ok (JObj ms, r)))
              | [] \<Rightarrow> Fail)
           else if c = CHR 0x22 then
             of_option (map_option (\<lambda>(x, r). (JStr x, r)) (lex_string [] t))
           else if js_starts_with (c # t) ''true'' then Ok (JBool True, drop 4 (c # t))
           else if js_starts_with (c # t) ''false'' then Ok (JBool False, drop 5 (c # t))
           else if js_starts_with (c # t) ''null'' then Ok (JNull, drop 4 (c # t))
           else of_option (lex_number (c # t))))"
| "parse_items 0 s = NoFuel"
| "parse_items (Suc n) s =
     pbind (parse_value n s) (\<lambda>(v, r).
       (case skip_ws r of
          [] \<Rightarrow> Fail
        | c # t \<Rightarrow>
            (if c = CHR '','' then pbind (parse_items n t) (\<lambda>(vs, r'). Ok (v # vs, r'))
             else if c = CHR '']'' then Ok ([v], t)
             else Fail)))"
| "parse_members 0 s = NoFuel"
| "parse_members (Suc n) s =
     (case skip_ws s of
        [] \<Rightarrow> Fail
      | q # t \<Rightarrow>
          (if q \<noteq> CHR 0x22 then Fail
           else
             (case lex_string [] t of
                None \<Rightarrow> Fail
              | Some (k, r) \<Rightarrow>
                  (case skip_ws r of
                     [] \<Rightarrow> Fail
                   | c # u \<Rightarrow>
                       (if c \<noteq> CHR '':'' then Fail
                        else
                          pbind (parse_value n u) (\<lambda>(v, r').
                            (case skip_ws r' of
                               [] \<Rightarrow> Fail
                             | d # w \<Rightarrow>
                                 (if d = CHR '','' then
                                    pbind (parse_members n w) (\<lambda>(ms, r''). Ok ((k, v) # ms, r''))
                                  else if d = CHR ''}'' then Ok ([(k, v)], w)
                                  else Fail))))))))"

definition json_syntax_error :: js_error where
  "json_syntax_error = Error ''SyntaxError''"

text \<open>An escape \<open>\uXXXX\<close> above \<open>00FF\<close> denotes a UTF-16 code unit that the
  model's 8-bit strings cannot hold. A text containing one is not rejected by
  \<open>JSON.parse\<close>; when the model's parser fails on such a text, it reports
  \<open>json_outside_model\<close>, not a syntax error, so that no theorem about syntax errors
  covers it.\<close>

fun wide_escape :: "string \<Rightarrow> bool" where
  "wide_escape (c # d # t) =
     ((c = CHR 0x5C \<and> d = CHR ''u'' \<and> (case hex4 t of Some n \<Rightarrow> 256 \<le> n | None \<Rightarrow> False))
      \<or> wide_escape (d # t))"
| "wide_escape _ = False"

definition json_outside_model :: js_error where
  "json_outside_model = Error ''escape outside the model''"

text \<open>\<open>JSON.parse(text)\<close>: one value, then only whitespace.\<close>

definition json_parse :: "string \<Rightarrow> js_error + json" where
  "json_parse s =
     (case parse_value (Suc (2 * length s)) s of
        Ok (v, r) \<Rightarrow> (if skip_ws r = [] then Inr v else Inl json_syntax_error)
      | _ \<Rightarrow> Inl (if wide_escape s then json_outside_model else json_syntax_error))"

subsection \<open>Printing\<close>

definition hex_digit :: "nat \<Rightarrow> char" where
  "hex_digit n = (if n < 10 then char_of (48 + n) else char_of (87 + n))"

text \<open>\<open>JSON.stringify\<close>'s escaping: quote and backslash are escaped, control characters
  are written as \<open>\u00XX\<close>, every other character as itself.\<close>

definition escape_char :: "char \<Rightarrow> string" where
  "escape_char c =
     (if c = CHR 0x22 then [CHR 0x5C, CHR 0x22]
      else if c = CHR 0x5C then [CHR 0x5C, CHR 0x5C]
      else if of_char c < (32::nat) then
        [CHR 0x5C, CHR ''u'', CHR ''0'', CHR ''0'', hex_digit (of_char c div 16),
         hex_digit (of_char c mod 16)]
      else [c])"

definition quote_string :: "string \<Rightarrow> string" where
  "quote_string s = CHR 0x22 # concat (map escape_char s) @ [CHR 0x22]"

fun nat_digits :: "nat \<Rightarrow> string" where
  "nat_digits n =
     (if n < 10 then [char_of (48 + n)] else nat_digits (n div 10) @ [char_of (48 + n mod 10)])"

definition int_digits :: "int \<Rightarrow> string" where
  "int_digits m = (if m < 0 then CHR ''-'' # nat_digits (nat (- m)) else nat_digits (nat m))"

definition print_num :: "int \<Rightarrow> int \<Rightarrow> string" where
  "print_num m e = int_digits m @ (if e = 0 then [] else CHR ''e'' # int_digits e)"

fun json_print :: "json \<Rightarrow> string"
and print_items :: "json list \<Rightarrow> string"
and print_members :: "(string \<times> json) list \<Rightarrow> string" where
  "json_print JNull = ''null''"
| "json_print (JBool b) = (if b then ''true'' else ''false'')"
| "json_print (JNum m e) = print_num m e"
| "json_print (JStr s) = quote_string s"
| "json_print (JArr vs) = CHR ''['' # print_items vs @ '']''"
| "json_print (JObj ms) = CHR ''{'' # print_members ms @ ''}''"
| "print_items [] = []"
| "print_items [v] = json_print v"
| "print_items (v # w # vs) = json_print v @ CHR '','' # print_items (w # vs)"
| "print_members [] = []"
| "print_members [(k, v)] = quote_string k @ CHR '':'' # json_print v"
| "print_members ((k, v) # m # ms) =
     quote_string k @ CHR '':'' # json_print v @ CHR '','' # print_members (m # ms)"

text \<open>Where a printed value may end inside a larger text: at the end, or before a
  separator or a closing bracket.\<close>
definition value_end :: "string \<Rightarrow> bool" where
  "value_end r \<longleftrightarrow> r = [] \<or> hd r = CHR '','' \<or> hd r = CHR '']'' \<or> hd r = CHR ''}''"

subsection \<open>Every successful parse consumes input\<close>

lemma pbind_eq_Ok [simp]: "pbind m f = Ok y \<longleftrightarrow> (\<exists>x. m = Ok x \<and> f x = Ok y)"
  by (cases m) auto

lemma pbind_eq_NoFuel [simp]:
  "pbind m f = NoFuel \<longleftrightarrow> m = NoFuel \<or> (\<exists>x. m = Ok x \<and> f x = NoFuel)"
  by (cases m) auto

lemma of_option_eq [simp]:
  "of_option x = Ok y \<longleftrightarrow> x = Some y" "of_option x \<noteq> NoFuel"
  by (cases x; simp)+

lemma length_skip_ws: "length (skip_ws s) \<le> length s"
  by (simp add: skip_ws_def length_dropWhile_le)

lemma skip_ws_Cons_shorter: "skip_ws s = c # t \<Longrightarrow> length t < length s"
  using length_skip_ws [of s] by simp

lemma lex_string_shorter: "lex_string acc s = Some (x, r) \<Longrightarrow> length r < length s"
proof (induction acc s rule: lex_string.induct)
  case (1 acc)
  then show ?case by simp
next
  case (2 acc c s)
  consider (quote) "c = CHR 0x22" | (esc) "c \<noteq> CHR 0x22" "c = CHR 0x5C"
    | (plain) "c \<noteq> CHR 0x22" "c \<noteq> CHR 0x5C"
    by blast
  then show ?case
  proof cases
    case quote
    with "2.prems" show ?thesis by simp
  next
    case esc
    with "2.prems" obtain d t where s: "s = d # t" by (cases s) auto
    show ?thesis
    proof (cases "unescape d")
      case (Some y)
      with "2.prems" esc s have "lex_string (y # acc) t = Some (x, r)" by simp
      with "2.IH"(2) [OF esc s Some] s show ?thesis by simp
    next
      case None
      with "2.prems" esc s obtain n where u: "d = CHR ''u''" and h: "hex4 t = Some n"
          and n: "n < 256" and rec: "lex_string (char_of n # acc) (drop 4 t) = Some (x, r)"
        by (auto split: if_splits option.splits)
      from "2.IH"(1) [OF esc s None u h n rec] s show ?thesis by simp
    qed
  next
    case plain
    with "2.prems" have "\<not> of_char c < (32::nat)" and "lex_string (c # acc) s = Some (x, r)"
      by (auto split: if_splits)
    with "2.IH"(3) plain show ?thesis by simp
  qed
qed

lemma lex_digits_shorter: "lex_digits s = Some (ds, r) \<Longrightarrow> length r \<le> length s"
  by (auto simp: lex_digits_def length_dropWhile_le split: if_splits)

lemma lex_frac_shorter: "lex_frac s = Some (fp, r) \<Longrightarrow> length r \<le> length s"
  by (cases s) (auto split: if_splits dest: lex_digits_shorter)

lemma lex_unsigned_shorter: "lex_unsigned s = Some (n, r) \<Longrightarrow> length r \<le> length s"
  by (auto simp: lex_unsigned_def split: option.splits dest: lex_digits_shorter)

lemma lex_exp_shorter: "lex_exp s = Some (n, r) \<Longrightarrow> length r \<le> length s"
proof (cases s)
  case (Cons c t)
  assume "lex_exp s = Some (n, r)"
  with Cons show ?thesis
    by (cases t) (auto split: if_splits dest!: lex_unsigned_shorter)
qed simp

lemma lex_int_part_shorter: "lex_int_part s = Some (ip, r) \<Longrightarrow> length r < length s"
  by (cases s) (auto split: if_splits simp: length_dropWhile_le le_imp_less_Suc)

lemma lex_number_shorter:
  assumes "lex_number s = Some (v, r)"
  shows "length r < length s"
proof -
  let ?s1 = "if js_starts_with s ''-'' then tl s else s"
  from assms obtain ip s2 fp s3 ex where
    i: "lex_int_part ?s1 = Some (ip, s2)" and f: "lex_frac s2 = Some (fp, s3)"
    and e: "lex_exp s3 = Some (ex, r)"
    by (auto simp: lex_number_def Let_def split: option.splits)
  have "length ?s1 \<le> length s" by simp
  with lex_int_part_shorter [OF i] lex_frac_shorter [OF f] lex_exp_shorter [OF e]
  show ?thesis by linarith
qed

lemma parse_value_shorter_step:
  assumes IHi: "\<And>s vs r. parse_items n s = Ok (vs, r) \<Longrightarrow> length r < length s"
    and IHm: "\<And>s ms r. parse_members n s = Ok (ms, r) \<Longrightarrow> length r < length s"
    and ok: "parse_value (Suc n) s = Ok (v, r)"
  shows "length r < length s"
proof -
  obtain c t where sk: "skip_ws s = c # t"
    using ok by (cases "skip_ws s") auto
  have "length r \<le> length t"
  proof (cases "c = CHR ''[''")
    case lb: True
    with ok sk obtain d u where sk2: "skip_ws t = d # u" by (auto split: list.splits)
    show ?thesis
    proof (cases "d = CHR '']''")
      case True
      with ok sk sk2 lb have "r = u" by simp
      with skip_ws_Cons_shorter [OF sk2] show ?thesis by simp
    next
      case False
      with ok sk sk2 lb obtain vs where "parse_items n t = Ok (vs, r)" by auto
      then show ?thesis by (auto dest: IHi)
    qed
  next
    case nb: False
    show ?thesis
    proof (cases "c = CHR ''{''")
      case lc: True
      with ok sk nb obtain d u where sk2: "skip_ws t = d # u" by (auto split: list.splits)
      show ?thesis
      proof (cases "d = CHR ''}''")
        case True
        with ok sk sk2 nb lc have "r = u" by simp
        with skip_ws_Cons_shorter [OF sk2] show ?thesis by simp
      next
        case False
        with ok sk sk2 nb lc obtain ms where "parse_members n t = Ok (ms, r)" by auto
        then show ?thesis by (auto dest: IHm)
      qed
    next
      case nc: False
      show ?thesis
      proof (cases "c = CHR 0x22")
        case True
        with ok sk nb nc obtain x where "lex_string [] t = Some (x, r)" by auto
        then show ?thesis by (auto dest: lex_string_shorter)
      next
        case nq: False
        from ok sk nb nc nq show ?thesis
          apply (simp split del: if_split)
          apply (simp only: split: if_split_asm)
          apply (auto dest: lex_number_shorter)
          done
      qed
    qed
  qed
  with skip_ws_Cons_shorter [OF sk] show ?thesis by simp
qed

lemma parse_items_shorter_step:
  assumes IHv: "\<And>s v r. parse_value n s = Ok (v, r) \<Longrightarrow> length r < length s"
    and IHi: "\<And>s vs r. parse_items n s = Ok (vs, r) \<Longrightarrow> length r < length s"
    and ok: "parse_items (Suc n) s = Ok (vs, r)"
  shows "length r < length s"
proof -
  obtain v r0 where pv: "parse_value n s = Ok (v, r0)"
    using ok by auto
  obtain c t where sk: "skip_ws r0 = c # t"
    using ok pv by (cases "skip_ws r0") auto
  have "length r \<le> length t"
  proof (cases "c = CHR '',''")
    case True
    with ok pv sk obtain vs' where "parse_items n t = Ok (vs', r)" by auto
    then show ?thesis by (auto dest: IHi)
  next
    case False
    with ok pv sk show ?thesis by (auto split: if_splits)
  qed
  with IHv [OF pv] skip_ws_Cons_shorter [OF sk] show ?thesis by simp
qed

lemma parse_members_shorter_step:
  assumes IHv: "\<And>s v r. parse_value n s = Ok (v, r) \<Longrightarrow> length r < length s"
    and IHm: "\<And>s ms r. parse_members n s = Ok (ms, r) \<Longrightarrow> length r < length s"
    and ok: "parse_members (Suc n) s = Ok (ms, r)"
  shows "length r < length s"
proof -
  obtain q t where sk: "skip_ws s = q # t"
    using ok by (cases "skip_ws s") auto
  have q: "q = CHR 0x22"
    using ok sk by (auto split: if_splits)
  obtain k r1 where ls: "lex_string [] t = Some (k, r1)"
    using ok sk q by (auto split: option.splits)
  obtain c u where sk1: "skip_ws r1 = c # u"
    using ok sk q ls by (cases "skip_ws r1") auto
  have c: "c = CHR '':''"
    using ok sk q ls sk1 by (auto split: if_splits)
  obtain v r2 where pv: "parse_value n u = Ok (v, r2)"
    using ok sk q ls sk1 c by auto
  obtain d w where sk2: "skip_ws r2 = d # w"
    using ok sk q ls sk1 c pv by (cases "skip_ws r2") auto
  have "length r \<le> length w"
  proof (cases "d = CHR '',''")
    case True
    with ok sk q ls sk1 c pv sk2 obtain ms' where "parse_members n w = Ok (ms', r)" by auto
    then show ?thesis by (auto dest: IHm)
  next
    case False
    with ok sk q ls sk1 c pv sk2 show ?thesis by (auto split: if_splits)
  qed
  with skip_ws_Cons_shorter [OF sk] lex_string_shorter [OF ls] skip_ws_Cons_shorter [OF sk1]
    IHv [OF pv] skip_ws_Cons_shorter [OF sk2]
  show ?thesis by simp
qed

lemma parse_shorter:
  "parse_value n s = Ok (v, r) \<Longrightarrow> length r < length s"
  "parse_items n s = Ok (vs, r) \<Longrightarrow> length r < length s"
  "parse_members n s = Ok (ms, r) \<Longrightarrow> length r < length s"
proof -
  have "(\<forall>s v r. parse_value n s = Ok (v, r) \<longrightarrow> length r < length s) \<and>
        (\<forall>s vs r. parse_items n s = Ok (vs, r) \<longrightarrow> length r < length s) \<and>
        (\<forall>s ms r. parse_members n s = Ok (ms, r) \<longrightarrow> length r < length s)"
  proof (induction n)
    case 0
    show ?case by simp
  next
    case (Suc n)
    then show ?case
      by (blast intro: parse_value_shorter_step parse_items_shorter_step
          parse_members_shorter_step)
  qed
  then show "parse_value n s = Ok (v, r) \<Longrightarrow> length r < length s"
    "parse_items n s = Ok (vs, r) \<Longrightarrow> length r < length s"
    "parse_members n s = Ok (ms, r) \<Longrightarrow> length r < length s"
    by blast+
qed
subsection \<open>The fuel is always enough\<close>

lemma parse_value_fuel_step:
  assumes IHi: "\<And>s. 2 * length s + 1 < n \<Longrightarrow> parse_items n s \<noteq> NoFuel"
    and IHm: "\<And>s. 2 * length s + 1 < n \<Longrightarrow> parse_members n s \<noteq> NoFuel"
    and fuel: "2 * length s < Suc n"
  shows "parse_value (Suc n) s \<noteq> NoFuel"
proof
  assume nf: "parse_value (Suc n) s = NoFuel"
  obtain c t where sk: "skip_ws s = c # t"
    using nf by (cases "skip_ws s") auto
  have lt: "2 * length t + 1 < n"
    using fuel skip_ws_Cons_shorter [OF sk] by simp
  from nf sk have "parse_items n t = NoFuel \<or> parse_members n t = NoFuel"
    by (auto split: if_splits list.splits prod.splits)
  with IHi IHm lt show False by blast
qed

lemma parse_items_fuel_step:
  assumes IHv: "\<And>s. 2 * length s < n \<Longrightarrow> parse_value n s \<noteq> NoFuel"
    and IHi: "\<And>s. 2 * length s + 1 < n \<Longrightarrow> parse_items n s \<noteq> NoFuel"
    and fuel: "2 * length s + 1 < Suc n"
  shows "parse_items (Suc n) s \<noteq> NoFuel"
proof
  assume nf: "parse_items (Suc n) s = NoFuel"
  have "parse_value n s \<noteq> NoFuel"
    using fuel by (intro IHv) simp
  with nf obtain v r0 where pv: "parse_value n s = Ok (v, r0)"
    by (cases "parse_value n s") auto
  obtain c t where sk: "skip_ws r0 = c # t"
    using nf pv by (cases "skip_ws r0") auto
  have lt: "2 * length t + 1 < n"
    using fuel parse_shorter(1) [OF pv] skip_ws_Cons_shorter [OF sk] by simp
  from nf pv sk have "parse_items n t = NoFuel"
    by (auto split: if_splits prod.splits)
  with IHi lt show False by blast
qed

lemma parse_members_fuel_step:
  assumes IHv: "\<And>s. 2 * length s < n \<Longrightarrow> parse_value n s \<noteq> NoFuel"
    and IHm: "\<And>s. 2 * length s + 1 < n \<Longrightarrow> parse_members n s \<noteq> NoFuel"
    and fuel: "2 * length s + 1 < Suc n"
  shows "parse_members (Suc n) s \<noteq> NoFuel"
proof
  assume nf: "parse_members (Suc n) s = NoFuel"
  obtain q t where sk: "skip_ws s = q # t"
    using nf by (cases "skip_ws s") auto
  obtain k r1 where ls: "lex_string [] t = Some (k, r1)"
    using nf sk by (auto split: if_splits option.splits)
  obtain c u where sk1: "skip_ws r1 = c # u"
    using nf sk ls by (cases "skip_ws r1") (auto split: if_splits)
  have lu: "2 * length u < n"
    using fuel skip_ws_Cons_shorter [OF sk] lex_string_shorter [OF ls]
      skip_ws_Cons_shorter [OF sk1] by simp
  then have "parse_value n u \<noteq> NoFuel" by (rule IHv)
  with nf sk ls sk1 obtain v r2 where pv: "parse_value n u = Ok (v, r2)"
    by (cases "parse_value n u") (auto split: if_splits)
  obtain d w where sk2: "skip_ws r2 = d # w"
    using nf sk ls sk1 pv by (cases "skip_ws r2") (auto split: if_splits)
  have lw: "2 * length w + 1 < n"
    using lu parse_shorter(1) [OF pv] skip_ws_Cons_shorter [OF sk2] by simp
  from nf sk ls sk1 pv sk2 have "parse_members n w = NoFuel"
    by (auto split: if_splits prod.splits)
  with IHm lw show False by blast
qed

lemma parse_enough_fuel_all:
  "(\<forall>s. 2 * length s < n \<longrightarrow> parse_value n s \<noteq> NoFuel) \<and>
   (\<forall>s. 2 * length s + 1 < n \<longrightarrow> parse_items n s \<noteq> NoFuel) \<and>
   (\<forall>s. 2 * length s + 1 < n \<longrightarrow> parse_members n s \<noteq> NoFuel)"
proof (induction n)
  case 0
  show ?case by simp
next
  case (Suc n)
  then have IHv: "\<And>s. 2 * length s < n \<Longrightarrow> parse_value n s \<noteq> NoFuel"
    and IHi: "\<And>s. 2 * length s + 1 < n \<Longrightarrow> parse_items n s \<noteq> NoFuel"
    and IHm: "\<And>s. 2 * length s + 1 < n \<Longrightarrow> parse_members n s \<noteq> NoFuel"
    by blast+
  show ?case
    using parse_value_fuel_step [OF IHi IHm] parse_items_fuel_step [OF IHv IHi]
      parse_members_fuel_step [OF IHv IHm]
    by blast
qed

text \<open>\<open>JSON.parse\<close> always returns: the fuel that \<open>json_parse\<close> gives the parser,
  \<open>2 * length s + 1\<close>, is enough for every input \<open>s\<close>, so the model never
  stops for lack of fuel and its result is that of the unbounded recursive descent.\<close>

lemma json_parse_fuel_enough: "parse_value (Suc (2 * length s)) s \<noteq> NoFuel"
  using parse_enough_fuel_all [of "Suc (2 * length s)"] by simp

subsection \<open>Printing and parsing are inverse\<close>

text \<open>Digits, numbers and escaped strings lex back to what was printed; a printed value
  starts with a character that is neither whitespace nor a closing bracket.\<close>

lemma of_char_digit: "k < 10 \<Longrightarrow> (of_char (char_of (48 + k)) :: nat) = 48 + k"
  by (simp add: of_char_of)

lemma is_json_space_of_char: "is_json_space c \<Longrightarrow> (of_char c :: nat) \<le> 32"
  by (auto simp: is_json_space_def)

lemma char_digit_props:
  assumes "k < 10"
  shows "is_digit (char_of (48 + k))" "digit_val (char_of (48 + k)) = k"
    "\<not> is_json_space (char_of (48 + k))"
    "char_of (48 + k) = CHR ''0'' \<longleftrightarrow> k = 0"
proof -
  have o: "(of_char (char_of (48 + k)) :: nat) = 48 + k" using assms by (rule of_char_digit)
  then show "is_digit (char_of (48 + k))" "digit_val (char_of (48 + k)) = k"
    using assms by (simp_all add: is_digit_def digit_val_def)
  show "\<not> is_json_space (char_of (48 + k))"
    using o is_json_space_of_char by fastforce
  show "char_of (48 + k) = CHR ''0'' \<longleftrightarrow> k = 0"
  proof
    assume "char_of (48 + k) = CHR ''0''"
    then have "(of_char (char_of (48 + k)) :: nat) = of_char (CHR ''0'')" by simp
    with o show "k = 0" by simp
  qed (simp add: char_of_def bit_0)
qed

declare nat_digits.simps [simp del]

lemma nat_digits_digits: "\<forall>c\<in>set (nat_digits n). is_digit c"
proof (induction n rule: nat_digits.induct)
  case (1 n)
  then show ?case
    by (subst nat_digits.simps) (auto simp: char_digit_props)
qed

lemma nat_digits_nonempty: "nat_digits n \<noteq> []"
  by (subst nat_digits.simps) simp

lemma digits_val_snoc: "digits_val (ds @ [d]) = 10 * digits_val ds + digit_val d"
  by (simp add: digits_val_def)

lemma digits_val_nat_digits: "digits_val (nat_digits n) = n"
proof (induction n rule: nat_digits.induct)
  case (1 n)
  show ?case
  proof (cases "n < 10")
    case True
    then show ?thesis
      by (subst nat_digits.simps) (simp add: digits_val_def char_digit_props)
  next
    case False
    with "1.IH" show ?thesis
      by (subst nat_digits.simps) (simp add: digits_val_snoc char_digit_props)
  qed
qed

lemma nat_digits_hd:
  "\<exists>c cs. nat_digits n = c # cs \<and> (c = CHR ''0'' \<longrightarrow> n = 0 \<and> cs = [])"
proof (induction n rule: nat_digits.induct)
  case (1 n)
  show ?case
  proof (cases "n < 10")
    case True
    then show ?thesis
      by (subst nat_digits.simps) (simp add: char_digit_props)
  next
    case False
    with "1.IH" obtain c cs where "nat_digits (n div 10) = c # cs"
      and "c = CHR ''0'' \<longrightarrow> n div 10 = 0 \<and> cs = []" by blast
    with False show ?thesis
      by (subst nat_digits.simps) auto
  qed
qed

lemma digits_stop:
  "r = [] \<or> \<not> is_digit (hd r) \<Longrightarrow> takeWhile is_digit r = [] \<and> dropWhile is_digit r = r"
  by (cases r) auto

lemma digits_split:
  assumes "\<forall>c\<in>set ds. is_digit c" "r = [] \<or> \<not> is_digit (hd r)"
  shows "takeWhile is_digit (ds @ r) = ds" "dropWhile is_digit (ds @ r) = r"
  using assms by (cases r; simp add: takeWhile_append2 dropWhile_append2)+

lemma lex_int_part_nat_digits:
  assumes "r = [] \<or> \<not> is_digit (hd r)"
  shows "lex_int_part (nat_digits n @ r) = Some (nat_digits n, r)"
proof -
  obtain c cs where n: "nat_digits n = c # cs" and z: "c = CHR ''0'' \<longrightarrow> n = 0 \<and> cs = []"
    using nat_digits_hd by blast
  have dc: "is_digit c" and dcs: "\<forall>x\<in>set cs. is_digit x"
    using nat_digits_digits [of n] n by auto
  show ?thesis
  proof (cases "c = CHR ''0''")
    case True
    with z n show ?thesis by simp
  next
    case False
    with dc dcs assms n show ?thesis by (simp add: digits_stop)
  qed
qed

lemma lex_unsigned_nat_digits:
  assumes "r = [] \<or> \<not> is_digit (hd r)"
  shows "lex_unsigned (nat_digits n @ r) = Some (int n, r)"
  using assms nat_digits_digits [of n] nat_digits_nonempty [of n]
  by (simp add: lex_unsigned_def lex_digits_def digits_stop digits_val_nat_digits)

lemma nat_digits_Cons: "\<exists>c cs. nat_digits n = c # cs \<and> is_digit c"
  using nat_digits_hd [of n] nat_digits_digits [of n] by fastforce

lemma is_digit_not_sign:
  "is_digit c \<Longrightarrow> c \<noteq> CHR ''-'' \<and> c \<noteq> CHR ''+'' \<and> c \<noteq> CHR ''.'' \<and> c \<noteq> CHR ''e''
     \<and> c \<noteq> CHR ''E'' \<and> c \<noteq> CHR '','' \<and> c \<noteq> CHR '']'' \<and> c \<noteq> CHR ''}''
     \<and> c \<noteq> CHR ''t'' \<and> c \<noteq> CHR ''f'' \<and> c \<noteq> CHR ''n'' \<and> c \<noteq> CHR 0x22
     \<and> c \<noteq> CHR ''['' \<and> c \<noteq> CHR ''{'' \<and> \<not> is_json_space c"
  by (auto simp: is_digit_def is_json_space_def)

lemma lex_exp_digits_int_digits:
  assumes "r = [] \<or> \<not> is_digit (hd r)"
  shows "lex_exp_digits (int_digits e @ r) = Some (e, r)"
proof (cases "e < 0")
  case True
  with assms show ?thesis by (simp add: int_digits_def lex_unsigned_nat_digits)
next
  case False
  obtain c cs where n: "nat_digits (nat e) = c # cs" and "is_digit c"
    using nat_digits_Cons by blast
  then have "lex_exp_digits (int_digits e @ r) = lex_unsigned (nat_digits (nat e) @ r)"
    using False by (simp add: int_digits_def is_digit_not_sign)
  with False assms show ?thesis by (simp add: lex_unsigned_nat_digits)
qed

lemma lex_frac_no_dot: "s = [] \<or> hd s \<noteq> CHR ''.'' \<Longrightarrow> lex_frac s = Some ([], s)"
  by (cases s) auto

lemma lex_exp_no_exp:
  "s = [] \<or> hd s \<noteq> CHR ''e'' \<and> hd s \<noteq> CHR ''E'' \<Longrightarrow> lex_exp s = Some (0, s)"
  by (cases s) auto

lemma value_end_not_digit:
  "value_end r \<Longrightarrow> r = [] \<or> \<not> is_digit (hd r) \<and> hd r \<noteq> CHR ''.'' \<and> hd r \<noteq> CHR ''e''
     \<and> hd r \<noteq> CHR ''E''"
  unfolding value_end_def using is_digit_not_sign by auto

lemma int_digits_Cons:
  "\<exists>c cs. int_digits m = c # cs \<and> (c = CHR ''-'' \<or> is_digit c)"
proof (cases "m < 0")
  case False
  obtain c cs where "nat_digits (nat m) = c # cs" "is_digit c"
    using nat_digits_Cons by blast
  with False show ?thesis by (simp add: int_digits_def)
qed (simp add: int_digits_def)

lemma lex_number_print_num:
  assumes "value_end r"
  shows "lex_number (print_num m e @ r) = Some (JNum m e, r)"
proof -
  let ?rest = "(if e = 0 then [] else CHR ''e'' # int_digits e) @ r"
  have r: "r = [] \<or> \<not> is_digit (hd r) \<and> hd r \<noteq> CHR ''.'' \<and> hd r \<noteq> CHR ''e'' \<and> hd r \<noteq> CHR ''E''"
    using assms by (rule value_end_not_digit)
  have stop: "?rest = [] \<or> \<not> is_digit (hd ?rest)"
    using r is_digit_not_sign by auto
  have frac: "lex_frac ?rest = Some ([], ?rest)"
    using r by (intro lex_frac_no_dot) auto
  have ex: "lex_exp ?rest = Some (e, r)"
  proof (cases "e = 0")
    case True
    from r have "lex_exp r = Some (0, r)" by (intro lex_exp_no_exp) auto
    with True show ?thesis by simp
  next
    case False
    from r have "lex_exp_digits (int_digits e @ r) = Some (e, r)"
      by (intro lex_exp_digits_int_digits) auto
    with False show ?thesis by simp
  qed
  obtain c cs where nd: "nat_digits (nat \<bar>m\<bar>) = c # cs" "is_digit c"
    using nat_digits_Cons by blast
  have sw: "js_starts_with (print_num m e @ r) ''-'' \<longleftrightarrow> m < 0"
    using nd by (auto simp: print_num_def int_digits_def is_digit_not_sign)
  have s1: "(if m < 0 then tl (print_num m e @ r) else print_num m e @ r)
      = nat_digits (nat \<bar>m\<bar>) @ ?rest"
    by (simp add: print_num_def int_digits_def)
  show ?thesis
    unfolding lex_number_def Let_def sw s1
    using lex_int_part_nat_digits [OF stop] frac ex
    by (simp add: digits_val_nat_digits)
qed

lemma hex_val_hex_digit: "k < 16 \<Longrightarrow> hex_val (hex_digit k) = Some k"
  by (auto simp: hex_val_def hex_digit_def of_char_of Let_def)

lemma hex_val_zero: "hex_val (CHR ''0'') = Some 0"
  by (simp add: hex_val_def)

lemma unescape_u: "unescape (CHR ''u'') = None"
  by (simp add: unescape_def)

lemma lex_string_escaped:
  "lex_string acc (concat (map escape_char s) @ CHR 0x22 # r) = Some (rev acc @ s, r)"
proof (induction s arbitrary: acc)
  case Nil
  then show ?case by simp
next
  case (Cons c s)
  let ?t = "concat (map escape_char s) @ CHR 0x22 # r"
  consider (q) "c = CHR 0x22" | (b) "c = CHR 0x5C"
    | (ctl) "c \<noteq> CHR 0x22" "c \<noteq> CHR 0x5C" "(of_char c :: nat) < 32"
    | (plain) "c \<noteq> CHR 0x22" "c \<noteq> CHR 0x5C" "\<not> (of_char c :: nat) < 32"
    by blast
  then show ?case
  proof cases
    case q
    with Cons.IH [of "c # acc"] show ?thesis by (simp add: escape_char_def unescape_def)
  next
    case b
    with Cons.IH [of "c # acc"] show ?thesis by (simp add: escape_char_def unescape_def)
  next
    case ctl
    have h: "hex4 (CHR ''0'' # CHR ''0'' # hex_digit (of_char c div 16) # hex_digit (of_char c mod 16) # ?t)
        = Some (of_char c)"
    proof -
      have "(of_char c :: nat) div 16 < 16" "(of_char c :: nat) mod 16 < 16" using ctl by simp_all
      then show ?thesis by (simp add: hex_val_hex_digit hex_val_zero)
    qed
    have "of_char c < (256::nat)" using ctl by simp
    with ctl h Cons.IH [of "c # acc"] show ?thesis
      by (simp add: escape_char_def unescape_u)
  next
    case plain
    with Cons.IH [of "c # acc"] show ?thesis by (simp add: escape_char_def)
  qed
qed

lemma skip_ws_Cons_keep: "\<not> is_json_space c \<Longrightarrow> skip_ws (c # t) = c # t"
  by (simp add: skip_ws_def)

lemma json_print_start:
  "\<exists>c t. json_print v = c # t \<and> \<not> is_json_space c \<and> c \<noteq> CHR '']'' \<and> c \<noteq> CHR ''}''"
proof (cases v)
  case (JNum m e)
  obtain c cs where "int_digits m = c # cs" "c = CHR ''-'' \<or> is_digit c"
    using int_digits_Cons by blast
  moreover have "\<not> is_json_space c \<and> c \<noteq> CHR '']'' \<and> c \<noteq> CHR ''}''"
    using \<open>c = CHR ''-'' \<or> is_digit c\<close>
  proof
    assume "is_digit c"
    then show ?thesis using is_digit_not_sign by blast
  qed (simp add: is_json_space_def)
  ultimately show ?thesis using JNum by (simp add: print_num_def)
qed (auto simp: is_json_space_def quote_string_def)

lemma print_items_start:
  "vs \<noteq> [] \<Longrightarrow>
   \<exists>c t. print_items vs = c # t \<and> \<not> is_json_space c \<and> c \<noteq> CHR '']'' \<and> c \<noteq> CHR ''}''"
proof (induction vs rule: induct_list012)
  case (2 v)
  then show ?case using json_print_start [of v] by simp
next
  case (3 v w vs)
  then show ?case using json_print_start [of v] by auto
qed simp

lemma print_members_start: "ms \<noteq> [] \<Longrightarrow> \<exists>t. print_members ms = CHR 0x22 # t"
  by (induction ms rule: induct_list012) (auto simp: quote_string_def)

lemma print_parse_all:
  "\<forall>n r. 2 * length (json_print v @ r) < n \<longrightarrow> value_end r \<longrightarrow>
     parse_value n (json_print v @ r) = Ok (v, r)"
  "vs \<noteq> [] \<longrightarrow> (\<forall>n r. 2 * length (print_items vs @ CHR '']'' # r) + 1 < n \<longrightarrow>
     parse_items n (print_items vs @ CHR '']'' # r) = Ok (vs, r))"
  "ms \<noteq> [] \<longrightarrow> (\<forall>n r. 2 * length (print_members ms @ CHR ''}'' # r) + 1 < n \<longrightarrow>
     parse_members n (print_members ms @ CHR ''}'' # r) = Ok (ms, r))"
proof (induction v and vs and ms rule: json_print_print_items_print_members.induct)
  case 1
  show ?case
    by (intro allI impI, elim less_natE) (simp add: skip_ws_def is_json_space_def)
next
  case (2 b)
  show ?case
    by (intro allI impI, elim less_natE) (simp add: skip_ws_def is_json_space_def)
next
  case (3 m e)
  show ?case
  proof (intro allI impI)
    fix n r
    assume f: "2 * length (json_print (JNum m e) @ r) < n" and ve: "value_end r"
    obtain n' where n: "n = Suc n'" using f by (cases n) auto
    obtain c t where ct: "json_print (JNum m e) = c # t" "\<not> is_json_space c"
      using json_print_start [of "JNum m e"] by blast
    obtain d ds where "int_digits m = d # ds" "d = CHR ''-'' \<or> is_digit d"
      using int_digits_Cons by blast
    then have "c = CHR ''-'' \<or> is_digit c" using ct by (simp add: print_num_def)
    then have cs: "c \<noteq> CHR ''['' \<and> c \<noteq> CHR ''{'' \<and> c \<noteq> CHR 0x22 \<and> c \<noteq> CHR ''t''
        \<and> c \<noteq> CHR ''f'' \<and> c \<noteq> CHR ''n''"
    proof
      assume "is_digit c"
      then show ?thesis using is_digit_not_sign [of c] by simp
    qed simp
    have "lex_number (c # t @ r) = Some (JNum m e, r)"
      using lex_number_print_num [OF ve, of m e] ct by simp
    with ct cs show "parse_value n (json_print (JNum m e) @ r) = Ok (JNum m e, r)"
      by (simp add: n skip_ws_Cons_keep)
  qed
next
  case (4 s)
  show ?case
    by (intro allI impI, elim less_natE)
      (simp add: quote_string_def skip_ws_def is_json_space_def lex_string_escaped)
next
  case (5 vs)
  show ?case
  proof (intro allI impI)
    fix n r
    assume f: "2 * length (json_print (JArr vs) @ r) < n" and ve: "value_end r"
    obtain n' where n: "n = Suc n'" using f by (cases n) auto
    show "parse_value n (json_print (JArr vs) @ r) = Ok (JArr vs, r)"
    proof (cases "vs = []")
      case True
      then show ?thesis by (simp add: n skip_ws_def is_json_space_def)
    next
      case False
      obtain c t where ct: "print_items vs = c # t" "\<not> is_json_space c" "c \<noteq> CHR '']''"
        using print_items_start [OF False] by blast
      have "parse_items n' (print_items vs @ CHR '']'' # r) = Ok (vs, r)"
        using 5 False f n by simp
      with ct show ?thesis by (simp add: n skip_ws_Cons_keep skip_ws_def is_json_space_def)
    qed
  qed
next
  case (6 ms)
  show ?case
  proof (intro allI impI)
    fix n r
    assume f: "2 * length (json_print (JObj ms) @ r) < n" and ve: "value_end r"
    obtain n' where n: "n = Suc n'" using f by (cases n) auto
    show "parse_value n (json_print (JObj ms) @ r) = Ok (JObj ms, r)"
    proof (cases "ms = []")
      case True
      then show ?thesis by (simp add: n skip_ws_def is_json_space_def)
    next
      case False
      obtain t where t: "print_members ms = CHR 0x22 # t"
        using print_members_start [OF False] by blast
      have "parse_members n' (print_members ms @ CHR ''}'' # r) = Ok (ms, r)"
        using 6 False f n by simp
      with t show ?thesis by (simp add: n skip_ws_def is_json_space_def)
    qed
  qed
next
  case 7
  show ?case by simp
next
  case (8 v)
  show ?case
  proof (intro impI allI)
    fix n r
    assume f: "2 * length (print_items [v] @ CHR '']'' # r) + 1 < n"
    obtain n' where n: "n = Suc n'" using f by (cases n) auto
    have "parse_value n' (json_print v @ CHR '']'' # r) = Ok (v, CHR '']'' # r)"
      using 8 f n by (simp add: value_end_def)
    then show "parse_items n (print_items [v] @ CHR '']'' # r) = Ok ([v], r)"
      by (simp add: n skip_ws_def is_json_space_def)
  qed
next
  case (9 v w vs)
  show ?case
  proof (intro impI allI)
    fix n r
    assume f: "2 * length (print_items (v # w # vs) @ CHR '']'' # r) + 1 < n"
    obtain n' where n: "n = Suc n'" using f by (cases n) auto
    let ?rest = "print_items (w # vs) @ CHR '']'' # r"
    have lv: "0 < length (json_print v)" using json_print_start [of v] by auto
    have "parse_value n' (json_print v @ CHR '','' # ?rest) = Ok (v, CHR '','' # ?rest)"
      using 9(1) f n by (simp add: value_end_def)
    moreover have "parse_items n' ?rest = Ok (w # vs, r)"
      using 9(2) f n lv by simp
    ultimately show "parse_items n (print_items (v # w # vs) @ CHR '']'' # r) = Ok (v # w # vs, r)"
      by (simp add: n skip_ws_def is_json_space_def)
  qed
next
  case 10
  show ?case by simp
next
  case (11 k v)
  show ?case
  proof (intro impI allI)
    fix n r
    assume f: "2 * length (print_members [(k, v)] @ CHR ''}'' # r) + 1 < n"
    obtain n' where n: "n = Suc n'" using f by (cases n) auto
    have "parse_value n' (json_print v @ CHR ''}'' # r) = Ok (v, CHR ''}'' # r)"
      using 11 f n by (simp add: value_end_def quote_string_def)
    then show "parse_members n (print_members [(k, v)] @ CHR ''}'' # r) = Ok ([(k, v)], r)"
      by (simp add: n skip_ws_def is_json_space_def quote_string_def lex_string_escaped)
  qed
next
  case (12 k v m ms)
  show ?case
  proof (intro impI allI)
    fix n r
    assume f: "2 * length (print_members ((k, v) # m # ms) @ CHR ''}'' # r) + 1 < n"
    obtain n' where n: "n = Suc n'" using f by (cases n) auto
    let ?rest = "print_members (m # ms) @ CHR ''}'' # r"
    have "parse_value n' (json_print v @ CHR '','' # ?rest) = Ok (v, CHR '','' # ?rest)"
      using 12(1) f n by (simp add: value_end_def quote_string_def)
    moreover have "parse_members n' ?rest = Ok (m # ms, r)"
      using 12(2) f n by (simp add: quote_string_def)
    ultimately show "parse_members n (print_members ((k, v) # m # ms) @ CHR ''}'' # r)
        = Ok ((k, v) # m # ms, r)"
      by (simp add: n skip_ws_def is_json_space_def quote_string_def lex_string_escaped)
  qed
qed

text \<open>\<open>JSON.parse\<close> inverts the printer: every JSON value printed in the style of
  \<open>JSON.stringify\<close> parses back to itself.\<close>

lemma json_print_parse: "json_parse (json_print v) = Inr v"
proof -
  have "parse_value (Suc (2 * length (json_print v))) (json_print v @ []) = Ok (v, [])"
    by (rule print_parse_all(1) [rule_format]) (simp_all add: value_end_def)
  then show ?thesis by (simp add: json_parse_def skip_ws_def)
qed

end
