(* ===== verification/GeminiClient.thy ===== *)
theory GeminiClient
  imports Fence Json
begin

text \<open>
  The analysis client, \<open>src/services/geminiService.ts\<close>: the module's check of the API
  key, the prompt, the request, and the parsing of the reply. The call
  \<open>ai.models.generateContent\<close> is a parameter \<open>generate_content\<close> (a
  \<open>remote_model\<close>) from the request record (model, contents, tools) to the awaited result:
  \<open>Inl\<close> is a rejected call (network or service failure), \<open>Inr\<close> the response. The
  response has the fields the code reads: the \<open>text\<close> getter (\<open>None\<close> when the reply
  has no text) and the grounding metadata of the first candidate. Every theorem holds for
  every remote model. \<open>JSON.parse\<close> is \<open>Json.json_parse\<close>.
\<close>

subsection \<open>Data\<close>

text \<open>A grounding chunk as the SDK returns it: \<open>web\<close>, and its \<open>uri\<close> and
  \<open>title\<close>, are optional. Line 73 casts the SDK's chunks to \<open>GroundingChunk[]\<close> of
  \<open>src/types.ts\<close>, whose fields are required, without any check, so the values the
  application holds have the SDK's shape.\<close>

record web_source =
  web_uri :: "string option"
  web_title :: "string option"

record grounding_chunk =
  chunk_web :: "web_source option"

record grounding_metadata =
  grounding_chunks :: "grounding_chunk list option"

record candidate =
  grounding_meta :: "grounding_metadata option"

record gemini_response =
  response_text :: "string option"
  candidates :: "candidate list option"

text \<open>The request of \<open>ai.models.generateContent\<close> (lines 62--68): the model name, the
  prompt as contents, and the Google Search tool.\<close>

datatype gen_tool = GoogleSearch

record gen_request =
  req_model :: string
  req_contents :: string
  req_tools :: "gen_tool list"

text \<open>The remote model: the awaited result of \<open>generateContent\<close> for a request.\<close>

type_synonym remote_model = "gen_request \<Rightarrow> js_error + gemini_response"

text \<open>Lines 4--8: at module load, a falsy \<open>process.env.API_KEY\<close> (unset or empty) throws;
  otherwise the client is created with that key. The result is the key the client uses.\<close>

definition api_key_msg :: string where
  "api_key_msg = ''API_KEY environment variable not set''"

definition gemini_module_init :: "string option \<Rightarrow> js_error + string" where
  "gemini_module_init api_key =
     (case api_key of
        None \<Rightarrow> Inl (Error api_key_msg)
      | Some k \<Rightarrow> (if k = [] then Inl (Error api_key_msg) else Inr k))"

definition structured_failure_msg :: string where
  "structured_failure_msg = ''Failed to get structured analysis from the AI.''"

subsection \<open>The prompt\<close>

text \<open>The template literal of lines 22--59, line by line; \<open>${industry}\<close> occurs twice
  and \<open>${cvText}\<close> once.\<close>

definition build_prompt :: "string \<Rightarrow> string \<Rightarrow> string" where
  \<open>build_prompt cv_text industry =
    js_join ''\<newline>'' [
      [],
      ''    You are MyCv.ng's AI assistant, an expert Nigerian HR professional and career coach. Your goal is to analyze a user's CV and provide a critical, helpful, and encouraging review in a friendly but professional Nigerian pidgin and English mix. You should be direct but supportive. Use Google Search to find the latest trends.'',
      [],
      ''    The user's field is: '' @ industry,
      [],
      ''    Here is the CV content:'',
      ''    ---'',
      ''    '' @ cv_text,
      ''    ---'',
      [],
      ''    Your entire response MUST be a single JSON object string that starts with ' ```json ' and ends with ' ``` '. Do not add any text before or after the JSON block.'',
      [],
      ''    The JSON object MUST have these exact keys and structure:'',
      ''    - "trends": An array of 3-5 short, string-based bullet points on the latest trends for the specified field based on your search.'',
      ''    - "overallScore": An integer score from 0 to 100 representing the CV's overall strength.'',
      ''    - "scoreBreakdown": An array of exactly 3 objects, each with "area", "score" (0-100), and "feedback". The areas MUST be "Clarity & Formatting", "Impact & Keywords", and "Experience Relevancy".'',
      ''    - "summary": A short, one-sentence summary of the CV's potential, Nigerian style.'',
      ''    - "keyImprovement": The single most important improvement the user should make, in one sentence.'',
      [],
      ''    Example JSON response format:'',
      ''    ```json'',
      ''    {'',
      ''      "trends": ['',
      ''        "AI-powered tools are now common for applicant tracking.",'',
      ''        "Remote work skills are highly sought after by employers.",'',
      ''        "Data literacy is becoming a key skill in this industry."'',
      ''      ],'',
      ''      "overallScore": 85,'',
      ''      "scoreBreakdown": ['',
      ''        { "area": "Clarity & Formatting", "score": 90, "feedback": "Your CV is well-structured and easy to read, well done!" },'',
      ''        { "area": "Impact & Keywords", "score": 80, "feedback": "You use strong action verbs, but could add more keywords relevant to '' @ industry @ ''." },'',
      ''        { "area": "Experience Relevancy", "score": 85, "feedback": "Your experience aligns well, but tailor it more for each job application." }'',
      ''      ],'',
      ''      "summary": "This your CV get as e be, e solid but small tuning go make am stand gidigba.",'',
      ''      "keyImprovement": "Your top priority na to quantify your achievements with numbers to show your real impact."'',
      ''    }'',
      ''    ```'',
      ''  '']\<close>

definition analysis_request :: "string \<Rightarrow> string \<Rightarrow> gen_request" where
  "analysis_request cv_text industry =
     \<lparr>req_model = ''gemini-2.5-flash'', req_contents = build_prompt cv_text industry,
      req_tools = [GoogleSearch]\<rparr>"

subsection \<open>Response handling\<close>

text \<open>\<open>parseAnalysisResponse\<close> (lines 10--19). The result is the JavaScript value it
  returns: the parsed value, or \<open>null\<close> when the \<open>try\<close> block throws. A missing
  \<open>text\<close> makes \<open>.replace\<close> throw a \<open>TypeError\<close>; a malformed text makes
  \<open>JSON.parse\<close> throw. The \<open>as AnalysisResult\<close> cast checks nothing.\<close>

definition parse_analysis_response :: "string option \<Rightarrow> json" where
  "parse_analysis_response text =
     (case text of
        None \<Rightarrow> JNull
      | Some t \<Rightarrow> (case json_parse (strip_fence t) of Inl _ \<Rightarrow> JNull | Inr v \<Rightarrow> v))"

text \<open>\<open>response.candidates?.[0]?.groundingMetadata?.groundingChunks || []\<close> (line 73).\<close>

definition response_sources :: "gemini_response \<Rightarrow> grounding_chunk list" where
  "response_sources response =
     (case candidates response of
        None \<Rightarrow> []
      | Some cs \<Rightarrow>
          (case cs of
             [] \<Rightarrow> []
           | c # _ \<Rightarrow>
               (case grounding_meta c of
                  None \<Rightarrow> []
                | Some gm \<Rightarrow> (case grounding_chunks gm of None \<Rightarrow> [] | Some chs \<Rightarrow> chs))))"

text \<open>\<open>analyzeCvWithTrends\<close> (lines 21--86). Its declared result type includes
  \<open>null\<close>, hence the \<open>option\<close>. The \<open>catch\<close> block logs and re-throws, so a rejection
  passes through unchanged.\<close>

definition analyze_cv_with_trends ::
  "remote_model \<Rightarrow> string \<Rightarrow> string
     \<Rightarrow> js_error + (json \<times> grounding_chunk list) option" where
  "analyze_cv_with_trends generate_content cv_text industry =
     (case generate_content (analysis_request cv_text industry) of
        Inl e \<Rightarrow> Inl e
      | Inr response \<Rightarrow>
          (let analysis = parse_analysis_response (response_text response);
               sources = response_sources response
           in if \<not> js_truthy analysis then Inl (Error structured_failure_msg)
              else Inr (Some (analysis, sources))))"

subsection \<open>Lemmas\<close>

lemma analyze_response:
  "generate_content (analysis_request cv_text industry) = Inr response \<Longrightarrow>
   analyze_cv_with_trends generate_content cv_text industry =
     (if js_truthy (parse_analysis_response (response_text response))
      then Inr (Some (parse_analysis_response (response_text response), response_sources response))
      else Inl (Error structured_failure_msg))"
  by (simp add: analyze_cv_with_trends_def Let_def)

lemma js_space_of_char: "is_js_space c \<Longrightarrow> (of_char c :: nat) \<le> 32 \<or> (of_char c :: nat) = 160"
  by (auto simp: is_js_space_code)

lemma json_print_not_space: "json_print v \<noteq> [] \<and> \<not> is_js_space (hd (json_print v))"
proof (cases v)
  case (JNum m e)
  obtain c cs where cs: "int_digits m = c # cs" "c = CHR ''-'' \<or> is_digit c"
    using int_digits_Cons by blast
  have "\<not> is_js_space c"
    using cs(2)
  proof
    assume "is_digit c"
    then show ?thesis using js_space_of_char [of c] by (auto simp: is_digit_def)
  qed (simp add: is_js_space_code)
  with cs JNum show ?thesis by (simp add: print_num_def)
qed (simp_all add: is_js_space_code quote_string_def)

text \<open>A reply fenced as the prompt asks, around a printed JSON value, parses back to that
  value.\<close>

lemma parse_analysis_fenced:
  "all_space ws1 \<Longrightarrow> all_space ws2 \<Longrightarrow>
   parse_analysis_response (Some (fence_open @ ws1 @ json_print v @ fence_close @ ws2)) = v"
  using json_print_not_space [of v]
  by (simp add: parse_analysis_response_def strip_fence_fenced json_print_parse)

text \<open>C16: \<open>analyzeCvWithTrends\<close> never resolves to \<open>null\<close>: it rejects or returns an
  analysis, so the \<open>else\<close> branch of \<open>handleAnalyze\<close> ("the analysis returned empty")
  is dead code.\<close>

theorem analyze_never_null: "analyze_cv_with_trends generate_content cv_text industry \<noteq> Inr None"
  by (auto simp: analyze_cv_with_trends_def Let_def split: sum.splits)

text \<open>A failed remote call (network or service error) rejects with that same error.\<close>

lemma analyze_call_failure:
  assumes "generate_content (analysis_request cv_text industry) = Inl e"
  shows "analyze_cv_with_trends generate_content cv_text industry = Inl e"
  using assms by (simp add: analyze_cv_with_trends_def)

theorem analyze_call_failure_witness:
  "(\<lambda>_. Inl (Error ''NetworkError'')) (analysis_request ''cv'' ''Tech'') = (Inl (Error ''NetworkError'')
     :: js_error + gemini_response)
   \<and> analyze_cv_with_trends (\<lambda>_. Inl (Error ''NetworkError'')) ''cv'' ''Tech''
     = Inl (Error ''NetworkError'')"
  using analyze_call_failure [of "\<lambda>_. Inl (Error ''NetworkError'')" "''cv''" "''Tech''"] by simp

text \<open>C27: a reply whose cleaned text is not JSON, i.e. on which \<open>JSON.parse\<close> throws a
  \<open>SyntaxError\<close>, rejects with the structured-analysis error, and no partial result is
  returned (scenario E). Texts with an escape the model cannot represent are excluded.\<close>

theorem analyze_unparseable:
  assumes "generate_content (analysis_request cv_text industry) = Inr response"
    and "response_text response = Some t" and "json_parse (strip_fence t) = Inl json_syntax_error"
  shows "analyze_cv_with_trends generate_content cv_text industry
           = Inl (Error structured_failure_msg)"
  using assms by (simp add: analyze_response parse_analysis_response_def)

theorem analyze_unparseable_witness:
  "(\<lambda>_. Inr \<lparr>response_text = Some ''Sorry'', candidates = None\<rparr>) (analysis_request ''cv'' ''Tech'')
     = (Inr \<lparr>response_text = Some ''Sorry'', candidates = None\<rparr> :: js_error + gemini_response)
   \<and> response_text \<lparr>response_text = Some ''Sorry'', candidates = None\<rparr> = Some ''Sorry''
   \<and> json_parse (strip_fence ''Sorry'') = Inl json_syntax_error
   \<and> analyze_cv_with_trends (\<lambda>_. Inr \<lparr>response_text = Some ''Sorry'', candidates = None\<rparr>)
       ''cv'' ''Tech'' = Inl (Error structured_failure_msg)"
proof -
  have "json_parse (strip_fence ''Sorry'') = Inl json_syntax_error"
    by code_simp
  then show ?thesis
    using analyze_unparseable [of "\<lambda>_. Inr \<lparr>response_text = Some ''Sorry'', candidates = None\<rparr>"
        "''cv''" "''Tech''"] by simp
qed

text \<open>C28: a reply with no text at all also rejects with the structured-analysis error,
  not with a call failure.\<close>

theorem analyze_no_text:
  assumes "generate_content (analysis_request cv_text industry) = Inr response"
    and "response_text response = None"
  shows "analyze_cv_with_trends generate_content cv_text industry
           = Inl (Error structured_failure_msg)"
  using assms by (simp add: analyze_response parse_analysis_response_def)

theorem analyze_no_text_witness:
  "(\<lambda>_. Inr \<lparr>response_text = None, candidates = None\<rparr>) (analysis_request ''cv'' ''Tech'')
     = (Inr \<lparr>response_text = None, candidates = None\<rparr> :: js_error + gemini_response)
   \<and> response_text \<lparr>response_text = None, candidates = None\<rparr> = None
   \<and> analyze_cv_with_trends (\<lambda>_. Inr \<lparr>response_text = None, candidates = None\<rparr>)
       ''cv'' ''Tech'' = Inl (Error structured_failure_msg)"
  using analyze_no_text [of "\<lambda>_. Inr \<lparr>response_text = None, candidates = None\<rparr>"
      "''cv''" "''Tech''"] by simp

text \<open>C29: any truthy JSON value is accepted as the analysis, with the grounding sources
  of the first candidate, without any check of the documented schema (so \<open>{}\<close> or
  \<open>[1]\<close> is returned as an \<open>AnalysisResult\<close>); falsy JSON values (\<open>null\<close>,
  \<open>false\<close>, \<open>0\<close>, \<open>""\<close>) reject with the structured-analysis error.\<close>

theorem analyze_parsed_value:
  assumes "generate_content (analysis_request cv_text industry) = Inr response"
    and "response_text response = Some t" and "json_parse (strip_fence t) = Inr v"
  shows "analyze_cv_with_trends generate_content cv_text industry =
           (if js_truthy v then Inr (Some (v, response_sources response))
            else Inl (Error structured_failure_msg))"
  using assms by (simp add: analyze_response parse_analysis_response_def)

theorem analyze_parsed_value_witness:
  "(\<lambda>_. Inr \<lparr>response_text = Some ''{}'', candidates = None\<rparr>) (analysis_request ''cv'' ''Tech'')
     = (Inr \<lparr>response_text = Some ''{}'', candidates = None\<rparr> :: js_error + gemini_response)
   \<and> response_text \<lparr>response_text = Some ''{}'', candidates = None\<rparr> = Some ''{}''
   \<and> json_parse (strip_fence ''{}'') = Inr (JObj [])
   \<and> analyze_cv_with_trends (\<lambda>_. Inr \<lparr>response_text = Some ''{}'', candidates = None\<rparr>)
       ''cv'' ''Tech'' = Inr (Some (JObj [], []))"
proof -
  have "json_parse (strip_fence ''{}'') = Inr (JObj [])"
    by code_simp
  then show ?thesis
    using analyze_parsed_value [of "\<lambda>_. Inr \<lparr>response_text = Some ''{}'', candidates = None\<rparr>"
        "''cv''" "''Tech''"] by (simp add: response_sources_def)
qed

lemma analyze_result_truthy:
  "analyze_cv_with_trends generate_content cv_text industry = Inr (Some (a, srcs)) \<Longrightarrow> js_truthy a"
  by (auto simp: analyze_cv_with_trends_def Let_def split: sum.splits if_splits)

lemma build_prompt_lines:
  "\<exists>lines. build_prompt cv_text industry = js_join ''\<newline>'' lines
     \<and> ''    '' @ cv_text \<in> set lines \<and> ''    The user's field is: '' @ industry \<in> set lines"
  unfolding build_prompt_def by (intro exI conjI, rule refl) simp_all

lemma build_prompt_embeds:
  "sublist cv_text (build_prompt cv_text industry) \<and> sublist industry (build_prompt cv_text industry)"
proof -
  obtain lines where b: "build_prompt cv_text industry = js_join ''\<newline>'' lines"
    and c: "''    '' @ cv_text \<in> set lines"
    and i: "''    The user's field is: '' @ industry \<in> set lines"
    using build_prompt_lines by blast
  have "sublist cv_text (''    '' @ cv_text)" by (rule sublist_append_leftI)
  moreover have "sublist (''    '' @ cv_text) (build_prompt cv_text industry)"
    unfolding b using c by (rule sublist_js_join)
  moreover have "sublist industry (''    The user's field is: '' @ industry)"
    by (rule sublist_append_leftI)
  moreover have "sublist (''    The user's field is: '' @ industry) (build_prompt cv_text industry)"
    unfolding b using i by (rule sublist_js_join)
  ultimately show ?thesis by (meson sublist_order.order.trans)
qed

text \<open>the request \<open>analyzeCvWithTrends\<close> sends asks \<open>gemini-2.5-flash\<close> with the
  Google Search tool enabled, and its contents embed the full CV text and the industry.\<close>

lemma analysis_request_contents:
  "req_model (analysis_request cv_text industry) = ''gemini-2.5-flash''
   \<and> req_tools (analysis_request cv_text industry) = [GoogleSearch]
   \<and> sublist cv_text (req_contents (analysis_request cv_text industry))
   \<and> sublist industry (req_contents (analysis_request cv_text industry))"
  using build_prompt_embeds [of cv_text industry] by (simp add: analysis_request_def)


text \<open>C7: round trip through the client: when the model answers as the prompt asks, a
  truthy JSON value between \<open>```json\<close> and \<open>```\<close> (with any whitespace around
  the body and after the closing fence), the analysis returned is exactly that value, with
  the first candidate's grounding sources.\<close>

theorem analyze_fenced_json:
  assumes "generate_content (analysis_request cv_text industry) = Inr response"
    and "response_text response = Some (fence_open @ ws1 @ json_print v @ fence_close @ ws2)"
    and "all_space ws1" and "all_space ws2" and "js_truthy v"
  shows "analyze_cv_with_trends generate_content cv_text industry
           = Inr (Some (v, response_sources response))"
  using assms by (simp add: analyze_response parse_analysis_fenced)

theorem analyze_fenced_json_witness:
  "(\<lambda>_. Inr \<lparr>response_text = Some (fence_open @ ''\<newline>'' @ json_print (JObj [(''overallScore'', JNum 85 0)])
        @ fence_close @ []), candidates = None\<rparr>) (analysis_request ''cv'' ''Tech'')
     = (Inr \<lparr>response_text = Some (fence_open @ ''\<newline>'' @ json_print (JObj [(''overallScore'', JNum 85 0)])
        @ fence_close @ []), candidates = None\<rparr> :: js_error + gemini_response)
   \<and> response_text \<lparr>response_text = Some (fence_open @ ''\<newline>''
        @ json_print (JObj [(''overallScore'', JNum 85 0)]) @ fence_close @ []), candidates = None\<rparr>
     = Some (fence_open @ ''\<newline>'' @ json_print (JObj [(''overallScore'', JNum 85 0)]) @ fence_close @ [])
   \<and> all_space ''\<newline>'' \<and> all_space [] \<and> js_truthy (JObj [(''overallScore'', JNum 85 0)])
   \<and> analyze_cv_with_trends (\<lambda>_. Inr \<lparr>response_text = Some (fence_open @ ''\<newline>''
        @ json_print (JObj [(''overallScore'', JNum 85 0)]) @ fence_close @ []), candidates = None\<rparr>)
       ''cv'' ''Tech'' = Inr (Some (JObj [(''overallScore'', JNum 85 0)], []))"
  using analyze_fenced_json [of "\<lambda>_. Inr \<lparr>response_text = Some (fence_open @ ''\<newline>''
        @ json_print (JObj [(''overallScore'', JNum 85 0)]) @ fence_close @ []), candidates = None\<rparr>"
      "''cv''" "''Tech''" "\<lparr>response_text = Some (fence_open @ ''\<newline>''
        @ json_print (JObj [(''overallScore'', JNum 85 0)]) @ fence_close @ []), candidates = None\<rparr>"
      "''\<newline>''" "JObj [(''overallScore'', JNum 85 0)]" "[]"]
  by (simp add: response_sources_def is_js_space_code)

end
