(* ===== verification/Controller.thy ===== *)
theory Controller
  imports Upload GeminiClient
begin

text \<open>
  The application controller, \<open>src/App.tsx\<close>, composed with the upload control. The
  session state is App's seven \<open>useState\<close> variables. \<open>pending_analysis\<close> records the
  suspended \<open>handleAnalyze\<close> after its \<open>await\<close>, with the \<open>cvText\<close> and
  \<open>industry\<close> its closure captured. The whole page is a pair of the upload control's
  state and App's state. Its transitions are of three kinds:
  \<^item> UI events, each available only when the current render shows its control;
  \<^item> the completion of a pending extraction, with the result of
    \<open>extract_text_from_file\<close> for any browser;
  \<^item> the completion of a pending analysis call, with the result of
    \<open>analyze_cv_with_trends\<close> for any remote model.
  JavaScript runs one event or continuation at a time, so the page's behaviour is every
  interleaving of these steps. \<open>app_step\<close> is that relation; \<open>reachable\<close> closes it
  from the initial render.
\<close>

subsection \<open>App's state and handlers\<close>

record app_state =
  cv_text :: string
  industry :: string
  analysis :: "json option"
  sources :: "grounding_chunk list"
  is_loading :: bool
  error :: "string option"
  cv_file_name :: "string option"
  pending_analysis :: "(string \<times> string) option"

definition app_init :: app_state where
  "app_init =
     \<lparr>cv_text = [], industry = [], analysis = None, sources = [], is_loading = False,
      error = None, cv_file_name = None, pending_analysis = None\<rparr>"

definition missing_input_msg :: string where
  "missing_input_msg = ''Oga, you must upload your CV and enter your field of work.''"

definition empty_analysis_msg :: string where
  "empty_analysis_msg = ''Sorry o, something went wrong. The analysis returned empty. Try again.''"

definition analysis_failed_msg :: string where
  "analysis_failed_msg =
     ''Ah! E don cast. We couldn't analyze your CV. Please check your network or try again later.''"

definition handle_file_processed :: "string \<Rightarrow> string \<Rightarrow> app_state \<Rightarrow> app_state" where
  "handle_file_processed text name s = s\<lparr>cv_text := text, cv_file_name := Some name, error := None\<rparr>"

definition handle_remove_file :: "app_state \<Rightarrow> app_state" where
  "handle_remove_file s = s\<lparr>cv_text := [], cv_file_name := None\<rparr>"

definition set_error :: "string \<Rightarrow> app_state \<Rightarrow> app_state" where
  "set_error msg s = s\<lparr>error := Some msg\<rparr>"

definition set_industry :: "string \<Rightarrow> app_state \<Rightarrow> app_state" where
  "set_industry v s = s\<lparr>industry := v\<rparr>"

text \<open>The props App passes to \<open>FileUpload\<close> (lines 90--95).\<close>

definition app_upload_props :: "app_state upload_props" where
  "app_upload_props =
     \<lparr>on_file_processed = handle_file_processed, on_error = set_error,
      on_remove_file = handle_remove_file\<rparr>"

text \<open>\<open>handleAnalyze\<close> up to its \<open>await\<close> (lines 32--43): the input check, then the
  loading state and the call with the captured inputs.\<close>

definition handle_analyze_start :: "app_state \<Rightarrow> app_state" where
  "handle_analyze_start s =
     (if cv_text s = [] \<or> js_trim (industry s) = [] then s\<lparr>error := Some missing_input_msg\<rparr>
      else s\<lparr>is_loading := True, error := None, analysis := None, sources := [],
             pending_analysis := Some (cv_text s, industry s)\<rparr>)"

text \<open>The continuation (lines 44--55): the result, or the \<open>else\<close> branch, or the
  \<open>catch\<close> block, then \<open>finally\<close>.\<close>

definition handle_analyze_finish ::
  "js_error + (json \<times> grounding_chunk list) option \<Rightarrow> app_state \<Rightarrow> app_state" where
  "handle_analyze_finish r s =
     (case r of
        Inr (Some (a, src)) \<Rightarrow> s\<lparr>analysis := Some a, sources := src\<rparr>
      | Inr None \<Rightarrow> s\<lparr>error := Some empty_analysis_msg\<rparr>
      | Inl _ \<Rightarrow> s\<lparr>error := Some analysis_failed_msg\<rparr>)
     \<lparr>is_loading := False, pending_analysis := None\<rparr>"

text \<open>The button's \<open>disabled\<close> attribute (line 100).\<close>

definition analyze_disabled :: "app_state \<Rightarrow> bool" where
  "analyze_disabled s \<longleftrightarrow> is_loading s \<or> cv_text s = [] \<or> industry s = []"

subsection \<open>The page\<close>

type_synonym page = "upload_state \<times> app_state"

definition page_init :: page where
  "page_init = (upload_init, app_init)"

definition in_drop_zone :: "page \<Rightarrow> bool" where
  "in_drop_zone = (\<lambda>(u, s). case upload_view u (cv_file_name s) of DropZone _ \<Rightarrow> True | _ \<Rightarrow> False)"

definition in_file_view :: "page \<Rightarrow> bool" where
  "in_file_view = (\<lambda>(u, s). case upload_view u (cv_file_name s) of FileView _ \<Rightarrow> True | _ \<Rightarrow> False)"

datatype ui_event =
    TypeIndustry string
  | ClickAnalyze
  | DragEnter
  | DragLeave
  | DragOver
  | DropFiles "js_file list"
  | SelectFiles "js_file list"
  | ClickRemove

text \<open>A UI event on the current render; \<open>None\<close> when its control is not shown or is
  disabled. The industry input is always shown.\<close>

fun ui_step :: "ui_event \<Rightarrow> page \<Rightarrow> page option" where
  "ui_step (TypeIndustry v) (u, s) = Some (u, set_industry v s)"
| "ui_step ClickAnalyze (u, s) =
     (if analyze_disabled s then None else Some (u, handle_analyze_start s))"
| "ui_step DragEnter p = (if in_drop_zone p then Some (apfst handle_drag_enter p) else None)"
| "ui_step DragLeave p = (if in_drop_zone p then Some (apfst handle_drag_leave p) else None)"
| "ui_step DragOver p = (if in_drop_zone p then Some (apfst handle_drag_over p) else None)"
| "ui_step (DropFiles fs) p =
     (if in_drop_zone p then Some (handle_drop app_upload_props fs p) else None)"
| "ui_step (SelectFiles fs) p =
     (if in_drop_zone p then Some (handle_file_select app_upload_props fs p) else None)"
| "ui_step ClickRemove p =
     (if in_file_view p then Some (handle_remove_click app_upload_props p) else None)"

definition finish_extraction :: "js_file \<Rightarrow> js_error + string \<Rightarrow> page \<Rightarrow> page" where
  "finish_extraction f r p = process_file_finish app_upload_props f r p"

definition finish_analysis :: "js_error + (json \<times> grounding_chunk list) option \<Rightarrow> page \<Rightarrow> page" where
  "finish_analysis r = (\<lambda>(u, s). (u, handle_analyze_finish r s))"

subsection \<open>Steps and reachable states\<close>

inductive app_step :: "page \<Rightarrow> page \<Rightarrow> bool" where
  ui: "ui_step ev p = Some p' \<Longrightarrow> app_step p p'"
| extraction_done: "pending_parse (fst p) = Some f \<Longrightarrow>
     app_step p (finish_extraction f (extract_text_from_file br f) p)"
| analysis_done: "pending_analysis (snd p) = Some (cv, ind) \<Longrightarrow>
     app_step p (finish_analysis (analyze_cv_with_trends generate_content cv ind) p)"

inductive reachable :: "page \<Rightarrow> bool" where
  init: "reachable page_init"
| step: "reachable p \<Longrightarrow> app_step p p' \<Longrightarrow> reachable p'"

subsection \<open>The page invariant\<close>

text \<open>What every reachable page satisfies. \<open>isLoading\<close> holds exactly while an
  analysis call is pending, and no analysis is stored while loading. \<open>isParsing\<close> holds
  exactly while an extraction is pending. The CV text is empty exactly when no file name is
  stored, and otherwise it is not blank. A stored analysis is a truthy JSON value.\<close>

definition page_inv :: "page \<Rightarrow> bool" where
  "page_inv = (\<lambda>(u, s).
     (pending_analysis s = None \<longleftrightarrow> \<not> is_loading s) \<and>
     (is_loading s \<longrightarrow> analysis s = None) \<and>
     (pending_parse u = None \<longleftrightarrow> \<not> is_parsing u) \<and>
     (cv_file_name s = None \<longleftrightarrow> cv_text s = []) \<and>
     (cv_text s = [] \<or> \<not> all_space (cv_text s)) \<and>
     (case analysis s of None \<Rightarrow> True | Some a \<Rightarrow> js_truthy a))"

subsection \<open>Executable traces\<close>

text \<open>The same steps as an executable function of an event that names the choice of the
  environment (the browser for an extraction, the remote model for an analysis call).\<close>

datatype page_event =
    UI ui_event
  | ExtractionDone browser
  | AnalysisDone remote_model

fun page_step :: "page_event \<Rightarrow> page \<Rightarrow> page option" where
  "page_step (UI ev) p = ui_step ev p"
| "page_step (ExtractionDone br) p =
     (case pending_parse (fst p) of
        None \<Rightarrow> None
      | Some f \<Rightarrow> Some (finish_extraction f (extract_text_from_file br f) p))"
| "page_step (AnalysisDone g) p =
     (case pending_analysis (snd p) of
        None \<Rightarrow> None
      | Some (cv, ind) \<Rightarrow> Some (finish_analysis (analyze_cv_with_trends g cv ind) p))"

fun run :: "page_event list \<Rightarrow> page \<Rightarrow> page option" where
  "run [] p = Some p"
| "run (e # es) p = (case page_step e p of None \<Rightarrow> None | Some p' \<Rightarrow> run es p')"

subsection \<open>Completing what is pending\<close>

text \<open>The environment completes the pending extraction, if any, with the browser \<open>br\<close>,
  and then the pending analysis call, if any, with the model \<open>g\<close>.\<close>

definition settle :: "browser \<Rightarrow> remote_model \<Rightarrow> page \<Rightarrow> page" where
  "settle br g p =
     (let p1 = (case pending_parse (fst p) of
                  None \<Rightarrow> p
                | Some f \<Rightarrow> finish_extraction f (extract_text_from_file br f) p)
      in case pending_analysis (snd p1) of
           None \<Rightarrow> p1
         | Some (cv, ind) \<Rightarrow> finish_analysis (analyze_cv_with_trends g cv ind) p1)"

subsection \<open>Example session\<close>

text \<open>The pages of the success scenario of the specification: the user types an industry,
  selects a plain-text CV (\<open>FileParser.txt_file\<close>, read by
  \<open>FileParser.example_browser\<close>), and clicks analyze. The model answers as the
  prompt asks, with \<open>example_analysis\<close> fenced as JSON.\<close>

definition example_industry :: string where
  "example_industry = ''Software Engineering''"

definition example_cv_text :: string where
  "example_cv_text = ''Experienced backend engineer, 5 years.''"

definition example_analysis :: json where
  "example_analysis =
     JObj [(''trends'', JArr [JStr ''Cloud skills are in demand.'', JStr ''Go and Rust are rising.'',
              JStr ''Remote teams value written communication.'']),
           (''overallScore'', JNum 78 0),
           (''scoreBreakdown'', JArr [
              JObj [(''area'', JStr ''Clarity & Formatting''), (''score'', JNum 85 0),
                    (''feedback'', JStr ''Clear layout.'')],
              JObj [(''area'', JStr ''Impact & Keywords''), (''score'', JNum 70 0),
                    (''feedback'', JStr ''Quantify results.'')],
              JObj [(''area'', JStr ''Experience Relevancy''), (''score'', JNum 80 0),
                    (''feedback'', JStr ''Relevant backend work.'')]]),
           (''summary'', JStr ''Solid CV.''),
           (''keyImprovement'', JStr ''Quantify your impact.'')]"

definition example_sources :: "grounding_chunk list" where
  "example_sources =
     [\<lparr>chunk_web = Some \<lparr>web_uri = Some ''https://example.org/trends'', web_title = Some ''Hiring trends''\<rparr>\<rparr>]"

definition example_reply :: gemini_response where
  "example_reply =
     \<lparr>response_text = Some (fence_open @ ''\<newline>'' @ json_print example_analysis @ fence_close @ ''\<newline>''),
      candidates = Some [\<lparr>grounding_meta = Some \<lparr>grounding_chunks = Some example_sources\<rparr>\<rparr>]\<rparr>"

definition example_model :: remote_model where
  "example_model prompt = Inr example_reply"

definition failing_model :: remote_model where
  "failing_model prompt = Inl (Error ''Failed to fetch'')"

definition page_parsing :: page where
  "page_parsing =
     (upload_init\<lparr>is_parsing := True, parsing_file_name := Some ''cv.txt'',
                  pending_parse := Some (txt_file [65])\<rparr>,
      app_init\<lparr>industry := example_industry, error := Some []\<rparr>)"

definition page_ready :: page where
  "page_ready =
     (upload_init,
      app_init\<lparr>cv_text := example_cv_text, industry := example_industry,
               cv_file_name := Some ''cv.txt''\<rparr>)"

definition page_loading :: page where
  "page_loading =
     (upload_init,
      snd page_ready\<lparr>is_loading := True, pending_analysis := Some (example_cv_text, example_industry)\<rparr>)"

definition page_result :: page where
  "page_result =
     (upload_init, snd page_ready\<lparr>analysis := Some example_analysis, sources := example_sources\<rparr>)"

subsection \<open>The invariant holds on every reachable page\<close>

lemmas handler_defs = handle_file_processed_def handle_remove_file_def set_error_def
  set_industry_def app_upload_props_def handle_analyze_start_def handle_analyze_finish_def

lemmas upload_defs = process_file_start_def process_file_finish_def handle_drag_enter_def
  handle_drag_leave_def handle_drag_over_def handle_remove_click_def process_first_def
  handle_drop_def handle_file_select_def

lemma app_remove_click [simp]: "handle_remove_click app_upload_props (u, s) = (u, handle_remove_file s)"
  by (simp add: handle_remove_click_def app_upload_props_def)

lemma drag_over_unchanged [simp]: "handle_drag_over u = u"
  by (simp add: handle_drag_over_def)

lemma process_file_start_inv:
  "page_inv p \<Longrightarrow> page_inv (process_file_start app_upload_props f p)"
  by (cases p) (auto simp: page_inv_def upload_defs handler_defs)

lemma set_industry_inv: "page_inv (u, s) \<Longrightarrow> page_inv (u, set_industry v s)"
  by (auto simp: page_inv_def set_industry_def)

lemma handle_analyze_start_inv:
  "page_inv (u, s) \<Longrightarrow> \<not> is_loading s \<Longrightarrow> page_inv (u, handle_analyze_start s)"
  by (auto simp: page_inv_def handle_analyze_start_def)

lemma handle_remove_file_inv: "page_inv (u, s) \<Longrightarrow> page_inv (u, handle_remove_file s)"
  by (auto simp: page_inv_def handle_remove_file_def)

lemma drag_inv:
  "page_inv (u, s) \<Longrightarrow> page_inv (handle_drag_enter u, s)"
  "page_inv (u, s) \<Longrightarrow> page_inv (handle_drag_leave u, s)"
  by (auto simp: page_inv_def handle_drag_enter_def handle_drag_leave_def)

lemma process_first_inv:
  "page_inv p \<Longrightarrow> page_inv (process_first app_upload_props fs p)"
  by (cases fs) (simp_all add: process_first_def process_file_start_inv)

lemma handle_drop_inv:
  "page_inv (u, s) \<Longrightarrow> page_inv (handle_drop app_upload_props fs (u, s))"
proof -
  assume "page_inv (u, s)"
  then have "page_inv (u\<lparr>is_dragging := False\<rparr>, s)" by (auto simp: page_inv_def)
  then show ?thesis by (simp add: handle_drop_def process_first_inv)
qed

lemma ui_step_inv:
  assumes inv: "page_inv p" and st: "ui_step ev p = Some p'"
  shows "page_inv p'"
proof -
  obtain u s where p: "p = (u, s)" by (cases p)
  show ?thesis
  proof (cases ev)
    case ClickAnalyze
    with st p have "\<not> is_loading s" and "p' = (u, handle_analyze_start s)"
      by (auto simp: analyze_disabled_def split: if_splits)
    with inv p show ?thesis by (simp add: handle_analyze_start_inv)
  next
    case (DropFiles fs)
    with st p inv show ?thesis by (auto split: if_splits intro: handle_drop_inv)
  next
    case (SelectFiles fs)
    with st p inv show ?thesis
      by (auto simp: handle_file_select_def split: if_splits intro: process_first_inv)
  qed (use st p inv in \<open>auto split: if_splits intro: set_industry_inv handle_remove_file_inv
         drag_inv\<close>)
qed

lemma finish_extraction_inv:
  assumes "page_inv p" and "\<And>text. r = Inr text \<Longrightarrow> \<not> all_space text"
  shows "page_inv (finish_extraction f r p)"
  using assms
  by (cases p) (auto simp: page_inv_def finish_extraction_def process_file_finish_def handler_defs
      split: sum.splits)

lemma finish_analysis_inv:
  assumes "page_inv p" and "\<And>a src. r = Inr (Some (a, src)) \<Longrightarrow> js_truthy a"
  shows "page_inv (finish_analysis r p)"
  using assms
  by (cases p) (auto simp: page_inv_def finish_analysis_def handle_analyze_finish_def
      split: sum.splits option.splits)

lemma app_step_inv: "app_step p p' \<Longrightarrow> page_inv p \<Longrightarrow> page_inv p'"
proof (induction rule: app_step.induct)
  case (ui ev p p')
  then show ?case by (rule ui_step_inv [rotated])
next
  case (extraction_done p f br)
  have "\<And>text. extract_text_from_file br f = Inr text \<Longrightarrow> \<not> all_space text"
    by (rule extract_text_not_blank)
  with extraction_done.prems show ?case by (rule finish_extraction_inv)
next
  case (analysis_done p cv ind generate_content)
  have "\<And>a src. analyze_cv_with_trends generate_content cv ind = Inr (Some (a, src)) \<Longrightarrow> js_truthy a"
    by (rule analyze_result_truthy)
  with analysis_done.prems show ?case by (rule finish_analysis_inv)
qed

lemma page_init_inv: "page_inv page_init"
  by (simp add: page_inv_def page_init_def app_init_def upload_init_def)

lemma reachable_page_inv: "reachable p \<Longrightarrow> page_inv p"
  by (induction rule: reachable.induct) (auto intro: page_init_inv app_step_inv)

lemma page_step_app_step: "page_step e p = Some p' \<Longrightarrow> app_step p p'"
proof (cases e)
  case (UI ev)
  then show "page_step e p = Some p' \<Longrightarrow> app_step p p'" by (auto intro: app_step.ui)
next
  case (ExtractionDone br)
  then show "page_step e p = Some p' \<Longrightarrow> app_step p p'"
    by (auto split: option.splits intro: app_step.extraction_done)
next
  case (AnalysisDone g)
  then show "page_step e p = Some p' \<Longrightarrow> app_step p p'"
    by (auto split: option.splits intro: app_step.analysis_done)
qed

lemma page_step_reachable: "reachable p \<Longrightarrow> page_step e p = Some p' \<Longrightarrow> reachable p'"
  by (rule reachable.step) (auto intro: page_step_app_step)

lemma run_reachable: "run es p = Some p' \<Longrightarrow> reachable p \<Longrightarrow> reachable p'"
proof (induction es arbitrary: p)
  case Nil
  then show ?case by simp
next
  case (Cons e es)
  then obtain p1 where s1: "page_step e p = Some p1" and r: "run es p1 = Some p'"
    by (auto split: option.splits)
  from Cons.prems(2) s1 have "reachable p1" by (rule page_step_reachable)
  with r show ?case by (rule Cons.IH)
qed

lemma run_append: "run (es @ fs) p = (case run es p of None \<Rightarrow> None | Some p' \<Rightarrow> run fs p')"
  by (induction es arbitrary: p) (auto split: option.splits)

lemma run_step: "page_step e p = Some p' \<Longrightarrow> run (e # es) p = run es p'"
  by simp

subsection \<open>The example session\<close>

lemma example_cv_read: "extract_text_from_file example_browser (txt_file [65]) = Inr example_cv_text"
proof -
  have "\<not> all_space example_cv_text" by (simp add: example_cv_text_def is_js_space_code)
  then show ?thesis
    by (simp add: extract_defs example_simps example_cv_text_def js_trim_Nil_iff)
qed

lemma example_model_result:
  "analyze_cv_with_trends example_model cv ind = Inr (Some (example_analysis, example_sources))"
proof -
  have "parse_analysis_response (response_text example_reply) = example_analysis"
    unfolding example_reply_def gemini_response.select_convs
    by (rule parse_analysis_fenced) (simp_all add: is_js_space_code)
  then show ?thesis
    by (simp add: analyze_cv_with_trends_def example_model_def example_analysis_def
        response_sources_def example_reply_def Let_def)
qed

lemmas page_step_simps = handler_defs upload_defs accepted_mime_types_def in_drop_zone_def
  in_file_view_def upload_view_def upload_init_def app_init_def finish_extraction_def
  finish_analysis_def analyze_disabled_def

lemma example_steps:
  "run [UI (TypeIndustry example_industry), UI (SelectFiles [txt_file [65]])] page_init
     = Some page_parsing"
  "page_step (ExtractionDone example_browser) page_parsing = Some page_ready"
  "page_step (UI ClickAnalyze) page_ready = Some page_loading"
  "page_step (AnalysisDone example_model) page_loading = Some page_result"
  by (simp_all add: page_init_def page_parsing_def page_ready_def page_loading_def page_result_def
      page_step_simps txt_file_def example_cv_read [unfolded txt_file_def] example_model_result
      example_industry_def example_cv_text_def js_trim_Nil_iff is_js_space_code)

lemma example_reachable:
  "reachable page_parsing" "reachable page_ready" "reachable page_loading" "reachable page_result"
proof -
  show p: "reachable page_parsing"
    by (rule run_reachable [OF example_steps(1) reachable.init])
  show r: "reachable page_ready" by (rule page_step_reachable [OF p example_steps(2)])
  show l: "reachable page_loading" by (rule page_step_reachable [OF r example_steps(3)])
  show "reachable page_result" by (rule page_step_reachable [OF l example_steps(4)])
qed

lemma reachable_rtranclp: "app_step\<^sup>*\<^sup>* p p' \<Longrightarrow> reachable p \<Longrightarrow> reachable p'"
  by (induction rule: rtranclp_induct) (auto intro: reachable.step)

lemma finish_clears:
  "pending_parse (fst (finish_extraction f r p)) = None"
  "pending_analysis (snd (finish_analysis r' p)) = None"
  "fst (finish_analysis r' p) = fst p"
  by (cases p; simp add: finish_extraction_def process_file_finish_def finish_analysis_def
      handle_analyze_finish_def split: sum.splits option.splits)+

lemma settle_steps: "app_step\<^sup>*\<^sup>* p (settle br g p)"
proof -
  define p1 where "p1 = (case pending_parse (fst p) of
                           None \<Rightarrow> p
                         | Some f \<Rightarrow> finish_extraction f (extract_text_from_file br f) p)"
  have s1: "app_step\<^sup>*\<^sup>* p p1"
    unfolding p1_def by (cases "pending_parse (fst p)") (auto intro: app_step.extraction_done)
  have "app_step\<^sup>*\<^sup>* p1 (settle br g p)"
    unfolding settle_def p1_def [symmetric] Let_def
    by (cases "pending_analysis (snd p1)") (auto intro: app_step.analysis_done)
  with s1 show ?thesis by (rule rtranclp_trans)
qed

lemma settle_idle:
  "pending_parse (fst (settle br g p)) = None \<and> pending_analysis (snd (settle br g p)) = None"
  unfolding settle_def Let_def
  by (auto simp: finish_clears split: option.splits)

lemma settle_reachable_idle:
  assumes "reachable p"
  shows "\<not> is_parsing (fst (settle br g p)) \<and> \<not> is_loading (snd (settle br g p))"
proof -
  have "reachable (settle br g p)" using settle_steps assms by (rule reachable_rtranclp)
  then have "page_inv (settle br g p)" by (rule reachable_page_inv)
  with settle_idle [of br g p] show ?thesis by (cases "settle br g p") (simp add: page_inv_def)
qed

subsection \<open>Properties of the controller\<close>

text \<open>C1: no analysis is stored while the page is loading, on any reachable page: the
  result view and the loading view are never both called for.\<close>

theorem reachable_result_not_loading:
  assumes "reachable (u, s)" and "analysis s \<noteq> None"
  shows "\<not> is_loading s"
  using reachable_page_inv [OF assms(1)] assms(2) by (auto simp: page_inv_def)

theorem reachable_result_not_loading_witness:
  "reachable (fst page_result, snd page_result) \<and> analysis (snd page_result) \<noteq> None
   \<and> \<not> is_loading (snd page_result)"
  using reachable_result_not_loading [of "fst page_result" "snd page_result"] example_reachable(4)
  by (simp add: page_result_def)

text \<open>C2: on every reachable page, \<open>isLoading\<close> holds exactly while an analysis call is in
  flight.\<close>

theorem reachable_loading_iff_pending:
  assumes "reachable (u, s)"
  shows "is_loading s \<longleftrightarrow> pending_analysis s \<noteq> None"
  using reachable_page_inv [OF assms] by (auto simp: page_inv_def)

theorem reachable_loading_iff_pending_witness:
  "reachable (fst page_loading, snd page_loading)
   \<and> (is_loading (snd page_loading) \<longleftrightarrow> pending_analysis (snd page_loading) \<noteq> None)"
  using reachable_loading_iff_pending [of "fst page_loading" "snd page_loading"] example_reachable(3)
  by simp

text \<open>C5: on every reachable page, a file name is stored exactly when a CV text is, and
  a stored CV text is never blank (this rests on the extractor's guarantee).\<close>

theorem reachable_cv_text_file_name:
  assumes "reachable (u, s)"
  shows "(cv_file_name s = None \<longleftrightarrow> cv_text s = []) \<and> (cv_text s \<noteq> [] \<longrightarrow> \<not> all_space (cv_text s))"
  using reachable_page_inv [OF assms] by (auto simp: page_inv_def)

theorem reachable_cv_text_file_name_witness:
  "reachable (fst page_ready, snd page_ready)
   \<and> cv_file_name (snd page_ready) \<noteq> None \<and> cv_text (snd page_ready) \<noteq> []
   \<and> \<not> all_space (cv_text (snd page_ready))"
  using reachable_cv_text_file_name [of "fst page_ready" "snd page_ready"] example_reachable(2)
  by (simp add: page_ready_def example_cv_text_def)

lemma ui_step_pending_parse:
  assumes "page_inv p" and "ui_step ev p = Some p'" and "pending_parse (fst p) = Some f"
  shows "pending_parse (fst p') = Some f"
proof -
  obtain u s where p: "p = (u, s)" by (cases p)
  with assms have parsing: "is_parsing u" by (auto simp: page_inv_def)
  then have "\<not> in_drop_zone (u, s)" by (simp add: in_drop_zone_def upload_view_def)
  with assms p show ?thesis
    by (cases ev) (auto simp: handle_drag_enter_def handle_drag_leave_def split: if_splits)
qed

text \<open>C3: at most one extraction is in flight: no step of a reachable page starts a new
  extraction while one is pending; the pending one stays until it completes.\<close>

theorem extraction_never_replaced:
  assumes "reachable p" and "app_step p p'" and "pending_parse (fst p) = Some f"
  shows "pending_parse (fst p') = Some f \<or> pending_parse (fst p') = None"
  using assms(2,3) reachable_page_inv [OF assms(1)]
proof (induction rule: app_step.induct)
  case (ui ev p p')
  then show ?case using ui_step_pending_parse by blast
next
  case (extraction_done p f' br)
  then show ?case
    by (cases p) (simp add: finish_extraction_def process_file_finish_def)
next
  case (analysis_done p cv ind g)
  then show ?case by (cases p) (simp add: finish_analysis_def)
qed

theorem extraction_never_replaced_witness:
  "reachable page_parsing \<and> app_step page_parsing page_ready
   \<and> pending_parse (fst page_parsing) = Some (txt_file [65])
   \<and> (pending_parse (fst page_ready) = Some (txt_file [65]) \<or> pending_parse (fst page_ready) = None)"
proof -
  have st: "app_step page_parsing page_ready" by (rule page_step_app_step [OF example_steps(2)])
  have pp: "pending_parse (fst page_parsing) = Some (txt_file [65])" by (simp add: page_parsing_def)
  show ?thesis
    using extraction_never_replaced [OF example_reachable(1) st pp] example_reachable(1) st pp
    by blast
qed

lemma ui_step_pending_analysis:
  assumes "page_inv p" and "ui_step ev p = Some p'" and "pending_analysis (snd p) = Some c"
  shows "pending_analysis (snd p') = Some c"
proof -
  obtain u s where p: "p = (u, s)" by (cases p)
  with assms have "is_loading s" by (auto simp: page_inv_def)
  with assms p show ?thesis
    by (cases ev)
      (auto simp: analyze_disabled_def set_industry_def handle_remove_file_def
        handle_drop_def handle_file_select_def process_first_def process_file_start_def
        app_upload_props_def set_error_def handle_drag_enter_def handle_drag_leave_def
        handle_remove_click_def split: if_splits list.splits)
qed

text \<open>C4: at most one analysis call is in flight: while one is pending, no step starts
  another; the pending call stays until it completes.\<close>

theorem analysis_never_replaced:
  assumes "reachable p" and "app_step p p'" and "pending_analysis (snd p) = Some c"
  shows "pending_analysis (snd p') = Some c \<or> pending_analysis (snd p') = None"
  using assms(2,3) reachable_page_inv [OF assms(1)]
proof (induction rule: app_step.induct)
  case (ui ev p p')
  then show ?case using ui_step_pending_analysis by blast
next
  case (extraction_done p f br)
  then show ?case
    by (cases p) (simp add: finish_extraction_def process_file_finish_def app_upload_props_def
        handle_file_processed_def set_error_def handle_remove_file_def split: sum.splits)
next
  case (analysis_done p cv ind g)
  then show ?case by (cases p) (simp add: finish_analysis_def handle_analyze_finish_def)
qed

theorem analysis_never_replaced_witness:
  "reachable page_loading \<and> app_step page_loading page_result
   \<and> pending_analysis (snd page_loading) = Some (example_cv_text, example_industry)
   \<and> (pending_analysis (snd page_result) = Some (example_cv_text, example_industry)
      \<or> pending_analysis (snd page_result) = None)"
proof -
  have st: "app_step page_loading page_result" by (rule page_step_app_step [OF example_steps(4)])
  have pa: "pending_analysis (snd page_loading) = Some (example_cv_text, example_industry)"
    by (simp add: page_loading_def)
  show ?thesis
    using analysis_never_replaced [OF example_reachable(3) st pa] example_reachable(3) st pa
    by blast
qed

text \<open>C20: the analyze button is enabled for an industry made only of whitespace; a click
  then only sets the missing-input error and starts no call.\<close>

theorem analyze_blank_industry:
  assumes "\<not> is_loading s" and "cv_text s \<noteq> []" and "industry s \<noteq> []"
    and "all_space (industry s)"
  shows "ui_step ClickAnalyze (u, s) = Some (u, s\<lparr>error := Some missing_input_msg\<rparr>)"
  using assms by (simp add: analyze_disabled_def handle_analyze_start_def js_trim_Nil_iff)

theorem analyze_blank_industry_witness:
  "\<not> is_loading (snd page_ready\<lparr>industry := '' ''\<rparr>) \<and> cv_text (snd page_ready\<lparr>industry := '' ''\<rparr>) \<noteq> []
   \<and> industry (snd page_ready\<lparr>industry := '' ''\<rparr>) \<noteq> [] \<and> all_space (industry (snd page_ready\<lparr>industry := '' ''\<rparr>))
   \<and> ui_step ClickAnalyze (upload_init, snd page_ready\<lparr>industry := '' ''\<rparr>)
       = Some (upload_init, snd page_ready\<lparr>industry := '' '', error := Some missing_input_msg\<rparr>)"
  using analyze_blank_industry [of "snd page_ready\<lparr>industry := '' ''\<rparr>" upload_init]
  by (simp add: page_ready_def app_init_def example_cv_text_def is_js_space_code)

text \<open>C25: a click with a CV and a non-blank industry clears the previous error, result and
  sources, enters the loading state and starts exactly one call with the current inputs.\<close>

theorem analyze_start:
  assumes "\<not> is_loading s" and "cv_text s \<noteq> []" and "\<not> all_space (industry s)"
  shows "ui_step ClickAnalyze (u, s) =
           Some (u, s\<lparr>is_loading := True, error := None, analysis := None, sources := [],
                      pending_analysis := Some (cv_text s, industry s)\<rparr>)"
proof -
  from assms(3) have "industry s \<noteq> []" by auto
  with assms show ?thesis
    by (simp add: analyze_disabled_def handle_analyze_start_def js_trim_Nil_iff)
qed

theorem analyze_start_witness:
  "\<not> is_loading (snd page_ready) \<and> cv_text (snd page_ready) \<noteq> []
   \<and> \<not> all_space (industry (snd page_ready))
   \<and> ui_step ClickAnalyze (upload_init, snd page_ready) = Some page_loading"
  using analyze_start [of "snd page_ready" upload_init]
  by (simp add: page_ready_def page_loading_def app_init_def example_cv_text_def
      example_industry_def is_js_space_code)

text \<open>C26: without a CV text the analyze button is disabled, so no click can reach the
  handler; the handler's own check would only set the missing-input error.\<close>

theorem analyze_without_cv:
  assumes "cv_text s = []"
  shows "ui_step ClickAnalyze (u, s) = None \<and>
         handle_analyze_start s = s\<lparr>error := Some missing_input_msg\<rparr>"
  using assms by (simp add: analyze_disabled_def handle_analyze_start_def)

theorem analyze_without_cv_witness:
  "cv_text (app_init\<lparr>industry := example_industry\<rparr>) = []
   \<and> ui_step ClickAnalyze (upload_init, app_init\<lparr>industry := example_industry\<rparr>) = None
   \<and> handle_analyze_start (app_init\<lparr>industry := example_industry\<rparr>)
       = app_init\<lparr>industry := example_industry, error := Some missing_input_msg\<rparr>"
  using analyze_without_cv [of "app_init\<lparr>industry := example_industry\<rparr>" upload_init]
  by (simp add: app_init_def)


text \<open>C10: liveness: from every reachable page, whatever the browser and the remote model
  return, the pending extraction and the pending analysis call complete in at most two
  steps, and the page is then neither parsing nor loading; the page never stays busy.\<close>

theorem pending_operations_complete:
  assumes "reachable p"
  shows "app_step\<^sup>*\<^sup>* p (settle br g p) \<and> \<not> is_parsing (fst (settle br g p))
         \<and> \<not> is_loading (snd (settle br g p))"
  using settle_steps [of p br g] settle_reachable_idle [OF assms, of br g] by simp

theorem pending_operations_complete_witness:
  "reachable page_loading
   \<and> app_step\<^sup>*\<^sup>* page_loading (settle example_browser failing_model page_loading)
   \<and> \<not> is_parsing (fst (settle example_browser failing_model page_loading))
   \<and> \<not> is_loading (snd (settle example_browser failing_model page_loading))"
  using pending_operations_complete [OF example_reachable(3), of example_browser failing_model]
    example_reachable(3) by simp

text \<open>C15: type of the stored analysis: on every reachable page a stored analysis is a truthy
  JSON value (an object or array, a non-empty string, a non-zero number or \<open>true\<close>), so
  App's \<open>analysis && ...\<close> always renders the result view for it.\<close>

theorem reachable_analysis_truthy:
  assumes "reachable (u, s)" and "analysis s = Some a"
  shows "js_truthy a"
  using reachable_page_inv [OF assms(1)] assms(2) by (simp add: page_inv_def)

theorem reachable_analysis_truthy_witness:
  "reachable (fst page_result, snd page_result) \<and> analysis (snd page_result) = Some example_analysis
   \<and> js_truthy example_analysis"
  using reachable_analysis_truthy [of "fst page_result" "snd page_result" example_analysis]
    example_reachable(4)
  by (simp add: page_result_def)

end
