(* ===== verification/JsNumber.thy ===== *)
theory JsNumber
  imports Complex_Main Json
begin

text \<open>
  JavaScript numbers as the result view uses them: \<open>ToNumber\<close> of a value read from the
  parsed reply, the relational comparison \<open>x >= k\<close>, and the arithmetic of the score
  gauge. These are operations of the JavaScript platform, modelled from ECMA-262 (7.1.4 and
  7.1.4.1.1 for \<open>ToNumber\<close> and \<open>StringToNumber\<close>, 7.2.13 for the comparison, 6.1.6.1
  for the arithmetic). A number is an exact rational, \<open>NaN\<close>, or an infinity. The model
  does not round to IEEE doubles and does not distinguish \<open>-0\<close> from \<open>0\<close>. So a decimal
  such as \<open>1e400\<close> stays finite here, where JavaScript gives \<open>Infinity\<close>. Every
  comparison the sources make is against a small integer, where rounding does not change
  the outcome for the scores the prompt asks for.
\<close>

datatype js_number = NaN | PosInf | NegInf | Fin rat

subsection \<open>Values of JSON numbers\<close>

definition pow10 :: "int \<Rightarrow> rat" where
  "pow10 e = (if 0 \<le> e then 10 ^ nat e else 1 / 10 ^ nat (- e))"

text \<open>The value of \<open>JNum m e\<close>, i.e. \<open>m * 10^e\<close>.\<close>

definition decimal_value :: "int \<Rightarrow> int \<Rightarrow> rat" where
  "decimal_value m e = of_int m * pow10 e"

subsection \<open>\<open>StringToNumber\<close>\<close>

text \<open>The exponent part of a \<open>StrUnsignedDecimalLiteral\<close>: nothing, or \<open>e\<close>/\<open>E\<close>, an
  optional sign and at least one digit, and then the end of the string.\<close>

definition str_exponent :: "string \<Rightarrow> int option" where
  "str_exponent s =
     (case s of
        [] \<Rightarrow> Some 0
      | c # t \<Rightarrow>
          (if c \<noteq> CHR ''e'' \<and> c \<noteq> CHR ''E'' then None
           else
             (let (sg, u) = (case t of
                               d # v \<Rightarrow> (if d = CHR ''-'' then (-1, v)
                                          else if d = CHR ''+'' then (1, v) else (1, t))
                             | [] \<Rightarrow> (1, []))
              in if u \<noteq> [] \<and> list_all is_digit u then Some (sg * int (digits_val u)) else None)))"

text \<open>\<open>StrUnsignedDecimalLiteral\<close>: \<open>Infinity\<close>, or digits with an optional fraction and
  exponent, where the integer part or the fraction (not both) may be empty.\<close>

definition str_unsigned :: "string \<Rightarrow> js_number option" where
  "str_unsigned s =
     (if s = ''Infinity'' then Some PosInf
      else
        (let ip = takeWhile is_digit s; r1 = dropWhile is_digit s;
             (fp, r2) = (case r1 of
                           c # t \<Rightarrow> (if c = CHR ''.'' then (takeWhile is_digit t, dropWhile is_digit t)
                                     else ([], r1))
                         | [] \<Rightarrow> ([], []));
             dot = (r1 \<noteq> [] \<and> hd r1 = CHR ''.'')
         in if ip = [] \<and> fp = [] then None
            else
              (case str_exponent (if dot then r2 else r1) of
                 None \<Rightarrow> None
               | Some ex \<Rightarrow>
                   Some (Fin (of_nat (digits_val (ip @ fp)) * pow10 (ex - int (length fp)))))))"

text \<open>\<open>NonDecimalIntegerLiteral\<close>: \<open>0x\<close>, \<open>0o\<close> or \<open>0b\<close> (either case) and at least one
  digit of that radix.\<close>

definition radix_digit :: "nat \<Rightarrow> char \<Rightarrow> nat option" where
  "radix_digit r c = (case hex_val c of Some d \<Rightarrow> (if d < r then Some d else None) | None \<Rightarrow> None)"

definition radix_value :: "nat \<Rightarrow> string \<Rightarrow> nat option" where
  "radix_value r s =
     (if s = [] \<or> \<not> list_all (\<lambda>c. radix_digit r c \<noteq> None) s then None
      else Some (foldl (\<lambda>n c. r * n + the (radix_digit r c)) 0 s))"

definition str_non_decimal :: "string \<Rightarrow> nat option" where
  "str_non_decimal s =
     (case s of
        a # b # t \<Rightarrow>
          (if a \<noteq> CHR ''0'' then None
           else if b = CHR ''x'' \<or> b = CHR ''X'' then radix_value 16 t
           else if b = CHR ''o'' \<or> b = CHR ''O'' then radix_value 8 t
           else if b = CHR ''b'' \<or> b = CHR ''B'' then radix_value 2 t
           else None)
      | _ \<Rightarrow> None)"

definition js_neg :: "js_number \<Rightarrow> js_number" where
  "js_neg n = (case n of NaN \<Rightarrow> NaN | PosInf \<Rightarrow> NegInf | NegInf \<Rightarrow> PosInf | Fin q \<Rightarrow> Fin (- q))"

definition string_to_number :: "string \<Rightarrow> js_number" where
  "string_to_number s =
     (let t = js_trim s in
      if t = [] then Fin 0
      else
        (case str_non_decimal t of
           Some n \<Rightarrow> Fin (of_nat n)
         | None \<Rightarrow>
             (case t of
                c # u \<Rightarrow>
                  (if c = CHR ''+'' then (case str_unsigned u of Some n \<Rightarrow> n | None \<Rightarrow> NaN)
                   else if c = CHR ''-'' then (case str_unsigned u of Some n \<Rightarrow> js_neg n | None \<Rightarrow> NaN)
                   else (case str_unsigned t of Some n \<Rightarrow> n | None \<Rightarrow> NaN))
              | [] \<Rightarrow> NaN)))"

subsection \<open>\<open>ToNumber\<close> of values read from the reply\<close>

text \<open>An array converts through \<open>ToPrimitive\<close>, i.e. \<open>Array.prototype.join\<close> of the
  \<open>ToString\<close> of its elements: the empty array gives \<open>""\<close>, so \<open>0\<close>; two or more
  elements give a string with a comma, so \<open>NaN\<close>; one element gives that element's
  string (\<open>""\<close> for \<open>null\<close>, \<open>"true"\<close>/\<open>"false"\<close> for booleans, the number's own digits for
  a number, \<open>"[object Object]"\<close> for an object). An object converts to
  \<open>"[object Object]"\<close>, so \<open>NaN\<close>.\<close>

fun to_number :: "json \<Rightarrow> js_number"
and array_number :: "json list \<Rightarrow> js_number"
and element_number :: "json \<Rightarrow> js_number" where
  "to_number JNull = Fin 0"
| "to_number (JBool b) = Fin (if b then 1 else 0)"
| "to_number (JNum m e) = Fin (decimal_value m e)"
| "to_number (JStr s) = string_to_number s"
| "to_number (JArr vs) = array_number vs"
| "to_number (JObj ms) = NaN"
| "array_number [] = Fin 0"
| "array_number [v] = element_number v"
| "array_number (v # w # vs) = NaN"
| "element_number JNull = Fin 0"
| "element_number (JBool b) = NaN"
| "element_number (JNum m e) = Fin (decimal_value m e)"
| "element_number (JStr s) = string_to_number s"
| "element_number (JArr vs) = array_number vs"
| "element_number (JObj ms) = NaN"

text \<open>A property that is absent reads as \<open>undefined\<close>, whose \<open>ToNumber\<close> is \<open>NaN\<close>.\<close>

definition js_to_number :: "json option \<Rightarrow> js_number" where
  "js_to_number v = (case v of None \<Rightarrow> NaN | Some j \<Rightarrow> to_number j)"

subsection \<open>Comparison and arithmetic\<close>

text \<open>\<open>x >= k\<close> and \<open>x > k\<close> for a number literal \<open>k\<close>: \<open>NaN\<close> compares false.\<close>

definition js_ge :: "js_number \<Rightarrow> rat \<Rightarrow> bool" where
  "js_ge n k = (case n of NaN \<Rightarrow> False | PosInf \<Rightarrow> True | NegInf \<Rightarrow> False | Fin q \<Rightarrow> k \<le> q)"

definition js_gt :: "js_number \<Rightarrow> rat \<Rightarrow> bool" where
  "js_gt n k = (case n of NaN \<Rightarrow> False | PosInf \<Rightarrow> True | NegInf \<Rightarrow> False | Fin q \<Rightarrow> k < q)"

definition inf_of_sign :: "rat \<Rightarrow> js_number" where
  "inf_of_sign q = (if 0 < q then PosInf else if q < 0 then NegInf else NaN)"

fun js_add :: "js_number \<Rightarrow> js_number \<Rightarrow> js_number" where
  "js_add NaN b = NaN"
| "js_add a NaN = NaN"
| "js_add PosInf NegInf = NaN"
| "js_add NegInf PosInf = NaN"
| "js_add PosInf b = PosInf"
| "js_add NegInf b = NegInf"
| "js_add (Fin p) PosInf = PosInf"
| "js_add (Fin p) NegInf = NegInf"
| "js_add (Fin p) (Fin q) = Fin (p + q)"

definition js_sub :: "js_number \<Rightarrow> js_number \<Rightarrow> js_number" where
  "js_sub a b = js_add a (js_neg b)"

fun js_mul :: "js_number \<Rightarrow> js_number \<Rightarrow> js_number" where
  "js_mul (Fin p) (Fin q) = Fin (p * q)"
| "js_mul NaN b = NaN"
| "js_mul a NaN = NaN"
| "js_mul (Fin p) PosInf = inf_of_sign p"
| "js_mul (Fin p) NegInf = inf_of_sign (- p)"
| "js_mul PosInf (Fin q) = inf_of_sign q"
| "js_mul NegInf (Fin q) = inf_of_sign (- q)"
| "js_mul PosInf PosInf = PosInf"
| "js_mul NegInf NegInf = PosInf"
| "js_mul PosInf NegInf = NegInf"
| "js_mul NegInf PosInf = NegInf"

text \<open>Division; a finite number divided by zero is an infinity of its sign (the sign of a
  zero divisor is not modelled), \<open>0 / 0\<close> is \<open>NaN\<close>.\<close>

fun js_div :: "js_number \<Rightarrow> js_number \<Rightarrow> js_number" where
  "js_div (Fin p) (Fin q) = (if q = 0 then inf_of_sign p else Fin (p / q))"
| "js_div NaN b = NaN"
| "js_div a NaN = NaN"
| "js_div (Fin p) PosInf = Fin 0"
| "js_div (Fin p) NegInf = Fin 0"
| "js_div PosInf (Fin q) = inf_of_sign q"
| "js_div NegInf (Fin q) = inf_of_sign (- q)"
| "js_div a b = NaN"

subsection \<open>Lemmas\<close>

lemma js_arith_Fin [simp]:
  "js_sub (Fin p) (Fin q) = Fin (p - q)"
  "q \<noteq> 0 \<Longrightarrow> js_div (Fin p) (Fin q) = Fin (p / q)"
  by (simp_all add: js_sub_def js_neg_def)

lemma js_arith_NaN [simp]:
  "js_sub a NaN = NaN" "js_sub NaN b = NaN" "js_mul NaN b = NaN" "js_div NaN b = NaN"
  by (simp_all add: js_sub_def js_neg_def) (cases a; simp)

lemma decimal_value_int [simp]: "decimal_value m 0 = of_int m"
  by (simp add: decimal_value_def pow10_def)

end
