(* ===== verification/Presentation.thy ===== *)
theory Presentation
  imports Controller JsNumber
begin

text \<open>
  The result view: \<open>src/components/AnalysisDisplay.tsx\<close> with its children
  \<open>charts/RadialProgress.tsx\<close> and \<open>charts/ScoreBar.tsx\<close>, and the three panels that
  \<open>src/App.tsx\<close> renders under the form (lines 117--134), and the form's analyze
  button (lines 97--113). A render is a function of the
  state. It returns the blocks the user sees, in document order, or the exception that the
  render throws. React has no error boundary here, so an exception unmounts the whole page.
  The analysis the view reads is the parsed JSON value that the client returned
  unchecked. Every property access, \<open>.map\<close> call and JSX child is therefore modelled on
  an arbitrary JSON value, as JavaScript evaluates it. A block keeps the values it shows,
  not the markup, classes or styles around them.
\<close>

subsection \<open>Reading the parsed reply\<close>

definition type_error :: js_error where
  "type_error = Error ''TypeError''"

definition react_child_error :: js_error where
  "react_child_error = Error ''Objects are not valid as a React child''"

text \<open>Property access \<open>v.k\<close> on a value that may be \<open>undefined\<close> (\<open>None\<close>): it throws on
  \<open>undefined\<close> and \<open>null\<close>; arrays and strings have a \<open>length\<close>; no other property the view
  reads exists on a primitive or an array.\<close>

definition js_prop :: "json option \<Rightarrow> string \<Rightarrow> js_error + json option" where
  "js_prop v k =
     (case v of
        None \<Rightarrow> Inl type_error
      | Some JNull \<Rightarrow> Inl type_error
      | Some (JObj ms) \<Rightarrow> Inr (json_get (JObj ms) k)
      | Some (JArr vs) \<Rightarrow> Inr (if k = ''length'' then Some (JNum (int (length vs)) 0) else None)
      | Some (JStr s) \<Rightarrow> Inr (if k = ''length'' then Some (JNum (int (length s)) 0) else None)
      | Some _ \<Rightarrow> Inr None)"

definition js_truthy_opt :: "json option \<Rightarrow> bool" where
  "js_truthy_opt v = (case v of None \<Rightarrow> False | Some j \<Rightarrow> js_truthy j)"

text \<open>\<open>v.map(f)\<close>: only an array has a \<open>map\<close> method; on anything else the call throws a
  \<open>TypeError\<close>.\<close>

definition js_map :: "json option \<Rightarrow> (json \<Rightarrow> js_error + 'b) \<Rightarrow> js_error + 'b list" where
  "js_map v f = (case v of Some (JArr vs) \<Rightarrow> smap f vs | _ \<Rightarrow> Inl type_error)"

subsection \<open>JSX children\<close>

text \<open>What \<open>{v}\<close> renders: strings and numbers as text; \<open>null\<close>, \<open>undefined\<close> and
  booleans as nothing; arrays element by element; a plain object throws.\<close>

datatype rchild = RText string | RNum int int

fun react_children :: "json \<Rightarrow> js_error + rchild list"
and react_list :: "json list \<Rightarrow> js_error + rchild list" where
  "react_children JNull = Inr []"
| "react_children (JBool b) = Inr []"
| "react_children (JNum m e) = Inr [RNum m e]"
| "react_children (JStr s) = Inr [RText s]"
| "react_children (JArr vs) = react_list vs"
| "react_children (JObj ms) = Inl react_child_error"
| "react_list [] = Inr []"
| "react_list (v # vs) = sbind (react_children v) (\<lambda>a. sbind (react_list vs) (\<lambda>b. Inr (a @ b)))"

definition render_value :: "json option \<Rightarrow> js_error + rchild list" where
  "render_value v = (case v of None \<Rightarrow> Inr [] | Some j \<Rightarrow> react_children j)"

subsection \<open>The components\<close>

datatype score_color = NigerianGreen | Amber | Red

text \<open>\<open>getScoreColor\<close> (AnalysisDisplay lines 13--17), on whatever value the reply holds.\<close>

definition get_score_color :: "json option \<Rightarrow> score_color" where
  "get_score_color score =
     (if js_ge (js_to_number score) 80 then NigerianGreen
      else if js_ge (js_to_number score) 50 then Amber
      else Red)"

text \<open>\<open>Math.PI\<close>, the double nearest to \<open>\<pi>\<close>, and the circumference of the gauge with its
  default \<open>size = 160\<close> and \<open>strokeWidth = 12\<close> (RadialProgress lines 10--13).\<close>

definition math_pi :: rat where
  "math_pi = 884279719003555 / 281474976710656"

definition radial_circumference :: "rat \<Rightarrow> rat \<Rightarrow> rat" where
  "radial_circumference diameter stroke_width = 2 * math_pi * (diameter / 2 - stroke_width)"

definition gauge_circumference :: rat where
  "gauge_circumference = radial_circumference 160 12"

text \<open>\<open>offset = circumference - (score / 100) * circumference\<close> (line 14).\<close>

definition radial_offset :: "json option \<Rightarrow> js_number" where
  "radial_offset score =
     js_sub (Fin gauge_circumference)
       (js_mul (js_div (js_to_number score) (Fin 100)) (Fin gauge_circumference))"

datatype result_block =
    Gauge "rchild list" score_color js_number
  | SummaryBlock "rchild list"
  | ImprovementBlock "rchild list"
  | ScoreBarBlock "rchild list" "rchild list" "rchild list" score_color
  | TrendItem "rchild list"
  | StrayValue "rchild list"
  | SourceLink "string option" "string option"

text \<open>\<open>RadialProgress\<close>: the score as text in the colour, and the arc's dash offset.\<close>

definition radial_progress :: "json option \<Rightarrow> score_color \<Rightarrow> js_error + result_block" where
  "radial_progress score color =
     sbind (render_value score) (\<lambda>txt. Inr (Gauge txt color (radial_offset score)))"

text \<open>\<open>ScoreBar\<close>: area, \<open>{score}/100\<close> and feedback (the bar's width style is not
  modelled).\<close>

definition score_bar ::
  "json option \<Rightarrow> json option \<Rightarrow> json option \<Rightarrow> score_color \<Rightarrow> js_error + result_block" where
  "score_bar area score feedback color =
     sbind (render_value area) (\<lambda>a. sbind (render_value score) (\<lambda>s.
       sbind (render_value feedback) (\<lambda>f. Inr (ScoreBarBlock a s f color))))"

text \<open>One element of \<open>analysis.scoreBreakdown.map(...)\<close> (lines 55--57).\<close>

definition breakdown_item :: "json \<Rightarrow> js_error + result_block" where
  "breakdown_item item =
     sbind (js_prop (Some item) ''area'') (\<lambda>area.
     sbind (js_prop (Some item) ''score'') (\<lambda>score.
     sbind (js_prop (Some item) ''feedback'') (\<lambda>feedback.
       score_bar area score feedback (get_score_color score))))"

text \<open>\<open>{analysis.trends && analysis.trends.length > 0 && (...)}\<close> (lines 61--76): a falsy
  \<open>trends\<close> is itself rendered (so \<open>0\<close> shows a stray \<open>0\<close>); a truthy one without a positive
  \<open>length\<close> renders \<open>false\<close>; otherwise its \<open>map\<close> renders one item per trend.\<close>

definition trends_section :: "json option \<Rightarrow> js_error + result_block list" where
  "trends_section tr =
     (if \<not> js_truthy_opt tr
      then sbind (render_value tr) (\<lambda>ch. Inr (if ch = [] then [] else [StrayValue ch]))
      else
        sbind (js_prop tr ''length'') (\<lambda>len.
          if \<not> js_gt (js_to_number len) 0 then Inr []
          else js_map tr (\<lambda>t. sbind (render_value (Some t)) (\<lambda>ch. Inr (TrendItem ch)))))"

text \<open>One link of the sources list (lines 85--91): \<open>href={source.web.uri}\<close> and the text
  \<open>source.web.title || source.web.uri\<close>. Reading \<open>uri\<close> of a chunk without \<open>web\<close>
  throws a \<open>TypeError\<close>; an absent \<open>uri\<close> or \<open>title\<close> is \<open>undefined\<close>, which
  React renders as nothing.\<close>

definition source_link :: "grounding_chunk \<Rightarrow> js_error + result_block" where
  "source_link g =
     (case chunk_web g of
        None \<Rightarrow> Inl type_error
      | Some w \<Rightarrow>
          Inr (SourceLink (web_uri w)
                 (case web_title w of Some t \<Rightarrow> (if t = [] then web_uri w else Some t) | None \<Rightarrow> web_uri w)))"

text \<open>\<open>AnalysisDisplay\<close> (lines 19--97), in the order of its JSX.\<close>

definition analysis_display :: "json \<Rightarrow> grounding_chunk list \<Rightarrow> js_error + result_block list" where
  "analysis_display a srcs =
     sbind (js_prop (Some a) ''overallScore'') (\<lambda>score.
     sbind (radial_progress score (get_score_color score)) (\<lambda>gauge.
     sbind (js_prop (Some a) ''summary'') (\<lambda>sm. sbind (render_value sm) (\<lambda>smc.
     sbind (js_prop (Some a) ''keyImprovement'') (\<lambda>ki. sbind (render_value ki) (\<lambda>kic.
     sbind (js_prop (Some a) ''scoreBreakdown'') (\<lambda>sb. sbind (js_map sb breakdown_item) (\<lambda>bars.
     sbind (js_prop (Some a) ''trends'') (\<lambda>tr. sbind (trends_section tr) (\<lambda>trs.
     sbind (if srcs = [] then Inr [] else smap source_link srcs) (\<lambda>links.
       Inr ([gauge, SummaryBlock smc, ImprovementBlock kic] @ bars @ trs @ links))))))))))))"

subsection \<open>App's panels\<close>

datatype panel = ErrorBanner string | Cooking | Results "result_block list" | StrayPanel "rchild list"

text \<open>Lines 117--134: the error banner when \<open>error\<close> is truthy, the cooking message while
  loading without an analysis, and the result view when not loading with a truthy
  analysis (a falsy one would be rendered as a value).\<close>

definition app_panels :: "app_state \<Rightarrow> js_error + panel list" where
  "app_panels s =
     sbind
       (if is_loading s then Inr []
        else (case analysis s of
                None \<Rightarrow> Inr []
              | Some a \<Rightarrow>
                  (if js_truthy a then sbind (analysis_display a (sources s)) (\<lambda>bs. Inr [Results bs])
                   else sbind (react_children a) (\<lambda>ch. Inr (if ch = [] then [] else [StrayPanel ch])))))
       (\<lambda>res. Inr ((case error s of Some e \<Rightarrow> (if e = [] then [] else [ErrorBanner e]) | None \<Rightarrow> [])
                   @ (if is_loading s \<and> \<not> js_truthy_opt (analysis s) then [Cooking] else [])
                   @ res))"

subsection \<open>App's analyze button\<close>

text \<open>The brand colours of \<open>src/constants\<close> that the button's style uses.\<close>

datatype brand_colour = BrandGreen | BrandBlue

record analyze_button =
  btn_disabled :: bool
  btn_spinner :: bool
  btn_label :: string
  btn_colour :: brand_colour

text \<open>Lines 97--113: the button is disabled by the guard \<open>analyze_disabled\<close>; while
  loading it shows the \<open>Loader\<close> and the waiting label on the green background,
  otherwise the call to action on the blue one.\<close>

definition analyze_button_view :: "app_state \<Rightarrow> analyze_button" where
  "analyze_button_view s =
     \<lparr>btn_disabled = analyze_disabled s, btn_spinner = is_loading s,
      btn_label = (if is_loading s then ''Analyzing... Hold on tight!'' else ''Oya, Analyze My CV!''),
      btn_colour = (if is_loading s then BrandGreen else BrandBlue)\<rparr>"

subsection \<open>The documented schema\<close>

text \<open>\<open>ScoreBreakdown\<close> and \<open>AnalysisResult\<close> of \<open>src/types.ts\<close>, with numbers as the
  decimals \<open>(m, e)\<close> of the reply, and the JSON values that have this shape. The code
  never checks the shape; \<open>decode_analysis\<close> is what the \<open>as AnalysisResult\<close> cast
  assumes.\<close>

record score_breakdown =
  sb_area :: string
  sb_score :: "int \<times> int"
  sb_feedback :: string

record analysis_result =
  ar_overall_score :: "int \<times> int"
  ar_score_breakdown :: "score_breakdown list"
  ar_summary :: string
  ar_key_improvement :: string
  ar_trends :: "string list"

definition decode_str :: "json option \<Rightarrow> string option" where
  "decode_str v = (case v of Some (JStr s) \<Rightarrow> Some s | _ \<Rightarrow> None)"

definition decode_num :: "json option \<Rightarrow> (int \<times> int) option" where
  "decode_num v = (case v of Some (JNum m e) \<Rightarrow> Some (m, e) | _ \<Rightarrow> None)"

definition decode_list :: "(json \<Rightarrow> 'a option) \<Rightarrow> json option \<Rightarrow> 'a list option" where
  "decode_list d v = (case v of Some (JArr vs) \<Rightarrow> those (map d vs) | _ \<Rightarrow> None)"

definition decode_breakdown :: "json \<Rightarrow> score_breakdown option" where
  "decode_breakdown v =
     (case v of
        JObj ms \<Rightarrow>
          (case (decode_str (json_get v ''area''), decode_num (json_get v ''score''),
                 decode_str (json_get v ''feedback'')) of
             (Some a, Some n, Some f) \<Rightarrow> Some \<lparr>sb_area = a, sb_score = n, sb_feedback = f\<rparr>
           | _ \<Rightarrow> None)
      | _ \<Rightarrow> None)"

text \<open>\<open>GroundingChunk\<close> of \<open>src/types.ts\<close>: \<open>web\<close> with its \<open>uri\<close> and
  \<open>title\<close>, all required. \<open>decode_source\<close> gives the chunks of that shape.\<close>

record spec_source =
  src_uri :: string
  src_title :: string

definition decode_source :: "grounding_chunk \<Rightarrow> spec_source option" where
  "decode_source g =
     (case chunk_web g of
        Some w \<Rightarrow>
          (case (web_uri w, web_title w) of
             (Some u, Some t) \<Rightarrow> Some \<lparr>src_uri = u, src_title = t\<rparr>
           | _ \<Rightarrow> None)
      | None \<Rightarrow> None)"

definition decode_analysis :: "json \<Rightarrow> analysis_result option" where
  "decode_analysis v =
     (case v of
        JObj ms \<Rightarrow>
          (case (decode_num (json_get v ''overallScore''),
                 decode_list decode_breakdown (json_get v ''scoreBreakdown''),
                 decode_str (json_get v ''summary''), decode_str (json_get v ''keyImprovement''),
                 decode_list (\<lambda>t. decode_str (Some t)) (json_get v ''trends'')) of
             (Some n, Some bs, Some sm, Some ki, Some ts) \<Rightarrow>
               Some \<lparr>ar_overall_score = n, ar_score_breakdown = bs, ar_summary = sm,
                     ar_key_improvement = ki, ar_trends = ts\<rparr>
           | _ \<Rightarrow> None)
      | _ \<Rightarrow> None)"

subsection \<open>The result view of a typed analysis\<close>

text \<open>What the result view should show for an \<open>AnalysisResult\<close>: the gauge, summary,
  key improvement, one bar per breakdown entry, one item per trend and one link per source,
  with the colour bands \<open>[80, \<infinity>)\<close>, \<open>[50, 80)\<close> and below.\<close>

definition score_color_of :: "rat \<Rightarrow> score_color" where
  "score_color_of x = (if 80 \<le> x then NigerianGreen else if 50 \<le> x then Amber else Red)"

definition spec_bar :: "score_breakdown \<Rightarrow> result_block" where
  "spec_bar b =
     ScoreBarBlock [RText (sb_area b)] [RNum (fst (sb_score b)) (snd (sb_score b))]
       [RText (sb_feedback b)] (score_color_of (case_prod decimal_value (sb_score b)))"

definition spec_link :: "spec_source \<Rightarrow> result_block" where
  "spec_link x = SourceLink (Some (src_uri x)) (Some (if src_title x = [] then src_uri x else src_title x))"

definition spec_display :: "analysis_result \<Rightarrow> spec_source list \<Rightarrow> result_block list" where
  "spec_display r srcs =
     (let (m, e) = ar_overall_score r; x = decimal_value m e in
      [Gauge [RNum m e] (score_color_of x) (Fin (gauge_circumference - x / 100 * gauge_circumference)),
       SummaryBlock [RText (ar_summary r)], ImprovementBlock [RText (ar_key_improvement r)]]
      @ map spec_bar (ar_score_breakdown r)
      @ map (\<lambda>t. TrendItem [RText t]) (ar_trends r)
      @ map spec_link srcs)"

text \<open>The typed value of \<open>Controller.example_analysis\<close>.\<close>

definition example_result :: analysis_result where
  "example_result =
     \<lparr>ar_overall_score = (78, 0),
      ar_score_breakdown =
        [\<lparr>sb_area = ''Clarity & Formatting'', sb_score = (85, 0), sb_feedback = ''Clear layout.''\<rparr>,
         \<lparr>sb_area = ''Impact & Keywords'', sb_score = (70, 0), sb_feedback = ''Quantify results.''\<rparr>,
         \<lparr>sb_area = ''Experience Relevancy'', sb_score = (80, 0),
            sb_feedback = ''Relevant backend work.''\<rparr>],
      ar_summary = ''Solid CV.'', ar_key_improvement = ''Quantify your impact.'',
      ar_trends = [''Cloud skills are in demand.'', ''Go and Rust are rising.'',
                   ''Remote teams value written communication.'']\<rparr>"

definition example_spec_sources :: "spec_source list" where
  "example_spec_sources = [\<lparr>src_uri = ''https://example.org/trends'', src_title = ''Hiring trends''\<rparr>]"

subsection \<open>Lemmas\<close>

lemma js_prop_obj [simp]: "js_prop (Some (JObj ms)) k = Inr (json_get (JObj ms) k)"
  by (simp add: js_prop_def)

lemma decode_scalar_Some:
  "decode_str v = Some s \<Longrightarrow> v = Some (JStr s)"
  "decode_num v = Some n \<Longrightarrow> v = Some (JNum (fst n) (snd n))"
  by (auto simp: decode_str_def decode_num_def split: option.splits json.splits)

lemma those_map_Some:
  "those (map d vs) = Some xs \<Longrightarrow> list_all2 (\<lambda>v x. d v = Some x) vs xs"
proof (induction vs arbitrary: xs)
  case Nil
  then show ?case by simp
next
  case (Cons v vs)
  then show ?case by (auto split: option.splits)
qed

lemma decode_list_Some:
  "decode_list d v = Some xs \<Longrightarrow>
   \<exists>vs. v = Some (JArr vs) \<and> list_all2 (\<lambda>v x. d v = Some x) vs xs"
  by (auto simp: decode_list_def those_map_Some split: option.splits json.splits)

lemma smap_list_all2:
  assumes "list_all2 (\<lambda>v x. d v = Some x) vs xs" and "\<And>v x. d v = Some x \<Longrightarrow> f v = Inr (g x)"
  shows "smap f vs = Inr (map g xs)"
  using assms(1)
  by (induction rule: list_all2_induct) (simp_all add: assms(2))

lemma to_number_num [simp]: "js_to_number (Some (JNum m e)) = Fin (decimal_value m e)"
  by (simp add: js_to_number_def)

lemma get_score_color_num: "get_score_color (Some (JNum m e)) = score_color_of (decimal_value m e)"
  by (simp add: get_score_color_def score_color_of_def js_ge_def)

lemma gauge_circumference_pos: "0 < gauge_circumference"
  by (simp add: gauge_circumference_def radial_circumference_def math_pi_def)

lemma radial_offset_Fin:
  "js_to_number score = Fin x \<Longrightarrow>
   radial_offset score = Fin (gauge_circumference - x / 100 * gauge_circumference)"
  by (simp add: radial_offset_def)

lemma breakdown_item_decoded: "decode_breakdown v = Some b \<Longrightarrow> breakdown_item v = Inr (spec_bar b)"
  by (auto simp: decode_breakdown_def breakdown_item_def score_bar_def spec_bar_def render_value_def
      get_score_color_num dest!: decode_scalar_Some split: json.splits option.splits)

lemma trends_section_decoded:
  assumes "decode_list (\<lambda>t. decode_str (Some t)) tr = Some ts"
  shows "trends_section tr = Inr (map (\<lambda>t. TrendItem [RText t]) ts)"
proof -
  obtain vs where tr: "tr = Some (JArr vs)" and rel: "list_all2 (\<lambda>v x. decode_str (Some v) = Some x) vs ts"
    using decode_list_Some [OF assms] by blast
  have len: "length vs = length ts" using rel by (rule list_all2_lengthD)
  have m: "smap (\<lambda>t. sbind (render_value (Some t)) (\<lambda>ch. Inr (TrendItem ch))) vs
      = Inr (map (\<lambda>t. TrendItem [RText t]) ts)"
    using rel by (rule smap_list_all2) (auto simp: render_value_def dest: decode_scalar_Some)
  show ?thesis
  proof (cases "vs = []")
    case True
    with len tr show ?thesis
      by (simp add: trends_section_def js_truthy_opt_def js_prop_def js_gt_def js_to_number_def)
  next
    case False
    then have "0 < length vs" by simp
    with m tr show ?thesis
      by (simp add: trends_section_def js_truthy_opt_def js_prop_def js_gt_def js_to_number_def
          js_map_def)
  qed
qed

text \<open>A reply with \<open>"trends": 0\<close> renders a stray \<open>0\<close> where the trend list would be:
  \<open>0 && ...\<close> evaluates to \<open>0\<close>, which React renders as text.\<close>

lemma trends_zero_stray: "trends_section (Some (JNum 0 e)) = Inr [StrayValue [RNum 0 e]]"
  by (simp add: trends_section_def js_truthy_opt_def render_value_def)

text \<open>The result view of a reply that has the documented shape is the view of the typed
  value.\<close>

lemma source_links_decoded:
  assumes "those (map decode_source srcs) = Some ss"
  shows "(if srcs = [] then Inr [] else smap source_link srcs) = Inr (map spec_link ss)"
proof -
  have rel: "list_all2 (\<lambda>v x. decode_source v = Some x) srcs ss" using assms by (rule those_map_Some)
  have "smap source_link srcs = Inr (map spec_link ss)"
    using rel by (rule smap_list_all2)
      (auto simp: decode_source_def source_link_def spec_link_def split: option.splits)
  then show ?thesis using rel by (cases srcs) auto
qed

lemma analysis_display_decoded_links:
  assumes "decode_analysis a = Some r"
  shows "analysis_display a srcs
         = sbind (if srcs = [] then Inr [] else smap source_link srcs) (\<lambda>links. Inr (spec_display r [] @ links))"
proof -
  obtain ms where a: "a = JObj ms" using assms by (auto simp: decode_analysis_def split: json.splits)
  obtain m e bs sm ki ts where
    n: "decode_num (json_get a ''overallScore'') = Some (m, e)"
    and b: "decode_list decode_breakdown (json_get a ''scoreBreakdown'') = Some bs"
    and s: "decode_str (json_get a ''summary'') = Some sm"
    and k: "decode_str (json_get a ''keyImprovement'') = Some ki"
    and t: "decode_list (\<lambda>t. decode_str (Some t)) (json_get a ''trends'') = Some ts"
    and r: "r = \<lparr>ar_overall_score = (m, e), ar_score_breakdown = bs, ar_summary = sm,
                 ar_key_improvement = ki, ar_trends = ts\<rparr>"
    using assms a by (auto simp: decode_analysis_def split: option.splits)
  obtain vs where sb: "json_get a ''scoreBreakdown'' = Some (JArr vs)"
    and rel: "list_all2 (\<lambda>v x. decode_breakdown v = Some x) vs bs"
    using decode_list_Some [OF b] by blast
  have bars: "js_map (json_get a ''scoreBreakdown'') breakdown_item = Inr (map spec_bar bs)"
    unfolding sb js_map_def using rel breakdown_item_decoded by (auto intro: smap_list_all2)
  have sc: "json_get a ''overallScore'' = Some (JNum m e)" using decode_scalar_Some(2) [OF n] by simp
  show ?thesis
    using a bars sc decode_scalar_Some(1) [OF s] decode_scalar_Some(1) [OF k]
      trends_section_decoded [OF t] r
    by (simp add: analysis_display_def spec_display_def radial_progress_def render_value_def
        get_score_color_num radial_offset_Fin Let_def)
qed

lemma analysis_display_decoded:
  assumes "decode_analysis a = Some r" and "those (map decode_source srcs) = Some ss"
  shows "analysis_display a srcs = Inr (spec_display r ss)"
  using analysis_display_decoded_links [OF assms(1)] source_links_decoded [OF assms(2)]
  by (simp add: spec_display_def Let_def case_prod_beta)

lemma example_sources_decode: "those (map decode_source example_sources) = Some example_spec_sources"
  by (simp add: example_sources_def example_spec_sources_def decode_source_def)

lemma example_analysis_decodes: "decode_analysis example_analysis = Some example_result"
  by (simp add: decode_analysis_def example_analysis_def example_result_def decode_num_def
      decode_str_def decode_list_def decode_breakdown_def json_get_def)

subsection \<open>Properties of the result view\<close>

text \<open>C8: refinement: for every reply that has the shape of \<open>AnalysisResult\<close> in
  \<open>src/types.ts\<close>, the blocks \<open>AnalysisDisplay\<close> renders, read from the untyped JSON
  value through JavaScript's property access, \<open>ToNumber\<close> and comparisons, are exactly the
  blocks of the typed specification \<open>spec_display\<close>: gauge with the score's colour band and
  the offset \<open>C - x/100 * C\<close>, summary, key improvement, one bar per entry, one item per
  trend, one link per source. The grounding sources, which the client casts unchecked, have
  the \<open>GroundingChunk\<close> shape too.\<close>

theorem analysis_display_refines:
  assumes "decode_analysis a = Some r" and "those (map decode_source srcs) = Some ss"
  shows "analysis_display a srcs = Inr (spec_display r ss)"
  using assms by (rule analysis_display_decoded)

theorem analysis_display_refines_witness:
  "decode_analysis example_analysis = Some example_result
   \<and> those (map decode_source example_sources) = Some example_spec_sources
   \<and> analysis_display example_analysis example_sources
     = Inr (spec_display example_result example_spec_sources)"
proof -
  have d: "decode_analysis example_analysis = Some example_result" by (rule example_analysis_decodes)
  have e: "those (map decode_source example_sources) = Some example_spec_sources"
    by (rule example_sources_decode)
  show ?thesis using d e analysis_display_refines [OF d e] by simp
qed

text \<open>On a reachable page the button shows the waiting label and spinner exactly while a
  call is pending, and it is disabled then.\<close>

lemma reachable_button_busy:
  assumes "reachable (u, s)"
  shows "(btn_label (analyze_button_view s) = ''Analyzing... Hold on tight!'' \<longleftrightarrow> pending_analysis s \<noteq> None)
         \<and> btn_spinner (analyze_button_view s) = (pending_analysis s \<noteq> None)
         \<and> (pending_analysis s \<noteq> None \<longrightarrow> btn_disabled (analyze_button_view s))"
  using reachable_page_inv [OF assms]
  by (auto simp: page_inv_def analyze_button_view_def analyze_disabled_def)

lemma reachable_button_busy_witness:
  "btn_label (analyze_button_view (snd page_loading)) = ''Analyzing... Hold on tight!''
   \<and> btn_disabled (analyze_button_view (snd page_loading))"
  using reachable_button_busy [of "fst page_loading" "snd page_loading"] example_reachable(3)
  by (simp add: page_loading_def)

end
