(* ===== verification/PageView.thy ===== *)
theory PageView
  imports Presentation
begin

text \<open>
  The whole page that \<open>App\<close> renders (\<open>src/App.tsx\<close>, lines 58--140), composed from its
  sections in document order: \<open>Header\<close> (\<open>src/components/Header.tsx\<close>), the hero text,
  \<open>HowItWorks\<close> (\<open>src/components/HowItWorks.tsx\<close>) with its three \<open>Step\<close>s, the form
  (the industry input, \<open>FileUpload\<close> and the analyze button), the panels under the form,
  and the footer. Header, hero, steps and footer are static: they keep the text, images and
  icons they show. The footer's year is \<open>new Date().getFullYear()\<close>, a parameter. The
  render is a value of \<open>js_error + _\<close> like its parts: an exception that a panel throws
  propagates to the page, which React then unmounts.
\<close>

subsection \<open>Static sections\<close>

record header_block =
  logo_src :: string
  logo_alt :: string
  brand_text :: "string list"

text \<open>\<open>Header\<close> (lines 5--16): the logo and the brand name, whose \<open>.ng\<close> is a nested
  span.\<close>

definition header_view :: header_block where
  "header_view =
     \<lparr>logo_src = ''https://mycv.ng/images/fav.png'', logo_alt = ''MyCv.ng Logo'',
      brand_text = [''MyCv'', ''.ng'']\<rparr>"

datatype step_icon = UploadCloudIcon | BriefcaseIcon | ChartBarIcon

record step_block =
  step_icon :: step_icon
  step_title :: string
  step_description :: string

text \<open>The \<open>Step\<close> component of \<open>HowItWorks.tsx\<close> (lines 5--16): an icon, a title and a
  description.\<close>

definition step :: "step_icon \<Rightarrow> string \<Rightarrow> string \<Rightarrow> step_block" where
  "step icon title description = \<lparr>step_icon = icon, step_title = title, step_description = description\<rparr>"

definition how_it_works_heading :: string where
  "how_it_works_heading = ''Get Your Analysis in 3 Simple Steps''"

text \<open>\<open>HowItWorks\<close> (lines 18--46): the heading and three steps; the dashed connector line
  is decoration.\<close>

definition how_it_works_steps :: "step_block list" where
  "how_it_works_steps =
     [step UploadCloudIcon ''1. Upload Your CV'' ''Securely upload your CV in PDF or TXT format.'',
      step BriefcaseIcon ''2. Add Your Industry'' ''Tell us your field so we can tailor the analysis.'',
      step ChartBarIcon ''3. Get Your Analysis'' ''Receive instant, AI-powered feedback and trends.'']"

text \<open>The hero text of App (lines 62--69).\<close>

definition hero_title :: string where
  "hero_title = ''Make Your CV Stand Out, Oga!''"

definition hero_text :: string where
  "hero_text = ''Let our AI give your CV a proper analysis to help you land your dream job.''"

text \<open>The label and placeholder of the industry input (lines 76--84); the label quotes two
  examples, written here with the double-quote character \<open>CHR 0x22\<close>.\<close>

definition industry_label :: string where
  "industry_label =
     ''What is your Field/Industry? (e.g., '' @ [CHR 0x22] @ ''Software Engineering'' @ [CHR 0x22]
     @ '', '' @ [CHR 0x22] @ ''Digital Marketing'' @ [CHR 0x22] @ '')''"

definition industry_placeholder :: string where
  "industry_placeholder = ''Enter your industry here...''"

text \<open>The footer (lines 136--138): \<open>&copy;\<close>, the current year as a number child, and
  the slogan.\<close>

definition footer_view :: "nat \<Rightarrow> rchild list" where
  "footer_view year =
     [RText [CHR 0xA9, CHR '' ''], RNum (int year) 0, RText '' MyCv.ng - Your Personal Career Coach.'']"

subsection \<open>The page\<close>

datatype page_section =
    HeaderSection header_block
  | HeroSection string string
  | HowItWorksSection string "step_block list"
  | IndustryField string string string
  | UploadSection upload_view
  | ButtonSection analyze_button
  | PanelSection panel
  | FooterSection "rchild list"

text \<open>The sections above the form, which do not depend on the state.\<close>

definition page_top :: "page_section list" where
  "page_top =
     [HeaderSection header_view, HeroSection hero_title hero_text,
      HowItWorksSection how_it_works_heading how_it_works_steps]"

text \<open>The form (lines 73--115): the controlled industry input showing \<open>industry\<close>, the
  upload control given \<open>fileName\<close>, and the analyze button.\<close>

definition form_sections :: "upload_state \<Rightarrow> app_state \<Rightarrow> page_section list" where
  "form_sections u s =
     [IndustryField industry_label industry_placeholder (industry s),
      UploadSection (upload_view u (cv_file_name s)), ButtonSection (analyze_button_view s)]"

text \<open>App's render (lines 58--140). Only the panels can throw.\<close>

definition app_view :: "nat \<Rightarrow> page \<Rightarrow> js_error + page_section list" where
  "app_view year p =
     (case p of (u, s) \<Rightarrow>
        sbind (app_panels s) (\<lambda>ps.
          Inr (page_top @ form_sections u s @ map PanelSection ps @ [FooterSection (footer_view year)])))"

text \<open>What the upload control and App agree on: an extraction is only started from the drop
  zone, i.e. while App holds no truthy file name, and App's file name changes only when the
  extraction ends or on removal. So while an extraction is pending, App's \<open>fileName\<close>
  is falsy.\<close>

definition view_inv :: "page \<Rightarrow> bool" where
  "view_inv = (\<lambda>(u, s). is_parsing u \<longrightarrow> (case cv_file_name s of None \<Rightarrow> True | Some n \<Rightarrow> n = []))"

subsection \<open>Lemmas\<close>

lemma app_view_Inr_iff:
  "app_view year (u, s) = Inr secs \<longleftrightarrow>
   (\<exists>ps. app_panels s = Inr ps
         \<and> secs = page_top @ form_sections u s @ map PanelSection ps @ [FooterSection (footer_view year)])"
  by (auto simp: app_view_def sbind_eq_Inr)

lemma app_view_Inl_iff: "app_view year (u, s) = Inl e \<longleftrightarrow> app_panels s = Inl e"
  by (cases "app_panels s") (simp_all add: app_view_def)

lemma decode_analysis_truthy: "decode_analysis a = Some r \<Longrightarrow> js_truthy a"
  by (auto simp: decode_analysis_def split: json.splits)

lemma how_it_works_numbered:
  "length how_it_works_steps = 3
   \<and> map (take 3 \<circ> step_title) how_it_works_steps = [''1. '', ''2. '', ''3. '']
   \<and> sublist ''3 Simple Steps'' how_it_works_heading"
  by (simp add: how_it_works_steps_def step_def how_it_works_heading_def sublist_def)
    (metis append_Cons append_Nil)

lemma process_first_file_name:
  "cv_file_name (snd (process_first app_upload_props fs p)) = cv_file_name (snd p)"
  by (cases p; cases fs) (simp_all add: upload_defs handler_defs)

lemma in_drop_zone_file_name:
  "in_drop_zone (u, s) \<Longrightarrow> (case cv_file_name s of None \<Rightarrow> True | Some n \<Rightarrow> n = [])"
  by (auto simp: in_drop_zone_def upload_view_def split: option.splits if_splits)

lemma drop_zone_view_inv:
  assumes "in_drop_zone p" and "cv_file_name (snd p') = cv_file_name (snd p)"
  shows "view_inv p'"
  using assms in_drop_zone_file_name [of "fst p" "snd p"] by (simp add: view_inv_def case_prod_beta)

lemma ui_step_view_inv:
  assumes inv: "view_inv p" and st: "ui_step ev p = Some p'"
  shows "view_inv p'"
proof -
  obtain u s where p: "p = (u, s)" by (cases p)
  show ?thesis
  proof (cases ev)
    case (DropFiles fs)
    with st p show ?thesis
      by (auto simp: handle_drop_def process_first_file_name split: if_splits
          intro!: drop_zone_view_inv)
  next
    case (SelectFiles fs)
    with st p show ?thesis
      by (auto simp: handle_file_select_def process_first_file_name split: if_splits
          intro!: drop_zone_view_inv)
  qed (use st p inv in \<open>auto simp: view_inv_def handler_defs handle_drag_enter_def
         handle_drag_leave_def handle_remove_click_def split: if_splits\<close>)
qed

lemma app_step_view_inv: "app_step p p' \<Longrightarrow> view_inv p \<Longrightarrow> view_inv p'"
proof (induction rule: app_step.induct)
  case (ui ev p p')
  then show ?case by (rule ui_step_view_inv [rotated])
next
  case (extraction_done p f br)
  then show ?case
    by (cases p) (simp add: view_inv_def finish_extraction_def process_file_finish_def)
next
  case (analysis_done p cv ind g)
  then show ?case
    by (cases p) (simp add: view_inv_def finish_analysis_def handle_analyze_finish_def
        split: sum.splits option.splits)
qed

lemma reachable_view_inv: "reachable p \<Longrightarrow> view_inv p"
  by (induction rule: reachable.induct)
    (simp add: view_inv_def page_init_def upload_init_def, metis app_step_view_inv)

lemma source_links_fail:
  "g \<in> set srcs \<Longrightarrow> chunk_web g = None \<Longrightarrow> smap source_link srcs = Inl type_error"
  by (induction srcs) (auto simp: source_link_def split: option.splits)

lemma source_links_fail_web:
  "smap source_link srcs = Inl e \<Longrightarrow> \<exists>g \<in> set srcs. chunk_web g = None"
proof (induction srcs)
  case Nil
  then show ?case by simp
next
  case (Cons x xs)
  show ?case
  proof (cases "chunk_web x")
    case None
    then show ?thesis by simp
  next
    case (Some w)
    then obtain y where y: "source_link x = Inr y" by (simp add: source_link_def)
    with Cons.prems have "smap source_link xs = Inl e"
      by (cases "smap source_link xs") simp_all
    then show ?thesis using Cons.IH by auto
  qed
qed

subsection \<open>Properties of the page\<close>

text \<open>C14: the grounding sources are cast unchecked (\<open>geminiService.ts\<close> line 73) and read
  as \<open>source.web.uri\<close> (\<open>AnalysisDisplay.tsx\<close> line 87). When the result view shows an
  analysis of the documented shape, App's whole render throws, and React blanks the page,
  exactly when some grounding chunk has no \<open>web\<close> object. The error is the
  \<open>TypeError\<close> of that property access.\<close>

theorem sources_without_web_crash:
  assumes "\<not> is_loading s" and "analysis s = Some a" and "decode_analysis a = Some r"
  shows "app_view year (u, s) = Inl type_error \<longleftrightarrow> (\<exists>g \<in> set (sources s). chunk_web g = None)"
proof -
  have "app_view year (u, s) = Inl type_error
        \<longleftrightarrow> (if sources s = [] then Inr [] else smap source_link (sources s)) = Inl type_error"
    using assms decode_analysis_truthy [OF assms(3)] analysis_display_decoded_links [OF assms(3)]
    by (cases "if sources s = [] then Inr [] else smap source_link (sources s)")
      (simp_all add: app_view_Inl_iff app_panels_def)
  also have "\<dots> \<longleftrightarrow> (\<exists>g \<in> set (sources s). chunk_web g = None)"
  proof
    assume "(if sources s = [] then Inr [] else smap source_link (sources s)) = Inl type_error"
    then have f: "smap source_link (sources s) = Inl type_error" by (simp split: if_splits)
    then show "\<exists>g \<in> set (sources s). chunk_web g = None" by (rule source_links_fail_web)
  next
    assume "\<exists>g \<in> set (sources s). chunk_web g = None"
    then obtain g where "g \<in> set (sources s)" and "chunk_web g = None" by blast
    then show "(if sources s = [] then Inr [] else smap source_link (sources s)) = Inl type_error"
      using source_links_fail by auto
  qed
  finally show ?thesis .
qed

theorem sources_without_web_crash_witness:
  "\<not> is_loading (snd page_result\<lparr>sources := [\<lparr>chunk_web = None\<rparr>]\<rparr>)
   \<and> analysis (snd page_result\<lparr>sources := [\<lparr>chunk_web = None\<rparr>]\<rparr>) = Some example_analysis
   \<and> decode_analysis example_analysis = Some example_result
   \<and> app_view 2025 (upload_init, snd page_result\<lparr>sources := [\<lparr>chunk_web = None\<rparr>]\<rparr>) = Inl type_error"
proof -
  have l: "\<not> is_loading (snd page_result\<lparr>sources := [\<lparr>chunk_web = None\<rparr>]\<rparr>)"
    and a: "analysis (snd page_result\<lparr>sources := [\<lparr>chunk_web = None\<rparr>]\<rparr>) = Some example_analysis"
    by (simp_all add: page_result_def page_ready_def app_init_def)
  have d: "decode_analysis example_analysis = Some example_result" by (rule example_analysis_decodes)
  show ?thesis
    using sources_without_web_crash [OF l a d, of 2025 upload_init] l a d by simp
qed


text \<open>C33: what the user sees when the analysis can start: on every reachable page where the
  analyze button is enabled and the stored file name is not the empty string, the form shows
  the upload control's file view of that very file (not the drop zone or the parsing view),
  the button is enabled, and the CV text that a click would send is not blank.\<close>

theorem analyze_enabled_shows_file:
  assumes "reachable (u, s)" and "\<not> analyze_disabled s" and "cv_file_name s \<noteq> Some []"
  shows "\<exists>n. cv_file_name s = Some n \<and> \<not> all_space (cv_text s)
           \<and> \<not> btn_disabled (analyze_button_view s)
           \<and> form_sections u s = [IndustryField industry_label industry_placeholder (industry s),
                                  UploadSection (FileView n), ButtonSection (analyze_button_view s)]"
proof -
  have pi: "page_inv (u, s)" and vi: "view_inv (u, s)"
    using assms(1) by (rule reachable_page_inv, rule reachable_view_inv)
  from assms(2) have t: "cv_text s \<noteq> []" by (simp add: analyze_disabled_def)
  with pi obtain n where n: "cv_file_name s = Some n" and b: "\<not> all_space (cv_text s)"
    by (auto simp: page_inv_def)
  with assms(3) have "n \<noteq> []" by simp
  with vi n have "\<not> is_parsing u" by (simp add: view_inv_def)
  with n b \<open>n \<noteq> []\<close> assms(2) show ?thesis
    by (simp add: form_sections_def upload_view_def analyze_button_view_def)
qed

theorem analyze_enabled_shows_file_witness:
  "reachable (fst page_ready, snd page_ready) \<and> \<not> analyze_disabled (snd page_ready)
   \<and> form_sections (fst page_ready) (snd page_ready)
     = [IndustryField industry_label industry_placeholder example_industry,
        UploadSection (FileView ''cv.txt''), ButtonSection (analyze_button_view (snd page_ready))]"
proof -
  have r: "reachable (fst page_ready, snd page_ready)" using example_reachable(2) by simp
  have d: "\<not> analyze_disabled (snd page_ready)" and f: "cv_file_name (snd page_ready) = Some ''cv.txt''"
    and i: "industry (snd page_ready) = example_industry"
    by (simp_all add: page_ready_def app_init_def analyze_disabled_def example_cv_text_def
        example_industry_def)
  from analyze_enabled_shows_file [OF r d] f i r d show ?thesis by simp
qed

end
