(* ===== verification/SessionSpec.thy ===== *)
theory SessionSpec
  imports Controller
begin

text \<open>
  The session state machine of the specification (section 4.3) and the refinement of it by
  the page of \<open>Controller\<close>. The abstract session records whether a file's text is
  present, whether the industry is usable (non-empty after trimming), and the phase of the
  analysis: no result, loading, or a stored result. Its events are:
  \<^item> loading a file;
  \<^item> dropping the file, by removal or a failed extraction, which keeps a computed result;
  \<^item> editing the industry;
  \<^item> triggering the analysis, guarded by a file, a usable industry and no call in flight,
    which clears the previous result;
  \<^item> the call's success, which stores a result;
  \<^item> the call's failure, which leaves none.
  Error messages are not part of the abstract state. The abstraction \<open>abs_session\<close> reads
  the session off a page. The refinement theorem is a simulation: every step of a reachable
  page is a step of the specification or leaves the abstract session unchanged. The last
  section shows that the page has no dead end: from every reachable page a stored result can
  still be reached.
\<close>

datatype phase = NoResult | Loading | HasResult

record session =
  has_file :: bool
  industry_ready :: bool
  phase :: phase

definition session_init :: session where
  "session_init = \<lparr>has_file = False, industry_ready = False, phase = NoResult\<rparr>"

inductive spec_step :: "session \<Rightarrow> session \<Rightarrow> bool" where
  load_file: "spec_step \<sigma> (\<sigma>\<lparr>has_file := True\<rparr>)"
| drop_file: "spec_step \<sigma> (\<sigma>\<lparr>has_file := False\<rparr>)"
| edit_industry: "spec_step \<sigma> (\<sigma>\<lparr>industry_ready := b\<rparr>)"
| analyze: "has_file \<sigma> \<Longrightarrow> industry_ready \<sigma> \<Longrightarrow> phase \<sigma> \<noteq> Loading \<Longrightarrow>
    spec_step \<sigma> (\<sigma>\<lparr>phase := Loading\<rparr>)"
| succeed: "phase \<sigma> = Loading \<Longrightarrow> spec_step \<sigma> (\<sigma>\<lparr>phase := HasResult\<rparr>)"
| fail: "phase \<sigma> = Loading \<Longrightarrow> spec_step \<sigma> (\<sigma>\<lparr>phase := NoResult\<rparr>)"

text \<open>The abstraction: a file is present when App stores a file name, the industry is
  usable when it is not blank, and the phase is read from \<open>isLoading\<close> and
  \<open>analysis\<close>.\<close>

definition abs_session :: "page \<Rightarrow> session" where
  "abs_session = (\<lambda>(u, s).
     \<lparr>has_file = (cv_file_name s \<noteq> None), industry_ready = (\<not> all_space (industry s)),
      phase = (if is_loading s then Loading else if analysis s = None then NoResult else HasResult)\<rparr>)"

text \<open>The session of scenario A, from the drop zone: upload the text CV, the extraction
  completes, type the industry, click analyze, the model answers.\<close>

definition happy_path :: "page_event list" where
  "happy_path =
     [UI (SelectFiles [txt_file [65]]), ExtractionDone example_browser,
      UI (TypeIndustry example_industry), UI ClickAnalyze, AnalysisDone example_model]"

subsection \<open>Each event refines a specification step or skip\<close>

lemma abs_session_init: "abs_session page_init = session_init"
  by (simp add: abs_session_def page_init_def app_init_def session_init_def)

lemma abs_session_skip:
  "cv_file_name s' = cv_file_name s \<Longrightarrow> industry s' = industry s \<Longrightarrow> is_loading s' = is_loading s \<Longrightarrow>
   analysis s' = analysis s \<Longrightarrow> abs_session (u', s') = abs_session (u, s)"
  by (simp add: abs_session_def)

lemma process_file_start_skip:
  "abs_session (process_file_start app_upload_props f p) = abs_session p"
  by (cases p) (simp add: abs_session_def process_file_start_def app_upload_props_def set_error_def)

lemma process_first_skip: "abs_session (process_first app_upload_props fs p) = abs_session p"
  by (cases fs) (simp_all add: process_first_def process_file_start_skip)

lemma remove_file_refines:
  "spec_step (abs_session (u, s)) (abs_session (u', handle_remove_file s))"
proof -
  have "abs_session (u', handle_remove_file s) = (abs_session (u, s))\<lparr>has_file := False\<rparr>"
    by (simp add: abs_session_def handle_remove_file_def)
  then show ?thesis by (simp add: spec_step.drop_file)
qed

lemma set_industry_refines:
  "spec_step (abs_session (u, s)) (abs_session (u, set_industry v s))"
proof -
  have "abs_session (u, set_industry v s) = (abs_session (u, s))\<lparr>industry_ready := \<not> all_space v\<rparr>"
    by (simp add: abs_session_def set_industry_def)
  then show ?thesis by (simp add: spec_step.edit_industry)
qed

lemma analyze_start_refines:
  assumes inv: "page_inv (u, s)" and idle: "\<not> is_loading s"
  shows "abs_session (u, handle_analyze_start s) = abs_session (u, s)
         \<or> spec_step (abs_session (u, s)) (abs_session (u, handle_analyze_start s))"
proof (cases "cv_text s = [] \<or> js_trim (industry s) = []")
  case True
  then show ?thesis by (simp add: handle_analyze_start_def abs_session_def)
next
  case False
  with inv have f: "cv_file_name s \<noteq> None" and i: "\<not> all_space (industry s)"
    by (auto simp: page_inv_def js_trim_Nil_iff)
  have "abs_session (u, handle_analyze_start s) = (abs_session (u, s))\<lparr>phase := Loading\<rparr>"
    using False by (simp add: handle_analyze_start_def abs_session_def)
  moreover have "spec_step (abs_session (u, s)) ((abs_session (u, s))\<lparr>phase := Loading\<rparr>)"
    using f i idle by (intro spec_step.analyze) (simp_all add: abs_session_def)
  ultimately show ?thesis by simp
qed

lemma ui_step_refines:
  assumes inv: "page_inv p" and st: "ui_step ev p = Some p'"
  shows "abs_session p' = abs_session p \<or> spec_step (abs_session p) (abs_session p')"
proof -
  obtain u s where p: "p = (u, s)" by (cases p)
  show ?thesis
  proof (cases ev)
    case (TypeIndustry v)
    with st p show ?thesis using set_industry_refines by auto
  next
    case ClickAnalyze
    with st p have "\<not> is_loading s" and "p' = (u, handle_analyze_start s)"
      by (auto simp: analyze_disabled_def split: if_splits)
    with inv p show ?thesis using analyze_start_refines by simp
  next
    case ClickRemove
    with st p show ?thesis using remove_file_refines by (auto split: if_splits)
  next
    case (DropFiles fs)
    with st p show ?thesis
      by (auto simp: handle_drop_def split: if_splits intro: process_first_skip [THEN trans]
          abs_session_skip)
  next
    case (SelectFiles fs)
    with st p show ?thesis by (auto simp: handle_file_select_def process_first_skip split: if_splits)
  qed (use st p in \<open>auto simp: abs_session_def handle_drag_enter_def handle_drag_leave_def
         split: if_splits\<close>)
qed

lemma extraction_refines:
  "abs_session (finish_extraction f r p) = abs_session p
   \<or> spec_step (abs_session p) (abs_session (finish_extraction f r p))"
proof -
  obtain u s where p: "p = (u, s)" by (cases p)
  show ?thesis
  proof (cases r)
    case (Inl e)
    have "abs_session (finish_extraction f r p) = (abs_session p)\<lparr>has_file := False\<rparr>"
      using Inl p by (simp add: finish_extraction_def process_file_finish_def app_upload_props_def
          abs_session_def set_error_def handle_remove_file_def)
    then show ?thesis by (simp add: spec_step.drop_file)
  next
    case (Inr t)
    have "abs_session (finish_extraction f r p) = (abs_session p)\<lparr>has_file := True\<rparr>"
      using Inr p by (simp add: finish_extraction_def process_file_finish_def app_upload_props_def
          abs_session_def handle_file_processed_def)
    then show ?thesis by (simp add: spec_step.load_file)
  qed
qed

lemma analysis_refines:
  assumes inv: "page_inv p" and pend: "pending_analysis (snd p) \<noteq> None"
  shows "spec_step (abs_session p) (abs_session (finish_analysis r p))"
proof -
  obtain u s where p: "p = (u, s)" by (cases p)
  with inv pend have l: "is_loading s" by (auto simp: page_inv_def)
  then have ph: "phase (abs_session p) = Loading" using p by (simp add: abs_session_def)
  show ?thesis
  proof (cases "\<exists>a src. r = Inr (Some (a, src))")
    case True
    then obtain a src where r: "r = Inr (Some (a, src))" by blast
    have "abs_session (finish_analysis r p) = (abs_session p)\<lparr>phase := HasResult\<rparr>"
      using r p l by (simp add: finish_analysis_def handle_analyze_finish_def abs_session_def)
    then show ?thesis using ph by (simp add: spec_step.succeed)
  next
    case False
    with inv p l have "analysis s = None" by (auto simp: page_inv_def)
    with False p have "abs_session (finish_analysis r p) = (abs_session p)\<lparr>phase := NoResult\<rparr>"
      by (auto simp: finish_analysis_def handle_analyze_finish_def abs_session_def
          split: sum.splits option.splits)
    then show ?thesis using ph by (simp add: spec_step.fail)
  qed
qed

subsection \<open>The refinement theorem\<close>

text \<open>C9: refinement of the session state machine of the specification (4.3): every step
  of a reachable page, whether a UI event, a completed extraction or a completed analysis
  call, is a step of the specification's session machine under \<open>abs_session\<close>, or leaves
  the abstract session unchanged. In particular an analysis starts only with a file, a
  non-blank industry and no call in flight, and file removal keeps a computed result.\<close>

theorem page_refines_session:
  assumes "reachable p" and "app_step p p'"
  shows "abs_session p' = abs_session p \<or> spec_step (abs_session p) (abs_session p')"
  using assms(2) reachable_page_inv [OF assms(1)]
proof (induction rule: app_step.induct)
  case (ui ev p p')
  then show ?case using ui_step_refines by blast
next
  case (extraction_done p f br)
  show ?case by (rule extraction_refines)
next
  case (analysis_done p cv ind g)
  then show ?case using analysis_refines by simp
qed

theorem page_refines_session_witness:
  "reachable page_loading \<and> app_step page_loading page_result
   \<and> abs_session page_loading = \<lparr>has_file = True, industry_ready = True, phase = Loading\<rparr>
   \<and> spec_step (abs_session page_loading) (abs_session page_result)"
proof -
  have st: "app_step page_loading page_result" by (rule page_step_app_step [OF example_steps(4)])
  have a: "abs_session page_loading = \<lparr>has_file = True, industry_ready = True, phase = Loading\<rparr>"
    by (simp add: abs_session_def page_loading_def page_ready_def app_init_def example_industry_def
        is_js_space_code)
  have b: "abs_session page_result \<noteq> abs_session page_loading"
    by (simp add: abs_session_def page_loading_def page_result_def page_ready_def app_init_def)
  show ?thesis
    using page_refines_session [OF example_reachable(3) st] b a st example_reachable(3) by simp
qed


subsection \<open>No dead ends\<close>

lemma run_rtranclp: "run es p = Some p' \<Longrightarrow> app_step\<^sup>*\<^sup>* p p'"
proof (induction es arbitrary: p)
  case Nil
  then show ?case by simp
next
  case (Cons e es)
  then obtain p1 where s1: "page_step e p = Some p1" and r: "run es p1 = Some p'"
    by (auto split: option.splits)
  from s1 have "app_step p p1" by (rule page_step_app_step)
  then show ?case using Cons.IH [OF r] by (rule converse_rtranclp_into_rtranclp)
qed

lemma drop_zone_to_result:
  assumes "in_drop_zone (u, s)" and "\<not> is_loading s"
  shows "\<exists>p'. run happy_path (u, s) = Some p' \<and> analysis (snd p') = Some example_analysis
              \<and> \<not> is_loading (snd p') \<and> cv_file_name (snd p') = Some ''cv.txt''"
  using assms
  by (auto simp: happy_path_def page_step_simps txt_file_def example_cv_read [unfolded txt_file_def]
      example_model_result example_industry_def example_cv_text_def js_trim_Nil_iff is_js_space_code
      split: option.splits if_splits upload_view.splits)


lemma idle_to_drop_zone:
  assumes "\<not> is_parsing u"
  shows "\<exists>p2. app_step\<^sup>*\<^sup>* (u, s) p2 \<and> in_drop_zone p2 \<and> is_loading (snd p2) = is_loading s"
proof (cases "in_file_view (u, s)")
  case True
  then have "ui_step ClickRemove (u, s) = Some (u, handle_remove_file s)" by simp
  then have st: "app_step (u, s) (u, handle_remove_file s)" by (rule app_step.ui)
  have dz: "in_drop_zone (u, handle_remove_file s)"
    using assms by (simp add: in_drop_zone_def upload_view_def handle_remove_file_def)
  have l: "is_loading (handle_remove_file s) = is_loading s" by (simp add: handle_remove_file_def)
  show ?thesis
  proof (rule exI [of _ "(u, handle_remove_file s)"], intro conjI)
    show "app_step\<^sup>*\<^sup>* (u, s) (u, handle_remove_file s)" using st by (rule r_into_rtranclp)
    show "in_drop_zone (u, handle_remove_file s)" by (rule dz)
    show "is_loading (snd (u, handle_remove_file s)) = is_loading s" using l by simp
  qed
next
  case False
  with assms have "in_drop_zone (u, s)"
    by (auto simp: in_drop_zone_def in_file_view_def upload_view_def split: option.splits if_splits)
  then show ?thesis by (intro exI [of _ "(u, s)"]) simp
qed

text \<open>C36: liveness of the user's goal: from every reachable page, whatever is pending or
  shown, the user can still obtain a result. The environment completes what is pending. The
  user removes the shown file if there is one, uploads the CV, types the industry and clicks
  analyze; the model answers. No state of the page blocks the way to a stored analysis.\<close>

theorem result_always_reachable:
  assumes "reachable p"
  shows "\<exists>p'. app_step\<^sup>*\<^sup>* p p' \<and> analysis (snd p') = Some example_analysis
              \<and> \<not> is_loading (snd p') \<and> cv_file_name (snd p') = Some ''cv.txt''"
proof -
  define p1 where "p1 = settle example_browser example_model p"
  have s1: "app_step\<^sup>*\<^sup>* p p1" and np: "\<not> is_parsing (fst p1)" and nl: "\<not> is_loading (snd p1)"
    using settle_reachable_idle [OF assms, of example_browser example_model]
      settle_steps [of p example_browser example_model] unfolding p1_def by simp_all
  obtain p2 where s2: "app_step\<^sup>*\<^sup>* p1 p2" and dz: "in_drop_zone p2"
    and l2: "is_loading (snd p2) = is_loading (snd p1)"
    using idle_to_drop_zone [OF np, of "snd p1"] by auto
  obtain p3 where r: "run happy_path p2 = Some p3" and a: "analysis (snd p3) = Some example_analysis"
    and l3: "\<not> is_loading (snd p3)" and f: "cv_file_name (snd p3) = Some ''cv.txt''"
    using drop_zone_to_result [of "fst p2" "snd p2"] dz l2 nl by auto
  have "app_step\<^sup>*\<^sup>* p p3"
    using rtranclp_trans [OF rtranclp_trans [OF s1 s2] run_rtranclp [OF r]] .
  with a l3 f show ?thesis by blast
qed

theorem result_always_reachable_witness:
  "reachable page_loading
   \<and> (\<exists>p'. app_step\<^sup>*\<^sup>* page_loading p' \<and> analysis (snd p') = Some example_analysis
         \<and> \<not> is_loading (snd p') \<and> cv_file_name (snd p') = Some ''cv.txt'')"
  using result_always_reachable [OF example_reachable(3)] example_reachable(3) by simp

end
