(* ===== verification/Spec2Isabelle.thy ===== *)
theory Spec2Isabelle
  imports PageView SessionSpec
begin

text \<open>
  \<^bold>\<open>A verification development of the ATS CV analyser.\<close>

  The program is a single-page browser application. The user uploads a CV (plain text
  or PDF) and types an industry. The application extracts the CV's text, sends it to a
  generative-AI service with a prompt, and shows the critique the service returns. Its
  parts, leaves first:
  \<^item> the document text extractor, \<open>src/services/fileParser.ts\<close>;
  \<^item> the analysis client, \<open>src/services/geminiService.ts\<close>: it builds the prompt,
    calls the service, strips the code fence from the reply, and parses the JSON;
  \<^item> the upload control, \<open>src/components/FileUpload.tsx\<close>, which owns the parsing state,
    calls the extractor and reports to its parent through three callbacks;
  \<^item> the controller, \<open>src/App.tsx\<close>, which owns the session state, passes its setters
    to the upload control and calls the client;
  \<^item> the presentation components under \<open>src/components\<close>, which read the state and change
    nothing.

  \<^bold>\<open>Library layout.\<close>
  \<^item> \<open>Prelude\<close>: the JavaScript values the modules exchange (\<open>js_error\<close>, byte buffers)
    and the built-in string operations they call (\<open>js_trim\<close>, \<open>js_starts_with\<close>,
    \<open>js_includes\<close>, \<open>js_join\<close>), with their lemmas; for example \<open>js_includes\<close>
    is the library relation \<open>sublist\<close>.
  \<^item> \<open>FileParser\<close>: \<open>read_text_file\<close>, \<open>pdf_text_loop\<close> and \<open>read_pdf_body\<close>
    with the catch block \<open>read_pdf_file\<close>, and \<open>extract_text_from_file\<close>, i.e.
    \<open>readTextFile\<close>, \<open>readPdfFile\<close> and \<open>extractTextFromFile\<close>. The text decoder
    and the pdf.js loader are the fields of a record \<open>browser\<close>, so every theorem holds
    for every decoder and PDF library. Lemmas: the result of every branch, the loop against
    a reference (\<open>pdf_text_spec\<close>), and that a successful extraction is never blank.
  \<^item> \<open>Fence\<close>: the \<open>.replace(/^```json\s*|```\s*$/g, '')\<close> of
    \<open>parseAnalysisResponse\<close> as an ECMAScript global replace (\<open>regex_replace_all\<close>, a
    scan over match positions) with the regex's matcher \<open>fence_match\<close>. Lemmas: it
    equals a reference (\<open>strip_fence_spec\<close>), it inverts the fencing the prompt asks
    for, it leaves unfenced replies alone, and it is not idempotent.
  \<^item> \<open>Json\<close>: JSON values, \<open>JSON.parse\<close> as recursive descent with fuel, truthiness,
    and a printer. An escape \<open>\uXXXX\<close> above \<open>00FF\<close>, which the 8-bit strings
    cannot hold, fails with its own error \<open>json_outside_model\<close>, so that the theorems
    about syntax errors do not cover it. Lemmas: the fuel \<open>2 n + 1\<close> for an input of length \<open>n\<close> is
    enough (every call consumes input, so the recursion depth is bounded by the length),
    and the parser inverts the printer (\<open>json_print_parse\<close>).
  \<^item> \<open>GeminiClient\<close>: the module's API-key check \<open>gemini_module_init\<close>,
    \<open>build_prompt\<close>, the request record \<open>analysis_request\<close> (model name, contents and
    the search tool), \<open>parse_analysis_response\<close>, \<open>response_sources\<close> and
    \<open>analyze_cv_with_trends\<close>, over any remote model \<open>generate_content\<close>, a function
    from requests to replies. Grounding chunks have the SDK's shape (\<open>web\<close>, \<open>uri\<close> and
    \<open>title\<close> optional), since line 73 casts them without a check. Lemmas: the request names the model and the search tool and
    contains the CV and the industry; the result for a failed call, a reply without text,
    a reply that is not JSON, any parsed value (no schema check), a fenced printed value (the
    round trip), and that the function never resolves to \<open>null\<close>.
  \<^item> \<open>Upload\<close>: the state of \<open>FileUpload\<close>, \<open>processFile\<close> split at its
    \<open>await\<close> into \<open>process_file_start\<close> and \<open>process_file_finish\<close>, the drag, drop
    and select handlers, the handler of the remove button, and the three render states \<open>upload_view\<close>. The props are a
    record of functions over the parent's state type.
  \<^item> \<open>Controller\<close>: App's state, its handlers, \<open>handleAnalyze\<close> split at its
    \<open>await\<close>, the button guard, and the page (upload state and App state). The inductive
    relation \<open>app_step\<close> interleaves UI events (each only when its control is rendered
    and enabled) with the completion of a pending extraction (for any browser) or a pending
    call (for any model); \<open>reachable\<close> closes it from the first render. The invariant
    \<open>page_inv\<close> holds on every reachable page, by rule induction. From it: no analysis
    while loading, loading exactly while a call is pending, at most one extraction and one
    call in flight, the CV text present exactly with the file name and never blank. The
    executable \<open>run\<close> replays a list of events; \<open>run_reachable\<close> shows its pages are
    reachable. A stored analysis is always truthy JSON. Liveness: \<open>settle\<close> completes
    what is pending with a given browser and model, and from every reachable page it
    reaches, by \<open>app_step\<close> steps, a page that is neither parsing nor loading.
  \<^item> \<open>JsNumber\<close>: \<open>ToNumber\<close> (with \<open>StringToNumber\<close> and the conversion of
    arrays through \<open>join\<close>), the comparisons \<open>x >= k\<close> and \<open>x > k\<close>, and the
    arithmetic of numbers with \<open>NaN\<close> and infinities.
  \<^item> \<open>Presentation\<close>: \<open>getScoreColor\<close>, \<open>RadialProgress\<close> (circumference from
    \<open>Math.PI\<close>, dash offset), \<open>ScoreBar\<close>, \<open>AnalysisDisplay\<close> and App's error,
    cooking and result panels (\<open>app_panels\<close>), and the analyze button
    (\<open>analyze_button_view\<close>: disabled flag, spinner, label and colour). A render maps the state to the blocks shown,
    in document order, or to the exception thrown. JavaScript's property access, \<open>.map\<close>
    and React's rendering of child values are applied to the untyped JSON value that the
    client stored. The records of \<open>src/types.ts\<close> and \<open>decode_analysis\<close> (the JSON
    values of that shape; \<open>decode_source\<close> for the grounding chunks) give a typed
    specification \<open>spec_display\<close>. The refinement theorem shows that the view of every
    well-shaped reply with well-shaped sources is the specified view.
  \<^item> \<open>PageView\<close>: App's whole render \<open>app_view\<close>, composed in document order from
    \<open>Header\<close>, the hero text, \<open>HowItWorks\<close> and its \<open>Step\<close>s, the form (the
    controlled industry input, \<open>upload_view\<close>, \<open>analyze_button_view\<close>), the panels
    of \<open>app_panels\<close> and the footer, whose year is a parameter. The static sections keep
    the text, image and icon they show. An exception of a panel propagates to the page.
    \<open>sources_without_web_crash\<close> shows that, for a shown analysis of the documented
    shape, the page render throws exactly when a grounding chunk has no \<open>web\<close>. The invariant
    \<open>view_inv\<close> (no truthy file name in App while an extraction runs) gives the
    theorem that an enabled analyze button is always shown next to the file view of the CV
    it would send.
  \<^item> \<open>SessionSpec\<close>: the session state machine of the specification (its section 4.3)
    as an inductive relation \<open>spec_step\<close> on an abstract session (file present, industry
    usable, phase of the analysis), the abstraction \<open>abs_session\<close> of a page, and the
    simulation theorem \<open>page_refines_session\<close>: every step of a reachable page is a
    specification step or leaves the abstract session unchanged. It is proved one event at
    a time, each event's lemma refining one rule of \<open>spec_step\<close> or skip. The same
    theory shows that the page has no dead end (\<open>result_always_reachable\<close>): from every
    reachable page, completing what is pending, removing the shown file, uploading, typing
    the industry and clicking analyze reaches a stored result.
  \<^item> This theory: the scenarios of the specification and the behaviours that separate the
    code from it, each stated for every page, file, browser and model that fits, with the
    scenario's own input as the witness: scenario A end to end (\<open>session_success\<close>), a
    failed extraction (B), a rejected call with the generic banner (D and E), an unchecked
    reply that blanks the page, an error shown with a result, an upload during a pending
    call, and a result stored for a removed CV.

  \<^bold>\<open>Modelling conventions.\<close> Strings are HOL strings of code units 0--255.
  A promise that rejects is \<open>Inl\<close> of the \<open>Error\<close> it rejects with. An
  \<open>async\<close> function whose awaits touch no shared state is one function. The
  awaits of \<open>processFile\<close> and \<open>handleAnalyze\<close> are suspension points where other
  events can run; they are modelled as separate steps, with the suspended call recorded in
  the state (\<open>pending_parse\<close>, \<open>pending_analysis\<close>). A React setter is a record
  update of the latest state. JavaScript numbers are exact rationals with \<open>NaN\<close> and
  infinities; IEEE rounding and \<open>-0\<close> are not modelled. The comparisons the code makes
  are against small integers, where rounding does not decide them for the scores the
  prompt asks for. The gauge's dash offset is the exact value, not the double that
  JavaScript computes, so no theorem is stated about its bounds.

  \<^bold>\<open>Termination.\<close> The PDF page loop and the regex scan recurse on an increasing
  index bounded by a length and are \<open>function\<close>s with a measure. \<open>JSON.parse\<close> is the
  only model with fuel. The fuel \<open>2 n + 1\<close> for an input of length \<open>n\<close> is enough
  because every nested call consumes input. \<open>json_parse_fuel_enough\<close> shows that it never
  runs out, so the model's \<open>parseAnalysisResponse\<close> is total.

  \<^bold>\<open>What the development shows about the code.\<close> Besides the guarantees above, it
  shows the places where the code and the specification part: the button is enabled for
  a whitespace-only industry; a parse failure reaches the banner as the generic message;
  the cleaning is not idempotent and needs the \<open>json\<close> tag; any truthy JSON is
  accepted as an analysis; a stored analysis and an error can be shown together; the
  upload control stays usable while a call is pending; the result of a removed CV is still
  shown; a grounding chunk without \<open>web\<close> blanks the page; the library errors of pdf.js whose messages contain "empty" reach the user; the
  result view shows the summary and key improvement before the score bars; a reply
  \<open>{}\<close> is accepted and then crashes the render, which blanks the page; and a file
  named \<open>""\<close> leaves the drop zone usable while its CV is loaded
  (\<open>unnamed_file_parse_while_ready\<close>).

  \<^bold>\<open>Not modelled.\<close> Class names, CSS colours, layout, the icons' SVG paths and
  the score bar's \<open>width\<close> style are not modelled; every view keeps the values and text it
  shows and the colour band. The assignment of the pdf.js worker URL at the top of
  \<open>fileParser.ts\<close> configures the library, which is a parameter here. The module-level
  check of the API key is modelled as a function of the environment's value
  (\<open>gemini_module_init\<close>); the construction of the client object from the key is not,
  since the remote model is a parameter. The internals of the browser, pdf.js, React's
  scheduler and the remote model appear only as the parameters described above. Console
  logging is not modelled.
\<close>

subsection \<open>Inputs of the witnesses\<close>

definition docx_file :: js_file where
  "docx_file =
     \<lparr>file_name = ''cv.docx'',
      file_type = ''application/vnd.openxmlformats-officedocument.wordprocessingml.document'',
      file_contents = Inr [80, 75]\<rparr>"

definition prose_model :: remote_model where
  "prose_model prompt = Inr \<lparr>response_text = Some ''Sorry, I cannot help with that.'', candidates = None\<rparr>"

text \<open>A model that answers \<open>{}\<close>: valid JSON, truthy, and without any field of the
  schema.\<close>

definition empty_object_model :: remote_model where
  "empty_object_model prompt = Inr \<lparr>response_text = Some ''{}'', candidates = None\<rparr>"

text \<open>A text file whose name is the empty string (the \<open>File\<close> API allows it).\<close>

definition unnamed_file :: js_file where
  "unnamed_file = (txt_file [65])\<lparr>file_name := []\<rparr>"

text \<open>A property of the reply that JSX renders as text or as nothing: absent, \<open>null\<close>, a
  boolean, a number or a string (not an array or object).\<close>

definition scalar_opt :: "json option \<Rightarrow> bool" where
  "scalar_opt v = (case v of Some (JArr _) \<Rightarrow> False | Some (JObj _) \<Rightarrow> False | _ \<Rightarrow> True)"

subsection \<open>Lemmas\<close>

lemma empty_txt_read: "extract_text_from_file example_browser (txt_file []) = Inl (Error txt_empty_msg)"
  by (simp add: extract_defs example_simps js_trim_def)

lemma prose_model_result:
  "analyze_cv_with_trends prose_model cv ind = Inl (Error structured_failure_msg)"
proof -
  have "json_parse (strip_fence ''Sorry, I cannot help with that.'') = Inl json_syntax_error"
    by code_simp
  then show ?thesis
    by (simp add: analyze_cv_with_trends_def prose_model_def parse_analysis_response_def Let_def)
qed

lemma scalar_render: "scalar_opt v \<Longrightarrow> \<exists>ch. render_value v = Inr ch"
  by (auto simp: scalar_opt_def render_value_def split: option.splits json.splits)

lemma scalar_map: "scalar_opt v \<Longrightarrow> js_map v f = Inl type_error"
  by (auto simp: scalar_opt_def js_map_def split: option.splits json.splits)

lemma analysis_display_breakdown_fails:
  assumes "js_prop (Some a) ''overallScore'' = Inr v1" and "render_value v1 = Inr c1"
    and "js_prop (Some a) ''summary'' = Inr v2" and "render_value v2 = Inr c2"
    and "js_prop (Some a) ''keyImprovement'' = Inr v3" and "render_value v3 = Inr c3"
    and "js_prop (Some a) ''scoreBreakdown'' = Inr v4" and "js_map v4 breakdown_item = Inl e"
  shows "analysis_display a srcs = Inl e"
  unfolding analysis_display_def radial_progress_def by (simp only: assms sbind_simps)

lemma analysis_display_scalar_breakdown:
  assumes "scalar_opt (json_get (JObj ms) ''overallScore'')" and "scalar_opt (json_get (JObj ms) ''summary'')"
    and "scalar_opt (json_get (JObj ms) ''keyImprovement'')"
    and "scalar_opt (json_get (JObj ms) ''scoreBreakdown'')"
  shows "analysis_display (JObj ms) srcs = Inl type_error"
proof -
  obtain c1 where c1: "render_value (json_get (JObj ms) ''overallScore'') = Inr c1"
    using scalar_render [OF assms(1)] by blast
  obtain c2 where c2: "render_value (json_get (JObj ms) ''summary'') = Inr c2"
    using scalar_render [OF assms(2)] by blast
  obtain c3 where c3: "render_value (json_get (JObj ms) ''keyImprovement'') = Inr c3"
    using scalar_render [OF assms(3)] by blast
  show ?thesis
    by (rule analysis_display_breakdown_fails [OF js_prop_obj c1 js_prop_obj c2 js_prop_obj c3
          js_prop_obj scalar_map [OF assms(4)]])
qed

lemma file_view_not_parsing: "in_file_view (u, s) \<Longrightarrow> \<not> is_parsing u"
  by (auto simp: in_file_view_def upload_view_def)

lemma remove_then_select:
  assumes "in_file_view (u, s)"
  shows "run [UI ClickRemove, UI (SelectFiles [f])] (u, s)
         = Some (process_file_start app_upload_props f (u, handle_remove_file s))"
  using assms file_view_not_parsing [OF assms]
  by (simp add: in_drop_zone_def upload_view_def handle_remove_file_def handle_file_select_def
      process_first_def)

subsection \<open>The scenarios of the specification, for every input\<close>

text \<open>C13: the client checks no field of the reply. For every page with a pending call and
  every reply that the client parses to an object whose \<open>scoreBreakdown\<close> is absent or not
  an array (and whose score, summary and key improvement render as text, as the witness
  \<open>{}\<close> does), the object is stored as the analysis and loading ends. Rendering the result
  view then throws the \<open>TypeError\<close> of \<open>analysis.scoreBreakdown.map\<close>, which unmounts the
  whole page.\<close>

theorem unchecked_reply_crashes:
  assumes "pending_analysis s = Some (cv, ind)" and "g (analysis_request cv ind) = Inr resp"
    and "parse_analysis_response (response_text resp) = JObj ms"
    and "scalar_opt (json_get (JObj ms) ''overallScore'')" and "scalar_opt (json_get (JObj ms) ''summary'')"
    and "scalar_opt (json_get (JObj ms) ''keyImprovement'')"
    and "scalar_opt (json_get (JObj ms) ''scoreBreakdown'')"
  shows "page_step (AnalysisDone g) (u, s)
           = Some (u, s\<lparr>analysis := Some (JObj ms), sources := response_sources resp,
                       is_loading := False, pending_analysis := None\<rparr>)
         \<and> app_panels (s\<lparr>analysis := Some (JObj ms), sources := response_sources resp,
                          is_loading := False, pending_analysis := None\<rparr>) = Inl type_error"
proof -
  have "analyze_cv_with_trends g cv ind = Inr (Some (JObj ms, response_sources resp))"
    using analyze_response [of g cv ind resp, OF assms(2)] assms(3) by simp
  then show ?thesis
    using assms(1) analysis_display_scalar_breakdown [OF assms(4-7)]
    by (simp add: finish_analysis_def handle_analyze_finish_def app_panels_def)
qed

theorem unchecked_reply_crashes_witness:
  "pending_analysis (snd page_loading) = Some (example_cv_text, example_industry)
   \<and> parse_analysis_response (Some ''{}'') = JObj []
   \<and> page_step (AnalysisDone empty_object_model) page_loading
     = Some (fst page_loading, (snd page_loading)\<lparr>analysis := Some (JObj []), sources := [],
               is_loading := False, pending_analysis := None\<rparr>)
   \<and> app_panels ((snd page_loading)\<lparr>analysis := Some (JObj []), sources := [],
               is_loading := False, pending_analysis := None\<rparr>) = Inl type_error"
proof -
  have pe: "pending_analysis (snd page_loading) = Some (example_cv_text, example_industry)"
    by (simp add: page_loading_def)
  have "json_parse (strip_fence ''{}'') = Inr (JObj [])" by code_simp
  then have pa: "parse_analysis_response (Some ''{}'') = JObj []"
    by (simp add: parse_analysis_response_def)
  have g: "empty_object_model (analysis_request example_cv_text example_industry)
      = Inr \<lparr>response_text = Some ''{}'', candidates = None\<rparr>"
    by (simp add: empty_object_model_def)
  have sc: "scalar_opt (json_get (JObj []) k)" for k by (simp add: scalar_opt_def json_get_def)
  show ?thesis
    using unchecked_reply_crashes [where s = "snd page_loading" and cv = example_cv_text
        and ind = example_industry and g = empty_object_model
        and resp = "\<lparr>response_text = Some ''{}'', candidates = None\<rparr>" and ms = "[]"
        and u = "fst page_loading", OF pe g] pa sc pe
    by (simp add: response_sources_def)
qed

text \<open>C17: whatever error the client rejects with (a network failure as in scenario D, or
  the structured-analysis failure of an unparseable reply as in scenario E), completing the
  call on a reachable page ends loading, stores no analysis, keeps the file and its text, and
  shows App's one generic message: the \<open>catch\<close> of \<open>handleAnalyze\<close> discards the error's
  own message, so scenario E's message never reaches the banner.\<close>

theorem analysis_failure_generic_banner:
  assumes "reachable (u, s)" and "pending_analysis s = Some (cv, ind)"
    and "analyze_cv_with_trends g cv ind = Inl e"
  shows "page_step (AnalysisDone g) (u, s)
           = Some (u, s\<lparr>error := Some analysis_failed_msg, is_loading := False, pending_analysis := None\<rparr>)
         \<and> analysis s = None"
proof -
  have "analysis s = None" using reachable_page_inv [OF assms(1)] assms(2) by (auto simp: page_inv_def)
  then show ?thesis
    using assms(2,3) by (simp add: finish_analysis_def handle_analyze_finish_def)
qed

theorem analysis_failure_generic_banner_witness:
  "reachable (fst page_loading, snd page_loading)
   \<and> analyze_cv_with_trends prose_model example_cv_text example_industry
     = Inl (Error structured_failure_msg)
   \<and> page_step (AnalysisDone prose_model) page_loading
     = Some (fst page_loading, (snd page_loading)\<lparr>error := Some analysis_failed_msg,
               is_loading := False, pending_analysis := None\<rparr>)
   \<and> analysis_failed_msg \<noteq> structured_failure_msg"
proof -
  have r: "reachable (fst page_loading, snd page_loading)" using example_reachable(3) by simp
  have pe: "pending_analysis (snd page_loading) = Some (example_cv_text, example_industry)"
    by (simp add: page_loading_def)
  show ?thesis
    using analysis_failure_generic_banner [OF r pe prose_model_result] r prose_model_result
    by (simp add: analysis_failed_msg_def structured_failure_msg_def)
qed

text \<open>C18: the session-state invariant of the specification (a stored analysis implies no
  error) is not kept: on every page whose upload control shows the file, removing it and
  selecting a file of an unsupported type sets the error and keeps everything else, the
  stored analysis included, so the error banner and the result view are shown together.\<close>

theorem result_and_error_together:
  assumes "in_file_view (u, s)" and "file_type f \<notin> set accepted_mime_types"
  shows "run [UI ClickRemove, UI (SelectFiles [f])] (u, s)
         = Some (u, s\<lparr>cv_text := [], cv_file_name := None, error := Some unsupported_upload_msg\<rparr>)"
  using remove_then_select [OF assms(1)] assms(2)
  by (simp add: process_file_start_def app_upload_props_def set_error_def handle_remove_file_def)

theorem result_and_error_together_witness:
  "in_file_view page_result \<and> file_type docx_file \<notin> set accepted_mime_types
   \<and> analysis (snd page_result) = Some example_analysis
   \<and> run [UI ClickRemove, UI (SelectFiles [docx_file])] page_result
     = Some (fst page_result, (snd page_result)\<lparr>cv_text := [], cv_file_name := None,
               error := Some unsupported_upload_msg\<rparr>)"
proof -
  have v: "in_file_view (fst page_result, snd page_result)" and t: "file_type docx_file \<notin> set accepted_mime_types"
    by (simp_all add: in_file_view_def upload_view_def page_result_def page_ready_def upload_init_def
        docx_file_def accepted_mime_types_def)
  show ?thesis using result_and_error_together [OF v t] v t
    by (simp add: page_result_def page_ready_def app_init_def)
qed

text \<open>C19: the upload control is not disabled while a call is pending: on every page whose
  upload control shows the file, removing it and selecting a supported file starts an
  extraction and leaves \<open>isLoading\<close> and the pending call as they are, so a page that is
  loading and parsing at once is reached from every loading page with a file.\<close>

theorem upload_while_loading:
  assumes "in_file_view (u, s)" and "file_type f \<in> set accepted_mime_types"
  shows "run [UI ClickRemove, UI (SelectFiles [f])] (u, s)
         = Some (u\<lparr>is_parsing := True, parsing_file_name := Some (file_name f), pending_parse := Some f\<rparr>,
                 s\<lparr>cv_text := [], cv_file_name := None, error := Some []\<rparr>)"
  using remove_then_select [OF assms(1)] assms(2)
  by (simp add: process_file_start_def app_upload_props_def set_error_def handle_remove_file_def)

theorem upload_while_loading_witness:
  "in_file_view page_loading \<and> file_type (txt_file [65]) \<in> set accepted_mime_types
   \<and> is_loading (snd page_loading)
   \<and> run [UI ClickRemove, UI (SelectFiles [txt_file [65]])] page_loading
     = Some ((fst page_loading)\<lparr>is_parsing := True, parsing_file_name := Some ''cv.txt'',
                                 pending_parse := Some (txt_file [65])\<rparr>,
             (snd page_loading)\<lparr>cv_text := [], cv_file_name := None, error := Some []\<rparr>)"
proof -
  have v: "in_file_view (fst page_loading, snd page_loading)"
    and t: "file_type (txt_file [65]) \<in> set accepted_mime_types"
    by (simp_all add: in_file_view_def upload_view_def page_loading_def page_ready_def upload_init_def
        txt_file_def accepted_mime_types_def)
  show ?thesis using upload_while_loading [OF v t] v t
    by (simp add: page_loading_def txt_file_def)
qed

text \<open>C21: scenario A for every input: from every page that shows the drop zone and is not
  loading, selecting a supported file that the browser extracts, typing a non-blank industry,
  clicking analyze and a model reply that the client accepts end with exactly that analysis
  and its sources stored, the file and its text kept, no error and nothing pending.\<close>

theorem session_success:
  assumes "in_drop_zone (u, s)" and "\<not> is_loading s"
    and "file_type f \<in> set accepted_mime_types" and "extract_text_from_file br f = Inr text"
    and "\<not> all_space ind" and "analyze_cv_with_trends g text ind = Inr (Some (a, src))"
  shows "run [UI (SelectFiles [f]), ExtractionDone br, UI (TypeIndustry ind), UI ClickAnalyze,
              AnalysisDone g] (u, s)
         = Some (u\<lparr>is_parsing := False, parsing_file_name := None, pending_parse := None\<rparr>,
                 s\<lparr>cv_text := text, cv_file_name := Some (file_name f), industry := ind, error := None,
                   analysis := Some a, sources := src, is_loading := False, pending_analysis := None\<rparr>)"
proof -
  have t: "text \<noteq> []" using extract_text_not_blank [OF assms(4)] by (auto simp: all_space_def)
  have i: "ind \<noteq> []" and ti: "js_trim ind \<noteq> []" using assms(5) by (auto simp: js_trim_Nil_iff all_space_def)
  show ?thesis
    using assms t i ti
    by (simp add: page_step_simps process_file_start_def)
qed

theorem session_success_witness:
  "in_drop_zone page_init \<and> file_type (txt_file [65]) \<in> set accepted_mime_types
   \<and> extract_text_from_file example_browser (txt_file [65]) = Inr example_cv_text
   \<and> \<not> all_space example_industry
   \<and> analyze_cv_with_trends example_model example_cv_text example_industry
     = Inr (Some (example_analysis, example_sources))
   \<and> run [UI (SelectFiles [txt_file [65]]), ExtractionDone example_browser,
          UI (TypeIndustry example_industry), UI ClickAnalyze, AnalysisDone example_model] page_init
     = Some (upload_init, app_init\<lparr>cv_text := example_cv_text, cv_file_name := Some ''cv.txt'',
               industry := example_industry, analysis := Some example_analysis,
               sources := example_sources\<rparr>)"
proof -
  have d: "in_drop_zone (fst page_init, snd page_init)"
    by (simp add: in_drop_zone_def upload_view_def page_init_def upload_init_def app_init_def)
  have l: "\<not> is_loading (snd page_init)" by (simp add: page_init_def app_init_def)
  have t: "file_type (txt_file [65]) \<in> set accepted_mime_types"
    by (simp add: txt_file_def accepted_mime_types_def)
  have i: "\<not> all_space example_industry" by (simp add: example_industry_def is_js_space_code)
  show ?thesis
    using session_success [OF d l t example_cv_read i example_model_result] d t i
      example_cv_read example_model_result
    by (simp add: page_init_def upload_init_def app_init_def txt_file_def)
qed

text \<open>C23: scenario B for every input: from every page that shows the drop zone, a supported
  file whose extraction fails (an empty or blank file, an unreadable one, a PDF without text)
  leaves no file and no CV text, shows the extraction's message, ends parsing and keeps the
  analyze button disabled, so no call can be made.\<close>

theorem extraction_failure_clears:
  assumes "in_drop_zone (u, s)" and "file_type f \<in> set accepted_mime_types"
    and "extract_text_from_file br f = Inl e"
  shows "run [UI (SelectFiles [f]), ExtractionDone br] (u, s)
           = Some (u\<lparr>is_parsing := False, parsing_file_name := None, pending_parse := None\<rparr>,
                   s\<lparr>cv_text := [], cv_file_name := None, error := Some (message e)\<rparr>)
         \<and> analyze_disabled (s\<lparr>cv_text := [], cv_file_name := None, error := Some (message e)\<rparr>)"
  using assms by (simp add: page_step_simps process_file_start_def)

theorem extraction_failure_clears_witness:
  "in_drop_zone page_init \<and> file_type (txt_file []) \<in> set accepted_mime_types
   \<and> extract_text_from_file example_browser (txt_file []) = Inl (Error txt_empty_msg)
   \<and> run [UI (SelectFiles [txt_file []]), ExtractionDone example_browser] page_init
     = Some (upload_init, app_init\<lparr>error := Some txt_empty_msg\<rparr>)
   \<and> analyze_disabled (app_init\<lparr>error := Some txt_empty_msg\<rparr>)"
proof -
  have d: "in_drop_zone (fst page_init, snd page_init)"
    by (simp add: in_drop_zone_def upload_view_def page_init_def upload_init_def app_init_def)
  have t: "file_type (txt_file []) \<in> set accepted_mime_types"
    by (simp add: txt_file_def accepted_mime_types_def)
  show ?thesis
    using extraction_failure_clears [OF d t empty_txt_read] d t empty_txt_read
    by (simp add: page_init_def upload_init_def app_init_def)
qed

text \<open>C24: a result arrives for a CV that is no longer there: on every page whose upload
  control shows the file while a call is pending, removing the file and then the model's
  accepted reply store the analysis of the removed CV, on a page with no CV.\<close>

theorem result_after_removal:
  assumes "in_file_view (u, s)" and "pending_analysis s = Some (cv, ind)"
    and "analyze_cv_with_trends g cv ind = Inr (Some (a, src))"
  shows "run [UI ClickRemove, AnalysisDone g] (u, s)
           = Some (u, s\<lparr>cv_text := [], cv_file_name := None, analysis := Some a, sources := src,
                       is_loading := False, pending_analysis := None\<rparr>)"
  using assms
  by (simp add: handle_remove_file_def finish_analysis_def handle_analyze_finish_def)

theorem result_after_removal_witness:
  "in_file_view page_loading
   \<and> pending_analysis (snd page_loading) = Some (example_cv_text, example_industry)
   \<and> run [UI ClickRemove, AnalysisDone example_model] page_loading
     = Some (fst page_loading, (snd page_loading)\<lparr>cv_text := [], cv_file_name := None,
               analysis := Some example_analysis, sources := example_sources,
               is_loading := False, pending_analysis := None\<rparr>)"
proof -
  have v: "in_file_view (fst page_loading, snd page_loading)"
    by (simp add: in_file_view_def upload_view_def page_loading_def page_ready_def upload_init_def)
  have pe: "pending_analysis (snd page_loading) = Some (example_cv_text, example_industry)"
    by (simp add: page_loading_def)
  show ?thesis using result_after_removal [OF v pe example_model_result] v pe by simp
qed

text \<open>An edge of the agreement between App and the upload control: App stores the name of
  the extracted file, but \<open>FileUpload\<close> tests \<open>fileName\<close> for truthiness. After a
  file named \<open>""\<close> is loaded, the control shows the drop zone again, so a second file
  can be selected: its extraction runs while App holds the first CV and the analyze button
  is enabled.\<close>

lemma unnamed_file_parse_while_ready:
  "(case run [UI (TypeIndustry example_industry), UI (SelectFiles [unnamed_file]),
              ExtractionDone example_browser, UI (SelectFiles [txt_file [65]])] page_init of
      None \<Rightarrow> False
    | Some (u, s) \<Rightarrow> is_parsing u \<and> cv_text s = example_cv_text \<and> \<not> analyze_disabled s
        \<and> upload_view u (cv_file_name s) = ParsingView (Some ''cv.txt''))"
proof -
  have r: "extract_text_from_file example_browser
      \<lparr>file_name = [], file_type = ''text/plain'', file_contents = Inr [65]\<rparr> = Inr example_cv_text"
    using example_cv_read
    by (simp add: txt_file_def extract_text_from_file_def read_text_file_def)
  show ?thesis
    by (simp add: page_step_simps page_init_def r unnamed_file_def txt_file_def example_industry_def
        example_cv_text_def js_trim_Nil_iff is_js_space_code)
qed
end
